theory Spec2Isabelle
  imports Complex_Main
begin

section \<open>The tables\<close>

text \<open>
  The cart and order engine of the repository is four stored procedures, written in the
  procedural language of PostgreSQL, over the tables \<open>menu_items\<close>, \<open>cart_items\<close>,
  \<open>orders\<close> and \<open>order_items\<close>: \<open>add_to_cart_with_quantity_check\<close>,
  \<open>update_cart_quantity_with_stock_check\<close>, \<open>remove_from_cart_with_quantity_restore\<close> and
  \<open>place_order_with_cart_clear\<close>. The file \<open>20250713120623_winter_spire.sql\<close> holds two
  revisions of them, and both are embedded here. (The earlier migration
  \<open>20250713120102_holy_portal.sql\<close> holds a first revision, which this file drops and
  replaces.)

  Modelled from the spec: the declarations of the four tables are not among the migrations
  at hand. A table is the list of its rows; a row is a record of the columns the procedures
  read or write, with the types of the specification's data model. The timestamp columns
  (\<open>created_at\<close>, \<open>updated_at\<close>) are set to \<open>now()\<close> and never read, and are left out, as
  is the \<open>id\<close> of an \<open>order_items\<close> row. A \<open>uuid\<close> is a natural number. SQL \<open>integer\<close> is a
  32-bit signed integer whose arithmetic raises \<open>integer out of range\<close> instead of
  wrapping; \<open>numeric\<close> is a rational number. No column is \<open>NULL\<close>. The keys are \<open>id\<close> in
  every table and \<open>(user_id, menu_item_id)\<close> in \<open>cart_items\<close>, which the \<open>ON CONFLICT\<close>
  clause of the source needs; no other constraint of the tables is assumed.

  Each call of a procedure is one transaction, and the calls of a run follow one another;
  transactions that overlap in time are not modelled. The procedures are
  \<open>SECURITY DEFINER\<close>, so the row-level policy of the first migration,
  \<open>WITH CHECK (quantity_available >= 0)\<close>, is not what keeps them from overselling; no
  theorem below relies on it.
\<close>

type_synonym uuid = nat

record menu_item =
  mi_id :: uuid
  mi_name :: string
  mi_price :: rat
  quantity_available :: int

record cart_item =
  ci_id :: uuid
  ci_user_id :: uuid
  ci_menu_item_id :: uuid
  ci_quantity :: int

record order_row =
  o_id :: uuid
  o_user_id :: uuid
  o_total_amount :: rat
  o_status :: string
  o_payment_status :: string

record order_item =
  oi_order_id :: uuid
  oi_menu_item_id :: uuid
  oi_quantity :: int
  oi_price :: rat

record db =
  menu_items :: "menu_item list"
  cart_items :: "cart_item list"
  orders :: "order_row list"
  order_items :: "order_item list"

section \<open>Values, errors and results\<close>

text \<open>
  \<open>json_build_object\<close> builds an object from keys and values in the order written. A
  procedure either returns such an object or lets an exception escape to its caller.
\<close>

datatype jval = JBool bool | JInt int | JNum rat | JUuid uuid | JStr string | JNull

type_synonym json = "(string \<times> jval) list"

datatype sqlerr = Numeric_value_out_of_range | Unique_violation

datatype outcome = Returned json | Raised sqlerr

text \<open>\<open>SQLERRM\<close>; for a unique violation PostgreSQL appends the constraint's name.\<close>

fun sqlerrm :: "sqlerr \<Rightarrow> string" where
  "sqlerrm Numeric_value_out_of_range = ''integer out of range''"
| "sqlerrm Unique_violation = ''duplicate key value violates unique constraint''"

text \<open>The text of an \<open>integer\<close>, as \<open>||\<close> and \<open>format('%s')\<close> render it.\<close>

fun show_nat :: "nat \<Rightarrow> string" where
  "show_nat n =
     (if n < 10 then [''0123456789'' ! n]
      else show_nat (n div 10) @ [''0123456789'' ! (n mod 10)])"

declare show_nat.simps [simp del]

definition show_int :: "int \<Rightarrow> string" where
  "show_int i = (if i < 0 then CHR ''-'' # show_nat (nat (- i)) else show_nat (nat i))"

definition in_int4 :: "int \<Rightarrow> bool" where
  "in_int4 x = (- 2147483648 \<le> x \<and> x \<le> 2147483647)"

text \<open>The result of one \<open>integer\<close> addition or subtraction.\<close>

definition int4 :: "int \<Rightarrow> sqlerr + int" where
  "int4 x = (if in_int4 x then Inr x else Inl Numeric_value_out_of_range)"

section \<open>SQL statements\<close>

text \<open>
  A statement takes the tables and gives the tables after it, or the exception it raises.
  A raised exception carries no tables: the enclosing block's \<open>EXCEPTION\<close> clause
  continues from the tables as they were when the block was entered, and an exception that
  no clause catches aborts the transaction, which leaves the tables as they were when the
  procedure was called.
\<close>

text \<open>\<open>SELECT ... FROM menu_items WHERE id = p_menu_item_id\<close>.\<close>

definition select_menu_item :: "uuid \<Rightarrow> db \<Rightarrow> menu_item option" where
  "select_menu_item p_menu_item_id s = find (\<lambda>m. mi_id m = p_menu_item_id) (menu_items s)"

text \<open>\<open>SELECT ... FROM cart_items WHERE user_id = p_user_id AND menu_item_id = p_menu_item_id\<close>.\<close>

definition select_cart_item_of_user :: "uuid \<Rightarrow> uuid \<Rightarrow> db \<Rightarrow> cart_item option" where
  "select_cart_item_of_user p_user_id p_menu_item_id s =
     find (\<lambda>c. ci_user_id c = p_user_id \<and> ci_menu_item_id c = p_menu_item_id) (cart_items s)"

text \<open>\<open>SELECT ... FROM cart_items WHERE id = p_cart_item_id AND user_id = p_user_id\<close>.\<close>

definition select_cart_item :: "uuid \<Rightarrow> uuid \<Rightarrow> db \<Rightarrow> cart_item option" where
  "select_cart_item p_cart_item_id p_user_id s =
     find (\<lambda>c. ci_id c = p_cart_item_id \<and> ci_user_id c = p_user_id) (cart_items s)"

text \<open>
  \<open>SELECT ... FROM cart_items ci JOIN menu_items mi ON ci.menu_item_id = mi.id
  WHERE ci.id = p_cart_item_id AND ci.user_id = p_user_id\<close>: a cart row without its menu
  row is not in the join.
\<close>

definition select_cart_item_join :: "uuid \<Rightarrow> uuid \<Rightarrow> db \<Rightarrow> (cart_item \<times> menu_item) option" where
  "select_cart_item_join p_cart_item_id p_user_id s =
     (case find (\<lambda>c. ci_id c = p_cart_item_id \<and> ci_user_id c = p_user_id
                       \<and> select_menu_item (ci_menu_item_id c) s \<noteq> None) (cart_items s) of
        None \<Rightarrow> None
      | Some c \<Rightarrow> (case select_menu_item (ci_menu_item_id c) s of
                    None \<Rightarrow> None
                  | Some m \<Rightarrow> Some (c, m)))"

text \<open>
  \<open>UPDATE menu_items SET quantity_available = f (quantity_available) WHERE id = i\<close>, where
  \<open>f\<close> is one \<open>integer\<close> addition or subtraction.
\<close>

definition update_menu_items :: "(int \<Rightarrow> int) \<Rightarrow> uuid \<Rightarrow> db \<Rightarrow> sqlerr + db" where
  "update_menu_items f i s =
     (if list_ex (\<lambda>m. mi_id m = i \<and> \<not> in_int4 (f (quantity_available m))) (menu_items s)
      then Inl Numeric_value_out_of_range
      else Inr (s\<lparr>menu_items :=
                  map (\<lambda>m. if mi_id m = i then m\<lparr>quantity_available := f (quantity_available m)\<rparr> else m)
                      (menu_items s)\<rparr>))"

text \<open>\<open>UPDATE cart_items SET quantity = f (quantity) WHERE P\<close>.\<close>

definition update_cart_items :: "(int \<Rightarrow> int) \<Rightarrow> (cart_item \<Rightarrow> bool) \<Rightarrow> db \<Rightarrow> sqlerr + db" where
  "update_cart_items f P s =
     (if list_ex (\<lambda>c. P c \<and> \<not> in_int4 (f (ci_quantity c))) (cart_items s)
      then Inl Numeric_value_out_of_range
      else Inr (s\<lparr>cart_items :=
                  map (\<lambda>c. if P c then c\<lparr>ci_quantity := f (ci_quantity c)\<rparr> else c) (cart_items s)\<rparr>))"

text \<open>\<open>DELETE FROM cart_items WHERE P\<close>.\<close>

definition delete_cart_items :: "(cart_item \<Rightarrow> bool) \<Rightarrow> db \<Rightarrow> db" where
  "delete_cart_items P s = s\<lparr>cart_items := filter (\<lambda>c. \<not> P c) (cart_items s)\<rparr>"

text \<open>
  \<open>INSERT INTO cart_items (user_id, menu_item_id, quantity) VALUES (u, i, v)
  ON CONFLICT (user_id, menu_item_id) DO UPDATE SET quantity = cart_items.quantity + p_quantity
  RETURNING id\<close>. The column default generates the new row's \<open>id\<close>; the generated value is
  the argument \<open>new_id\<close>, and a value that is already the \<open>id\<close> of a row violates the
  primary key. The result is the \<open>id\<close> of the row inserted or updated.
\<close>

definition insert_cart_items_on_conflict ::
  "uuid \<Rightarrow> uuid \<Rightarrow> uuid \<Rightarrow> int \<Rightarrow> int \<Rightarrow> db \<Rightarrow> sqlerr + (uuid \<times> db)" where
  "insert_cart_items_on_conflict new_id u i v p_quantity s =
     (case select_cart_item_of_user u i s of
        Some c \<Rightarrow>
          (case update_cart_items (\<lambda>q. q + p_quantity)
                  (\<lambda>c. ci_user_id c = u \<and> ci_menu_item_id c = i) s of
             Inl e \<Rightarrow> Inl e
           | Inr s' \<Rightarrow> Inr (ci_id c, s'))
      | None \<Rightarrow>
          (if new_id \<in> set (map ci_id (cart_items s)) then Inl Unique_violation
           else Inr (new_id,
                  s\<lparr>cart_items := cart_items s @
                     [\<lparr>ci_id = new_id, ci_user_id = u, ci_menu_item_id = i, ci_quantity = v\<rparr>]\<rparr>)))"

text \<open>
  \<open>INSERT INTO orders (user_id, total_amount, status, payment_status)
  VALUES (u, v_total_amount, 'pending', 'pending') RETURNING id\<close>, the generated \<open>id\<close> again an
  argument.
\<close>

definition insert_orders :: "uuid \<Rightarrow> uuid \<Rightarrow> rat \<Rightarrow> db \<Rightarrow> sqlerr + db" where
  "insert_orders new_id u v_total_amount s =
     (if new_id \<in> set (map o_id (orders s)) then Inl Unique_violation
      else Inr (s\<lparr>orders := orders s @
                  [\<lparr>o_id = new_id, o_user_id = u, o_total_amount = v_total_amount,
                    o_status = ''pending'', o_payment_status = ''pending''\<rparr>]\<rparr>))"

text \<open>\<open>INSERT INTO order_items (order_id, menu_item_id, quantity, price) VALUES (...)\<close>.\<close>

definition insert_order_items :: "uuid \<Rightarrow> uuid \<Rightarrow> int \<Rightarrow> rat \<Rightarrow> db \<Rightarrow> db" where
  "insert_order_items v_order_id i q p s =
     s\<lparr>order_items := order_items s @
        [\<lparr>oi_order_id = v_order_id, oi_menu_item_id = i, oi_quantity = q, oi_price = p\<rparr>]\<rparr>"

text \<open>
  \<open>SELECT ... FROM cart_items ci JOIN menu_items mi ON ci.menu_item_id = mi.id
  WHERE ci.user_id = p_user_id\<close>.
\<close>

definition cart_join :: "uuid \<Rightarrow> db \<Rightarrow> (cart_item \<times> menu_item) list" where
  "cart_join p_user_id s =
     List.map_filter
       (\<lambda>c. case select_menu_item (ci_menu_item_id c) s of
               None \<Rightarrow> None
             | Some m \<Rightarrow> Some (c, m))
       (filter (\<lambda>c. ci_user_id c = p_user_id) (cart_items s))"

section \<open>The procedures of the revision that returns \<open>json\<close>\<close>

text \<open>
  The migration \<open>20250713120623_winter_spire.sql\<close> holds two revisions of the four
  procedures. The first (``Fix Cart Operations'') returns \<open>json\<close>; its procedures keep
  the source's names. A block \<open>BEGIN ... EXCEPTION WHEN OTHERS THEN ... END\<close> runs its
  statements in turn; when one raises, its handler returns from the tables the block started
  with. The statements of each block are a definition of their own, which gives the values
  the \<open>RETURN\<close> at the block's end reports and the tables it leaves.
\<close>

text \<open>
  The block of \<open>add_to_cart_with_quantity_check\<close>, the same statements in both revisions:
  the \<open>UPDATE\<close> of the menu row, the insert or update of the cart row, and the values
  \<open>new_quantity\<close> and \<open>remaining_stock\<close> of the result.
\<close>

definition add_to_cart_statements ::
  "uuid \<Rightarrow> uuid \<Rightarrow> uuid \<Rightarrow> int \<Rightarrow> int \<Rightarrow> int \<Rightarrow> db \<Rightarrow> sqlerr + (uuid \<times> int \<times> int \<times> db)" where
  "add_to_cart_statements new_id p_user_id p_menu_item_id p_quantity
       v_available_quantity v_current_cart_quantity s =
     (case update_menu_items (\<lambda>q. q - p_quantity) p_menu_item_id s of
        Inl e \<Rightarrow> Inl e
      | Inr s1 \<Rightarrow>
     (case int4 (v_current_cart_quantity + p_quantity) of
        Inl e \<Rightarrow> Inl e
      | Inr v_new \<Rightarrow>
     (case insert_cart_items_on_conflict new_id p_user_id p_menu_item_id v_new p_quantity s1 of
        Inl e \<Rightarrow> Inl e
      | Inr (v_cart_item_id, s2) \<Rightarrow>
     (case int4 (v_available_quantity - p_quantity) of
        Inl e \<Rightarrow> Inl e
      | Inr v_remaining \<Rightarrow> Inr (v_cart_item_id, v_new, v_remaining, s2)))))"

definition add_to_cart_with_quantity_check ::
  "uuid \<Rightarrow> uuid \<Rightarrow> uuid \<Rightarrow> int \<Rightarrow> db \<Rightarrow> outcome \<times> db" where
  "add_to_cart_with_quantity_check new_id p_user_id p_menu_item_id p_quantity s =
     (case select_menu_item p_menu_item_id s of
        None \<Rightarrow>
          (Returned [(''success'', JBool False), (''error'', JStr ''Menu item not found'')], s)
      | Some mi \<Rightarrow>
          (let v_available_quantity = quantity_available mi;
               v_menu_item_name = mi_name mi;
               v_current_cart_quantity =
                 (case select_cart_item_of_user p_user_id p_menu_item_id s of
                    None \<Rightarrow> 0
                  | Some c \<Rightarrow> ci_quantity c)
           in if v_available_quantity < p_quantity then
                (Returned [(''success'', JBool False),
                           (''error'', JStr (''Not enough stock available. Only ''
                              @ show_int v_available_quantity @ '' items left.''))], s)
              else
                (case add_to_cart_statements new_id p_user_id p_menu_item_id p_quantity
                        v_available_quantity v_current_cart_quantity s of
                   Inr (v_cart_item_id, v_new, v_remaining, s') \<Rightarrow>
                     (Returned [(''success'', JBool True),
                                (''message'', JStr (v_menu_item_name @ '' added to cart successfully!'')),
                                (''new_quantity'', JInt v_new),
                                (''remaining_stock'', JInt v_remaining)], s')
                 | Inl e \<Rightarrow>
                     (Returned [(''success'', JBool False),
                                (''error'', JStr (''Failed to add item to cart: '' @ sqlerrm e))], s))))"

text \<open>
  The removal block, in \<open>remove_from_cart_with_quantity_restore\<close> and in the branch
  \<open>p_new_quantity <= 0\<close> of \<open>update_cart_quantity_with_stock_check\<close>: the \<open>DELETE\<close> of the
  cart row, then the \<open>UPDATE\<close> that gives its quantity back to the menu row.
\<close>

definition delete_then_restore :: "uuid \<Rightarrow> uuid \<Rightarrow> int \<Rightarrow> uuid \<Rightarrow> db \<Rightarrow> sqlerr + db" where
  "delete_then_restore p_user_id p_cart_item_id v_quantity v_menu_item_id s =
     update_menu_items (\<lambda>q. q + v_quantity) v_menu_item_id
       (delete_cart_items (\<lambda>c. ci_id c = p_cart_item_id \<and> ci_user_id c = p_user_id) s)"

text \<open>
  The last block of \<open>update_cart_quantity_with_stock_check\<close>: the \<open>UPDATE\<close> of the cart row,
  the \<open>UPDATE\<close> of the menu row, and the value \<open>remaining_stock\<close> of the result.
\<close>

definition update_quantity_statements ::
  "uuid \<Rightarrow> uuid \<Rightarrow> int \<Rightarrow> int \<Rightarrow> int \<Rightarrow> uuid \<Rightarrow> db \<Rightarrow> sqlerr + (int \<times> db)" where
  "update_quantity_statements p_user_id p_cart_item_id p_new_quantity v_quantity_diff
       v_available_quantity v_menu_item_id s =
     (case update_cart_items (\<lambda>q. p_new_quantity)
             (\<lambda>c. ci_id c = p_cart_item_id \<and> ci_user_id c = p_user_id) s of
        Inl e \<Rightarrow> Inl e
      | Inr s1 \<Rightarrow>
     (case update_menu_items (\<lambda>q. q - v_quantity_diff) v_menu_item_id s1 of
        Inl e \<Rightarrow> Inl e
      | Inr s2 \<Rightarrow>
     (case int4 (v_available_quantity - v_quantity_diff) of
        Inl e \<Rightarrow> Inl e
      | Inr v_remaining \<Rightarrow> Inr (v_remaining, s2))))"

text \<open>
  The difference \<open>p_new_quantity - v_current_quantity\<close> is computed outside every block, so
  its exception escapes the procedure.
\<close>

definition update_cart_quantity_with_stock_check ::
  "uuid \<Rightarrow> uuid \<Rightarrow> int \<Rightarrow> db \<Rightarrow> outcome \<times> db" where
  "update_cart_quantity_with_stock_check p_user_id p_cart_item_id p_new_quantity s =
     (case select_cart_item_join p_cart_item_id p_user_id s of
        None \<Rightarrow>
          (Returned [(''success'', JBool False), (''error'', JStr ''Cart item not found'')], s)
      | Some (ci, mi) \<Rightarrow>
          (let v_current_quantity = ci_quantity ci;
               v_menu_item_id = ci_menu_item_id ci;
               v_available_quantity = quantity_available mi;
               v_menu_item_name = mi_name mi
           in case int4 (p_new_quantity - v_current_quantity) of
                Inl e \<Rightarrow> (Raised e, s)
              | Inr v_quantity_diff \<Rightarrow>
                  if v_quantity_diff > 0 \<and> v_available_quantity < v_quantity_diff then
                    (Returned [(''success'', JBool False),
                               (''error'', JStr (''Not enough stock available. Only ''
                                  @ show_int v_available_quantity @ '' items left.''))], s)
                  else if p_new_quantity \<le> 0 then
                    (case delete_then_restore p_user_id p_cart_item_id v_current_quantity
                            v_menu_item_id s of
                       Inr s' \<Rightarrow>
                         (Returned [(''success'', JBool True),
                                    (''message'', JStr (v_menu_item_name @ '' removed from cart'')),
                                    (''action'', JStr ''removed'')], s')
                     | Inl e \<Rightarrow>
                         (Returned [(''success'', JBool False),
                                    (''error'', JStr (''Failed to remove item: '' @ sqlerrm e))], s))
                  else
                    (case update_quantity_statements p_user_id p_cart_item_id p_new_quantity
                            v_quantity_diff v_available_quantity v_menu_item_id s of
                       Inr (v_remaining, s') \<Rightarrow>
                         (Returned [(''success'', JBool True),
                                    (''message'', JStr (v_menu_item_name @ '' quantity updated successfully!'')),
                                    (''new_quantity'', JInt p_new_quantity),
                                    (''remaining_stock'', JInt v_remaining)], s')
                     | Inl e \<Rightarrow>
                         (Returned [(''success'', JBool False),
                                    (''error'', JStr (''Failed to update quantity: '' @ sqlerrm e))], s))))"

definition remove_from_cart_with_quantity_restore ::
  "uuid \<Rightarrow> uuid \<Rightarrow> db \<Rightarrow> outcome \<times> db" where
  "remove_from_cart_with_quantity_restore p_user_id p_cart_item_id s =
     (case select_cart_item_join p_cart_item_id p_user_id s of
        None \<Rightarrow>
          (Returned [(''success'', JBool False), (''error'', JStr ''Cart item not found'')], s)
      | Some (ci, mi) \<Rightarrow>
          (let v_quantity = ci_quantity ci;
               v_menu_item_id = ci_menu_item_id ci;
               v_menu_item_name = mi_name mi
           in case delete_then_restore p_user_id p_cart_item_id v_quantity v_menu_item_id s of
                Inr s' \<Rightarrow>
                  (Returned [(''success'', JBool True),
                             (''message'', JStr (v_menu_item_name @ '' removed from cart successfully!'')),
                             (''restored_quantity'', JInt v_quantity)], s')
              | Inl e \<Rightarrow>
                  (Returned [(''success'', JBool False),
                             (''error'', JStr (''Failed to remove item: '' @ sqlerrm e))], s)))"

text \<open>
  The \<open>FOR\<close> loop of the order placement runs over the join as it is when the loop starts
  and inserts one \<open>order_items\<close> row for each of its rows.
\<close>

definition insert_order_items_loop :: "uuid \<Rightarrow> (cart_item \<times> menu_item) list \<Rightarrow> db \<Rightarrow> db" where
  "insert_order_items_loop v_order_id rows s =
     fold (\<lambda>(c, m). insert_order_items v_order_id (ci_menu_item_id c) (ci_quantity c) (mi_price m))
          rows s"

text \<open>\<open>COALESCE (SUM (ci.quantity * mi.price), 0)\<close> over the join.\<close>

definition cart_total :: "uuid \<Rightarrow> db \<Rightarrow> rat" where
  "cart_total p_user_id s =
     sum_list (map (\<lambda>(c, m). of_int (ci_quantity c) * mi_price m) (cart_join p_user_id s))"

text \<open>
  The block of \<open>place_order_with_cart_clear\<close>, the same statements in both revisions: the
  insert of the order, the loop, and the \<open>DELETE\<close> of the user's cart rows.
\<close>

definition place_order_statements :: "uuid \<Rightarrow> uuid \<Rightarrow> rat \<Rightarrow> db \<Rightarrow> sqlerr + db" where
  "place_order_statements new_id p_user_id v_total_amount s =
     (case insert_orders new_id p_user_id v_total_amount s of
        Inl e \<Rightarrow> Inl e
      | Inr s1 \<Rightarrow>
          Inr (delete_cart_items (\<lambda>c. ci_user_id c = p_user_id)
                 (insert_order_items_loop new_id (cart_join p_user_id s1) s1)))"

definition place_order_with_cart_clear :: "uuid \<Rightarrow> uuid \<Rightarrow> db \<Rightarrow> outcome \<times> db" where
  "place_order_with_cart_clear new_id p_user_id s =
     (let v_order_count = int (length (filter (\<lambda>c. ci_user_id c = p_user_id) (cart_items s)))
      in if v_order_count = 0 then
           (Returned [(''success'', JBool False), (''error'', JStr ''Cart is empty'')], s)
         else
           (let v_total_amount = cart_total p_user_id s
            in case place_order_statements new_id p_user_id v_total_amount s of
                 Inr s' \<Rightarrow>
                   (Returned [(''success'', JBool True),
                              (''message'', JStr ''Order placed successfully!''),
                              (''order_id'', JUuid new_id),
                              (''total_amount'', JNum v_total_amount),
                              (''item_count'', JInt v_order_count)], s')
               | Inl e \<Rightarrow>
                   (Returned [(''success'', JBool False),
                              (''error'', JStr (''Failed to place order: '' @ sqlerrm e))], s)))"

section \<open>The procedures of the revision that returns \<open>jsonb\<close>\<close>

text \<open>
  The second revision in the same file (``Cart Quantity Management Functions'') returns
  \<open>jsonb\<close>; its procedures carry the suffix \<open>_jsonb\<close>. Each first compares \<open>auth.uid()\<close>,
  the session's user or \<open>NULL\<close>, with \<open>p_user_id\<close>; a comparison with \<open>NULL\<close> is \<open>NULL\<close>,
  which \<open>IF\<close> does not take. Its \<open>EXCEPTION\<close> clause is the procedure's own, so it catches
  every exception of the body.
\<close>

definition auth_uid_differs :: "uuid option \<Rightarrow> uuid \<Rightarrow> bool" where
  "auth_uid_differs auth_uid p_user_id =
     (case auth_uid of None \<Rightarrow> False | Some a \<Rightarrow> a \<noteq> p_user_id)"

definition add_to_cart_with_quantity_check_jsonb ::
  "uuid option \<Rightarrow> uuid \<Rightarrow> uuid \<Rightarrow> uuid \<Rightarrow> int \<Rightarrow> db \<Rightarrow> outcome \<times> db" where
  "add_to_cart_with_quantity_check_jsonb auth_uid new_id p_user_id p_menu_item_id p_quantity s =
     (if auth_uid_differs auth_uid p_user_id then
        (Returned [(''success'', JBool False), (''error'', JStr ''Unauthorized access'')], s)
      else
        (case select_menu_item p_menu_item_id s of
           None \<Rightarrow>
             (Returned [(''success'', JBool False), (''error'', JStr ''Menu item not found'')], s)
         | Some mi \<Rightarrow>
             (let v_available_quantity = quantity_available mi;
                  v_current_cart_quantity =
                    (case select_cart_item_of_user p_user_id p_menu_item_id s of
                       None \<Rightarrow> 0
                     | Some c \<Rightarrow> ci_quantity c)
              in if v_available_quantity < p_quantity then
                   (Returned [(''success'', JBool False),
                              (''error'', JStr (''Only '' @ show_int v_available_quantity
                                 @ '' items available''))], s)
                 else
                   (case add_to_cart_statements new_id p_user_id p_menu_item_id p_quantity
                           v_available_quantity v_current_cart_quantity s of
                      Inr (v_cart_item_id, v_new, v_remaining, s') \<Rightarrow>
                        (Returned [(''success'', JBool True),
                                   (''message'', JStr ''Item added to cart successfully''),
                                   (''cart_item_id'', JUuid v_cart_item_id),
                                   (''new_quantity'', JInt v_new),
                                   (''remaining_stock'', JInt v_remaining)], s')
                    | Inl e \<Rightarrow>
                        (Returned [(''success'', JBool False),
                                   (''error'', JStr (''Database error: '' @ sqlerrm e))], s)))))"

text \<open>
  The statements of \<open>remove_from_cart_with_quantity_restore\<close> in this revision: the
  \<open>UPDATE\<close> of the menu row, then the \<open>DELETE\<close> of the cart row.
\<close>

definition restore_then_delete :: "uuid \<Rightarrow> uuid \<Rightarrow> int \<Rightarrow> uuid \<Rightarrow> db \<Rightarrow> sqlerr + db" where
  "restore_then_delete p_user_id p_cart_item_id v_quantity v_menu_item_id s =
     (case update_menu_items (\<lambda>q. q + v_quantity) v_menu_item_id s of
        Inl e \<Rightarrow> Inl e
      | Inr s1 \<Rightarrow>
          Inr (delete_cart_items (\<lambda>c. ci_id c = p_cart_item_id \<and> ci_user_id c = p_user_id) s1))"

definition remove_from_cart_with_quantity_restore_jsonb ::
  "uuid option \<Rightarrow> uuid \<Rightarrow> uuid \<Rightarrow> db \<Rightarrow> outcome \<times> db" where
  "remove_from_cart_with_quantity_restore_jsonb auth_uid p_user_id p_cart_item_id s =
     (if auth_uid_differs auth_uid p_user_id then
        (Returned [(''success'', JBool False), (''error'', JStr ''Unauthorized access'')], s)
      else
        (case select_cart_item p_cart_item_id p_user_id s of
           None \<Rightarrow>
             (Returned [(''success'', JBool False), (''error'', JStr ''Cart item not found'')], s)
         | Some ci \<Rightarrow>
             (let v_menu_item_id = ci_menu_item_id ci;
                  v_quantity = ci_quantity ci
              in case restore_then_delete p_user_id p_cart_item_id v_quantity v_menu_item_id s of
                   Inr s' \<Rightarrow>
                     (Returned [(''success'', JBool True),
                                (''message'', JStr ''Item removed from cart successfully''),
                                (''restored_quantity'', JInt v_quantity)], s')
                 | Inl e \<Rightarrow>
                     (Returned [(''success'', JBool False),
                                (''error'', JStr (''Database error: '' @ sqlerrm e))], s))))"

text \<open>
  The statements of \<open>update_cart_quantity_with_stock_check\<close> in this revision after its
  stock check: the \<open>UPDATE\<close> of the menu row, the \<open>UPDATE\<close> of the cart row, and the value
  \<open>remaining_stock\<close> of the result. The menu row is read without a join, so
  \<open>v_available_quantity\<close> is \<open>NULL\<close> when the cart row refers to no menu row.
\<close>

definition update_quantity_statements_jsonb ::
  "uuid \<Rightarrow> uuid \<Rightarrow> int \<Rightarrow> int \<Rightarrow> int option \<Rightarrow> uuid \<Rightarrow> db \<Rightarrow> sqlerr + (jval \<times> db)" where
  "update_quantity_statements_jsonb p_user_id p_cart_item_id p_new_quantity v_quantity_diff
       v_available_quantity v_menu_item_id s =
     (case update_menu_items (\<lambda>q. q - v_quantity_diff) v_menu_item_id s of
        Inl e \<Rightarrow> Inl e
      | Inr s1 \<Rightarrow>
     (case update_cart_items (\<lambda>q. p_new_quantity)
             (\<lambda>c. ci_id c = p_cart_item_id \<and> ci_user_id c = p_user_id) s1 of
        Inl e \<Rightarrow> Inl e
      | Inr s2 \<Rightarrow>
     (case v_available_quantity of
        None \<Rightarrow> Inr (JNull, s2)
      | Some a \<Rightarrow>
          (case int4 (a - v_quantity_diff) of
             Inl e \<Rightarrow> Inl e
           | Inr v_remaining \<Rightarrow> Inr (JInt v_remaining, s2)))))"

definition update_cart_quantity_with_stock_check_jsonb ::
  "uuid option \<Rightarrow> uuid \<Rightarrow> uuid \<Rightarrow> int \<Rightarrow> db \<Rightarrow> outcome \<times> db" where
  "update_cart_quantity_with_stock_check_jsonb auth_uid p_user_id p_cart_item_id p_new_quantity s =
     (if auth_uid_differs auth_uid p_user_id then
        (Returned [(''success'', JBool False), (''error'', JStr ''Unauthorized access'')], s)
      else if p_new_quantity \<le> 0 then
        remove_from_cart_with_quantity_restore_jsonb auth_uid p_user_id p_cart_item_id s
      else
        (case select_cart_item p_cart_item_id p_user_id s of
           None \<Rightarrow>
             (Returned [(''success'', JBool False), (''error'', JStr ''Cart item not found'')], s)
         | Some ci \<Rightarrow>
             (let v_menu_item_id = ci_menu_item_id ci;
                  v_current_quantity = ci_quantity ci;
                  v_available_quantity =
                    map_option quantity_available (select_menu_item v_menu_item_id s)
              in case int4 (p_new_quantity - v_current_quantity) of
                   Inl e \<Rightarrow>
                     (Returned [(''success'', JBool False),
                                (''error'', JStr (''Database error: '' @ sqlerrm e))], s)
                 | Inr v_quantity_diff \<Rightarrow>
                     if v_quantity_diff > 0
                        \<and> (case v_available_quantity of
                             None \<Rightarrow> False
                           | Some a \<Rightarrow> a < v_quantity_diff)
                     then
                       (Returned [(''success'', JBool False),
                                  (''error'', JStr (''Only ''
                                     @ (case v_available_quantity of
                                          None \<Rightarrow> []
                                        | Some a \<Rightarrow> show_int a)
                                     @ '' additional items available''))], s)
                     else
                       (case update_quantity_statements_jsonb p_user_id p_cart_item_id
                               p_new_quantity v_quantity_diff v_available_quantity
                               v_menu_item_id s of
                          Inr (v_remaining, s') \<Rightarrow>
                            (Returned [(''success'', JBool True),
                                       (''message'', JStr ''Cart quantity updated successfully''),
                                       (''old_quantity'', JInt v_current_quantity),
                                       (''new_quantity'', JInt p_new_quantity),
                                       (''remaining_stock'', v_remaining)], s')
                        | Inl e \<Rightarrow>
                            (Returned [(''success'', JBool False),
                                       (''error'', JStr (''Database error: '' @ sqlerrm e))], s)))))"

definition place_order_with_cart_clear_jsonb ::
  "uuid option \<Rightarrow> uuid \<Rightarrow> uuid \<Rightarrow> db \<Rightarrow> outcome \<times> db" where
  "place_order_with_cart_clear_jsonb auth_uid new_id p_user_id s =
     (if auth_uid_differs auth_uid p_user_id then
        (Returned [(''success'', JBool False), (''error'', JStr ''Unauthorized access'')], s)
      else if \<not> list_ex (\<lambda>c. ci_user_id c = p_user_id) (cart_items s) then
        (Returned [(''success'', JBool False), (''error'', JStr ''Cart is empty'')], s)
      else
        (let v_total_amount = cart_total p_user_id s
         in case place_order_statements new_id p_user_id v_total_amount s of
              Inr s' \<Rightarrow>
                (Returned [(''success'', JBool True),
                           (''message'', JStr ''Order placed successfully''),
                           (''order_id'', JUuid new_id),
                           (''total_amount'', JNum v_total_amount)], s')
            | Inl e \<Rightarrow>
                (Returned [(''success'', JBool False),
                           (''error'', JStr (''Failed to place order: '' @ sqlerrm e))], s)))"

section \<open>Requests, runs and what is observed of the tables\<close>

datatype revision = Json | Jsonb

text \<open>
  The four operations of the interface with their arguments; \<open>AddItem\<close> and \<open>Checkout\<close>
  carry first the \<open>id\<close> the insert generates.
\<close>

datatype request =
  AddItem uuid uuid uuid int
| SetQuantity uuid uuid int
| RemoveItem uuid uuid
| Checkout uuid uuid

fun call :: "revision \<Rightarrow> uuid option \<Rightarrow> request \<Rightarrow> db \<Rightarrow> outcome \<times> db" where
  "call Json auth_uid (AddItem new_id u i q) s = add_to_cart_with_quantity_check new_id u i q s"
| "call Json auth_uid (SetQuantity u cid q) s = update_cart_quantity_with_stock_check u cid q s"
| "call Json auth_uid (RemoveItem u cid) s = remove_from_cart_with_quantity_restore u cid s"
| "call Json auth_uid (Checkout new_id u) s = place_order_with_cart_clear new_id u s"
| "call Jsonb auth_uid (AddItem new_id u i q) s =
     add_to_cart_with_quantity_check_jsonb auth_uid new_id u i q s"
| "call Jsonb auth_uid (SetQuantity u cid q) s =
     update_cart_quantity_with_stock_check_jsonb auth_uid u cid q s"
| "call Jsonb auth_uid (RemoveItem u cid) s =
     remove_from_cart_with_quantity_restore_jsonb auth_uid u cid s"
| "call Jsonb auth_uid (Checkout new_id u) s = place_order_with_cart_clear_jsonb auth_uid new_id u s"

text \<open>
  A run is a sequence of calls, each a transaction of its own, one after the other; every
  call comes with the \<open>auth.uid()\<close> of its session.
\<close>

fun run :: "revision \<Rightarrow> (uuid option \<times> request) list \<Rightarrow> db \<Rightarrow> db" where
  "run rv [] s = s"
| "run rv ((auth_uid, r) # rs) s = run rv rs (snd (call rv auth_uid r s))"

text \<open>The interface's constraint on the input: \<open>addItem\<close> takes a quantity above zero.\<close>

fun valid_request :: "request \<Rightarrow> bool" where
  "valid_request (AddItem new_id u i q) = (0 < q)"
| "valid_request r = True"

text \<open>A call fails when an exception escapes or the object returned says \<open>success: false\<close>.\<close>

fun failed :: "outcome \<Rightarrow> bool" where
  "failed (Raised e) = True"
| "failed (Returned j) = (map_of j ''success'' = Some (JBool False))"

text \<open>The value a returned object has under a key.\<close>

fun reports :: "outcome \<Rightarrow> string \<Rightarrow> jval option" where
  "reports (Raised e) k = None"
| "reports (Returned j) k = map_of j k"

definition available :: "db \<Rightarrow> uuid \<Rightarrow> int" where
  "available s i = (case select_menu_item i s of None \<Rightarrow> 0 | Some m \<Rightarrow> quantity_available m)"

definition price_of :: "db \<Rightarrow> uuid \<Rightarrow> rat" where
  "price_of s i = (case select_menu_item i s of None \<Rightarrow> 0 | Some m \<Rightarrow> mi_price m)"

text \<open>The sum of the cart rows' quantities for an item, across all users.\<close>

definition cart_quantity :: "db \<Rightarrow> uuid \<Rightarrow> int" where
  "cart_quantity s i =
     sum_list (map ci_quantity (filter (\<lambda>c. ci_menu_item_id c = i) (cart_items s)))"

definition cancelled :: "db \<Rightarrow> uuid \<Rightarrow> bool" where
  "cancelled s oid = list_ex (\<lambda>ord. o_id ord = oid \<and> o_status ord = ''cancelled'') (orders s)"

text \<open>The sum of the order rows' quantities for an item, in orders that are not cancelled.\<close>

definition sold_quantity :: "db \<Rightarrow> uuid \<Rightarrow> int" where
  "sold_quantity s i =
     sum_list (map oi_quantity
       (filter (\<lambda>l. oi_menu_item_id l = i \<and> \<not> cancelled s (oi_order_id l)) (order_items s)))"

text \<open>
  The keys of the tables: \<open>id\<close> is the primary key of \<open>menu_items\<close> and of \<open>cart_items\<close>,
  and \<open>(user_id, menu_item_id)\<close> is unique in \<open>cart_items\<close>, as the \<open>ON CONFLICT\<close> clause
  of the insert requires.
\<close>

definition cart_keys :: "db \<Rightarrow> bool" where
  "cart_keys s =
     (distinct (map ci_id (cart_items s))
      \<and> distinct (map (\<lambda>c. (ci_user_id c, ci_menu_item_id c)) (cart_items s)))"

text \<open>
  The data model's constraints on the tables: the keys; every cart row has a quantity above
  zero and refers to a menu row; every menu row has a quantity available of at least zero.
\<close>

definition consistent :: "db \<Rightarrow> bool" where
  "consistent s =
     (distinct (map mi_id (menu_items s)) \<and> cart_keys s
      \<and> list_all (\<lambda>c. 0 < ci_quantity c \<and> select_menu_item (ci_menu_item_id c) s \<noteq> None)
            (cart_items s)
      \<and> list_all (\<lambda>m. 0 \<le> quantity_available m) (menu_items s))"

text \<open>
  An item's stock, what is available of it together with what is in carts, fits \<open>integer\<close>.
  It does in every state that calls of the interface reach from a shop without carts, where
  the stock is an \<open>integer\<close> column's value.
\<close>

definition stock_fits :: "db \<Rightarrow> bool" where
  "stock_fits s =
     list_all (\<lambda>m. quantity_available m + cart_quantity s (mi_id m) \<le> 2147483647) (menu_items s)"

text \<open>The quantities the tables hold are values of \<open>integer\<close> columns.\<close>

definition integers :: "db \<Rightarrow> bool" where
  "integers s =
     (list_all (\<lambda>m. in_int4 (quantity_available m)) (menu_items s)
      \<and> list_all (\<lambda>c. in_int4 (ci_quantity c)) (cart_items s))"

text \<open>
  The changes the specification speaks of, as changes of the tables: a menu row's
  \<open>quantity_available\<close> changed by an amount, a cart row's quantity set, a cart row deleted,
  a cart row added.
\<close>

definition change_available :: "uuid \<Rightarrow> int \<Rightarrow> db \<Rightarrow> db" where
  "change_available i d s =
     s\<lparr>menu_items :=
         map (\<lambda>m. if mi_id m = i then m\<lparr>quantity_available := quantity_available m + d\<rparr> else m)
             (menu_items s)\<rparr>"

definition set_line_quantity :: "uuid \<Rightarrow> int \<Rightarrow> db \<Rightarrow> db" where
  "set_line_quantity cid v s =
     s\<lparr>cart_items :=
         map (\<lambda>c. if ci_id c = cid then c\<lparr>ci_quantity := v\<rparr> else c) (cart_items s)\<rparr>"

definition delete_line :: "uuid \<Rightarrow> db \<Rightarrow> db" where
  "delete_line cid s = s\<lparr>cart_items := filter (\<lambda>c. ci_id c \<noteq> cid) (cart_items s)\<rparr>"

definition add_line :: "cart_item \<Rightarrow> db \<Rightarrow> db" where
  "add_line c s = s\<lparr>cart_items := cart_items s @ [c]\<rparr>"

text \<open>An order row's line for a cart row, at the menu's price, and the line's subtotal.\<close>

definition order_line :: "db \<Rightarrow> uuid \<Rightarrow> cart_item \<Rightarrow> order_item" where
  "order_line s n c =
     \<lparr>oi_order_id = n, oi_menu_item_id = ci_menu_item_id c, oi_quantity = ci_quantity c,
      oi_price = price_of s (ci_menu_item_id c)\<rparr>"

definition line_total :: "db \<Rightarrow> cart_item \<Rightarrow> rat" where
  "line_total s c = of_int (ci_quantity c) * price_of s (ci_menu_item_id c)"

text \<open>
  The tables after an order \<open>n\<close> of user \<open>u\<close> is made of the cart rows \<open>lines\<close>: one order,
  pending, with the sum of the subtotals; one line for each of the rows; none of the user's
  cart rows left.
\<close>

definition ordered :: "uuid \<Rightarrow> uuid \<Rightarrow> cart_item list \<Rightarrow> db \<Rightarrow> db" where
  "ordered n u lines s =
     s\<lparr>orders := orders s @
         [\<lparr>o_id = n, o_user_id = u, o_total_amount = sum_list (map (line_total s) lines),
           o_status = ''pending'', o_payment_status = ''pending''\<rparr>],
       order_items := order_items s @ map (order_line s n) lines,
       cart_items := filter (\<lambda>c. ci_user_id c \<noteq> u) (cart_items s)\<rparr>"

text \<open>The user's cart rows that the join with the menu keeps.\<close>

definition joined_lines :: "uuid \<Rightarrow> db \<Rightarrow> cart_item list" where
  "joined_lines u s =
     filter (\<lambda>c. ci_user_id c = u \<and> select_menu_item (ci_menu_item_id c) s \<noteq> None) (cart_items s)"

text \<open>
  What a call can do to the tables, whichever revision runs it: nothing; reserve stock into a
  new or an existing cart row; delete a cart row and release its stock; set a cart row's
  quantity and reserve or release the difference; turn a user's cart rows into an order.
\<close>

inductive changes :: "request \<Rightarrow> db \<Rightarrow> db \<Rightarrow> bool" where
  unchanged: "changes r s s"
| reserved_new:
    "select_menu_item i s \<noteq> None \<Longrightarrow> q \<le> available s i \<Longrightarrow>
     select_cart_item_of_user u i s = None \<Longrightarrow> n \<notin> set (map ci_id (cart_items s)) \<Longrightarrow>
     changes (AddItem n u i q) s
       (add_line \<lparr>ci_id = n, ci_user_id = u, ci_menu_item_id = i, ci_quantity = q\<rparr>
          (change_available i (- q) s))"
| reserved_more:
    "select_menu_item i s \<noteq> None \<Longrightarrow> q \<le> available s i \<Longrightarrow>
     select_cart_item_of_user u i s = Some c \<Longrightarrow>
     changes (AddItem n u i q) s
       (set_line_quantity (ci_id c) (ci_quantity c + q) (change_available i (- q) s))"
| removed:
    "c \<in> set (cart_items s) \<Longrightarrow> ci_id c = cid \<Longrightarrow> ci_user_id c = u \<Longrightarrow>
     r = RemoveItem u cid \<or> r = SetQuantity u cid q \<and> q \<le> 0 \<Longrightarrow>
     changes r s (change_available (ci_menu_item_id c) (ci_quantity c) (delete_line cid s))"
| updated:
    "c \<in> set (cart_items s) \<Longrightarrow> ci_id c = cid \<Longrightarrow> ci_user_id c = u \<Longrightarrow> 0 < q \<Longrightarrow>
     select_menu_item (ci_menu_item_id c) s = None \<or> q - ci_quantity c \<le> 0
       \<or> q - ci_quantity c \<le> available s (ci_menu_item_id c) \<Longrightarrow>
     changes (SetQuantity u cid q) s
       (change_available (ci_menu_item_id c) (- (q - ci_quantity c)) (set_line_quantity cid q s))"
| checked_out:
    "n \<notin> set (map o_id (orders s)) \<Longrightarrow>
     changes (Checkout n u) s (ordered n u (joined_lines u s) s)"

text \<open>
  Tables to run the procedures on: a shop with two stocked items and no carts, the same shop
  after user 10 has put three of item 1 into the cart, and the calls of the specification's
  example scenario.
\<close>

definition shop :: db where
  "shop =
     \<lparr>menu_items =
        [\<lparr>mi_id = 1, mi_name = ''X'', mi_price = 5 / 2, quantity_available = 5\<rparr>,
         \<lparr>mi_id = 2, mi_name = ''Y'', mi_price = 4, quantity_available = 3\<rparr>],
      cart_items = [], orders = [], order_items = []\<rparr>"

definition shop_with_cart :: db where
  "shop_with_cart =
     \<lparr>menu_items =
        [\<lparr>mi_id = 1, mi_name = ''X'', mi_price = 5 / 2, quantity_available = 2\<rparr>,
         \<lparr>mi_id = 2, mi_name = ''Y'', mi_price = 4, quantity_available = 3\<rparr>],
      cart_items = [\<lparr>ci_id = 100, ci_user_id = 10, ci_menu_item_id = 1, ci_quantity = 3\<rparr>],
      orders = [], order_items = []\<rparr>"

text \<open>A shop where user 10 holds as many of item 1 as an \<open>integer\<close> can count, and one is left.\<close>

definition shop_full_cart :: db where
  "shop_full_cart =
     \<lparr>menu_items =
        [\<lparr>mi_id = 1, mi_name = ''X'', mi_price = 5 / 2, quantity_available = 1\<rparr>],
      cart_items =
        [\<lparr>ci_id = 100, ci_user_id = 10, ci_menu_item_id = 1, ci_quantity = 2147483647\<rparr>],
      orders = [], order_items = []\<rparr>"

text \<open>A shop restocked to an \<open>integer\<close>'s limit while user 10 holds five of item 1.\<close>

definition shop_full_stock :: db where
  "shop_full_stock =
     \<lparr>menu_items =
        [\<lparr>mi_id = 1, mi_name = ''X'', mi_price = 5 / 2, quantity_available = 2147483647\<rparr>],
      cart_items = [\<lparr>ci_id = 100, ci_user_id = 10, ci_menu_item_id = 1, ci_quantity = 5\<rparr>],
      orders = [], order_items = []\<rparr>"

definition scenario :: "(uuid option \<times> request) list" where
  "scenario =
     [(Some 10, AddItem 100 10 1 3),
      (Some 11, AddItem 101 11 1 3),
      (Some 10, SetQuantity 10 100 5),
      (Some 11, AddItem 102 11 1 1),
      (Some 10, Checkout 500 10)]"

text \<open>
  Calls that the interface does not offer: user 10 asks for minus three of item 1, user 11
  then takes eight of it, and user 10 removes the row of minus three.
\<close>

definition negative_quantity :: "(uuid option \<times> request) list" where
  "negative_quantity =
     [(Some 10, AddItem 100 10 1 (- 3)),
      (Some 11, AddItem 101 11 1 8),
      (Some 10, RemoveItem 10 100)]"

section \<open>Rows and keys\<close>

lemma key_eq_row:
  "distinct (map k xs) \<Longrightarrow> x \<in> set xs \<Longrightarrow> y \<in> set xs \<Longrightarrow> k x = k y \<Longrightarrow> x = y"
  by (auto simp: distinct_map dest: inj_onD)

lemma find_mem: "find P xs = Some x \<Longrightarrow> x \<in> set xs \<and> P x"
  by (induction xs) (auto split: if_splits)

lemma find_None_all: "find P xs = None \<Longrightarrow> x \<in> set xs \<Longrightarrow> \<not> P x"
  by (induction xs) (auto split: if_splits)

lemma find_map_menu:
  "find (\<lambda>m. mi_id m = j) (map (\<lambda>m. if mi_id m = i then m\<lparr>quantity_available := f (quantity_available m)\<rparr> else m) ms)
   = map_option (\<lambda>m. if mi_id m = i then m\<lparr>quantity_available := f (quantity_available m)\<rparr> else m)
       (find (\<lambda>m. mi_id m = j) ms)"
  by (induction ms) auto

lemma sum_quantity_update:
  "distinct (map ci_id cs) \<Longrightarrow> c \<in> set cs \<Longrightarrow>
   sum_list (map ci_quantity (filter (\<lambda>x. ci_menu_item_id x = j)
      (map (\<lambda>x. if ci_id x = ci_id c then x\<lparr>ci_quantity := f (ci_quantity x)\<rparr> else x) cs)))
   = sum_list (map ci_quantity (filter (\<lambda>x. ci_menu_item_id x = j) cs))
     + (if ci_menu_item_id c = j then f (ci_quantity c) - ci_quantity c else 0)"
proof (induction cs)
  case Nil
  then show ?case by simp
next
  case (Cons a cs)
  show ?case
  proof (cases "a = c")
    case True
    with Cons.prems have "\<forall>x\<in>set cs. ci_id x \<noteq> ci_id c" by (auto simp: image_iff)
    then have "map (\<lambda>x. if ci_id x = ci_id c then x\<lparr>ci_quantity := f (ci_quantity x)\<rparr> else x) cs = cs"
      by (simp add: map_idI)
    with True show ?thesis by simp
  next
    case False
    with Cons.prems have "c \<in> set cs" "ci_id a \<noteq> ci_id c" "distinct (map ci_id cs)" by auto
    with Cons.IH show ?thesis by simp
  qed
qed

lemma sum_quantity_delete:
  "distinct (map ci_id cs) \<Longrightarrow> c \<in> set cs \<Longrightarrow>
   sum_list (map ci_quantity (filter (\<lambda>x. ci_menu_item_id x = j)
      (filter (\<lambda>x. ci_id x \<noteq> ci_id c) cs)))
   = sum_list (map ci_quantity (filter (\<lambda>x. ci_menu_item_id x = j) cs))
     - (if ci_menu_item_id c = j then ci_quantity c else 0)"
proof (induction cs)
  case Nil
  then show ?case by simp
next
  case (Cons a cs)
  show ?case
  proof (cases "a = c")
    case True
    with Cons.prems have "\<forall>x\<in>set cs. ci_id x \<noteq> ci_id c" by (auto simp: image_iff)
    then have "filter (\<lambda>x. ci_id x \<noteq> ci_id c) cs = cs"
      by (simp add: filter_id_conv)
    with True show ?thesis by simp
  next
    case False
    with Cons.prems have "c \<in> set cs" "ci_id a \<noteq> ci_id c" "distinct (map ci_id cs)" by auto
    with Cons.IH show ?thesis by simp
  qed
qed

text \<open>Under the keys, the row a \<open>WHERE\<close> clause selects is the only row it holds for.\<close>

lemma where_id_user:
  assumes "distinct (map ci_id cs)" "c \<in> set cs" "ci_id c = cid" "ci_user_id c = u" "x \<in> set cs"
  shows "(ci_id x = cid \<and> ci_user_id x = u) = (ci_id x = ci_id c)"
  using assms key_eq_row [of ci_id cs x c] by auto

lemma where_user_item:
  assumes "distinct (map ci_id cs)"
    "distinct (map (\<lambda>c. (ci_user_id c, ci_menu_item_id c)) cs)" "c \<in> set cs"
    "ci_user_id c = u" "ci_menu_item_id c = i" "x \<in> set cs"
  shows "(ci_user_id x = u \<and> ci_menu_item_id x = i) = (ci_id x = ci_id c)"
  using assms key_eq_row [of "\<lambda>c. (ci_user_id c, ci_menu_item_id c)" cs x c]
    key_eq_row [of ci_id cs x c] by auto

section \<open>What each statement changes\<close>

lemma update_menu_items_tables:
  "update_menu_items f i s = Inr s' \<Longrightarrow>
   cart_items s' = cart_items s \<and> orders s' = orders s \<and> order_items s' = order_items s
   \<and> map mi_id (menu_items s') = map mi_id (menu_items s)"
  by (auto simp: update_menu_items_def comp_def split: if_splits)

lemma update_menu_items_select:
  "update_menu_items f i s = Inr s' \<Longrightarrow>
   select_menu_item j s' =
     map_option (\<lambda>m. if mi_id m = i then m\<lparr>quantity_available := f (quantity_available m)\<rparr> else m)
       (select_menu_item j s)"
  by (auto simp: update_menu_items_def select_menu_item_def find_map_menu split: if_splits)

lemma select_menu_item_id: "select_menu_item j s = Some m \<Longrightarrow> mi_id m = j"
  by (auto simp: select_menu_item_def dest: find_mem)

lemma update_menu_items_available:
  assumes "update_menu_items f i s = Inr s'" "select_menu_item i s \<noteq> None"
  shows "available s' j = (if j = i then f (available s i) else available s j)"
proof (cases "select_menu_item j s")
  case None
  with assms show ?thesis
    by (auto simp: available_def update_menu_items_select [OF assms(1)])
next
  case (Some m)
  with assms select_menu_item_id [OF Some] show ?thesis
    by (auto simp: available_def update_menu_items_select [OF assms(1)])
qed

lemma update_menu_items_absent:
  "update_menu_items f i s = Inr s' \<Longrightarrow> select_menu_item i s = None \<Longrightarrow> s' = s"
  by (auto simp: update_menu_items_def select_menu_item_def find_None_iff map_idI
           split: if_splits)

lemma cart_quantity_tables: "cart_items s' = cart_items s \<Longrightarrow> cart_quantity s' j = cart_quantity s j"
  by (simp add: cart_quantity_def)

lemma sold_quantity_tables:
  "orders s' = orders s \<Longrightarrow> order_items s' = order_items s \<Longrightarrow> sold_quantity s' j = sold_quantity s j"
  by (simp add: sold_quantity_def cancelled_def)

lemma available_tables: "menu_items s' = menu_items s \<Longrightarrow> available s' j = available s j"
  by (simp add: available_def select_menu_item_def)

lemma select_menu_item_tables:
  "menu_items s' = menu_items s \<Longrightarrow> select_menu_item j s' = select_menu_item j s"
  by (simp add: select_menu_item_def)

lemma select_menu_item_ids:
  assumes "map mi_id (menu_items s') = map mi_id (menu_items s)"
  shows "(select_menu_item j s' = None) = (select_menu_item j s = None)"
proof -
  have "(select_menu_item j t = None) = (j \<notin> mi_id ` set (menu_items t))" for t
    by (auto simp: select_menu_item_def find_None_iff)
  moreover from arg_cong [OF assms, of set]
  have "mi_id ` set (menu_items s') = mi_id ` set (menu_items s)" by simp
  ultimately show ?thesis by simp
qed

section \<open>The statements as changes of the tables\<close>

lemma update_menu_items_minus:
  "update_menu_items (\<lambda>q. q - d) i s = Inr s' \<Longrightarrow> s' = change_available i (- d) s"
  by (auto simp: update_menu_items_def change_available_def split: if_splits)

lemma update_menu_items_plus:
  "update_menu_items (\<lambda>q. q + d) i s = Inr s' \<Longrightarrow> s' = change_available i d s"
  by (auto simp: update_menu_items_def change_available_def split: if_splits)

lemma update_cart_items_set:
  assumes "update_cart_items (\<lambda>q. v) (\<lambda>x. ci_id x = cid \<and> ci_user_id x = u) s = Inr s'"
    "distinct (map ci_id (cart_items s))" "c \<in> set (cart_items s)" "ci_id c = cid" "ci_user_id c = u"
  shows "s' = set_line_quantity cid v s"
proof -
  have eq: "map (\<lambda>x. if ci_id x = cid \<and> ci_user_id x = u then x\<lparr>ci_quantity := v\<rparr> else x) (cart_items s)
      = map (\<lambda>x. if ci_id x = cid then x\<lparr>ci_quantity := v\<rparr> else x) (cart_items s)"
    using where_id_user [OF assms(2-5)] assms(4) by (intro map_cong) auto
  from assms(1) show ?thesis
    by (simp add: update_cart_items_def set_line_quantity_def eq split: if_splits)
qed

lemma delete_cart_items_line:
  assumes "distinct (map ci_id (cart_items s))" "c \<in> set (cart_items s)" "ci_id c = cid" "ci_user_id c = u"
  shows "delete_cart_items (\<lambda>x. ci_id x = cid \<and> ci_user_id x = u) s = delete_line cid s"
proof -
  have "filter (\<lambda>x. \<not> (ci_id x = cid \<and> ci_user_id x = u)) (cart_items s)
      = filter (\<lambda>x. ci_id x \<noteq> cid) (cart_items s)"
    using where_id_user [OF assms] assms(3) by (intro filter_cong) auto
  then show ?thesis
    by (simp add: delete_cart_items_def delete_line_def)
qed

lemma delete_cart_items_absent:
  assumes "select_cart_item cid u s = None"
  shows "delete_cart_items (\<lambda>x. ci_id x = cid \<and> ci_user_id x = u) s = s"
  using assms by (auto simp: delete_cart_items_def select_cart_item_def find_None_iff filter_id_conv)

lemma insert_cart_items_on_conflict_new:
  assumes "insert_cart_items_on_conflict n u i v q s = Inr (cid, s')"
    "select_cart_item_of_user u i s = None"
  shows "s' = add_line \<lparr>ci_id = n, ci_user_id = u, ci_menu_item_id = i, ci_quantity = v\<rparr> s"
    "cid = n" "n \<notin> set (map ci_id (cart_items s))"
  using assms by (auto simp: insert_cart_items_on_conflict_def add_line_def split: if_splits)

lemma insert_cart_items_on_conflict_old:
  assumes "insert_cart_items_on_conflict n u i v q s = Inr (cid, s')"
    "select_cart_item_of_user u i s = Some c" "cart_keys s"
  shows "s' = set_line_quantity (ci_id c) (ci_quantity c + q) s" "cid = ci_id c"
proof -
  from assms(2) have c: "c \<in> set (cart_items s)" "ci_user_id c = u" "ci_menu_item_id c = i"
    by (auto simp: select_cart_item_of_user_def dest: find_mem)
  from assms(3) have d: "distinct (map ci_id (cart_items s))"
    "distinct (map (\<lambda>c. (ci_user_id c, ci_menu_item_id c)) (cart_items s))"
    by (auto simp: cart_keys_def)
  have eq: "map (\<lambda>x. if ci_user_id x = u \<and> ci_menu_item_id x = i
                 then x\<lparr>ci_quantity := ci_quantity x + q\<rparr> else x) (cart_items s)
      = map (\<lambda>x. if ci_id x = ci_id c then x\<lparr>ci_quantity := ci_quantity c + q\<rparr> else x) (cart_items s)"
  proof (intro map_cong refl)
    fix x assume x: "x \<in> set (cart_items s)"
    show "(if ci_user_id x = u \<and> ci_menu_item_id x = i then x\<lparr>ci_quantity := ci_quantity x + q\<rparr> else x)
        = (if ci_id x = ci_id c then x\<lparr>ci_quantity := ci_quantity c + q\<rparr> else x)"
      using where_user_item [OF d c x] key_eq_row [OF d(1) x c(1)] by auto
  qed
  from assms(1,2) show "s' = set_line_quantity (ci_id c) (ci_quantity c + q) s" "cid = ci_id c"
    by (auto simp add: insert_cart_items_on_conflict_def update_cart_items_def set_line_quantity_def eq
             split: if_splits)
qed

lemma restore_then_delete_eq:
  "restore_then_delete u cid vq vi s = delete_then_restore u cid vq vi s"
  by (simp add: restore_then_delete_def delete_then_restore_def update_menu_items_def
        delete_cart_items_def)

section \<open>What the changes do to the quantities\<close>

lemma change_available_tables:
  "cart_items (change_available i d s) = cart_items s"
  "orders (change_available i d s) = orders s"
  "order_items (change_available i d s) = order_items s"
  "map mi_id (menu_items (change_available i d s)) = map mi_id (menu_items s)"
  by (auto simp: change_available_def comp_def)

lemma change_available_select:
  "select_menu_item j (change_available i d s) =
     map_option (\<lambda>m. if mi_id m = i then m\<lparr>quantity_available := quantity_available m + d\<rparr> else m)
       (select_menu_item j s)"
  by (simp add: change_available_def select_menu_item_def
        find_map_menu [where f = "\<lambda>q. q + d"])

lemma change_available_exists:
  "(select_menu_item j (change_available i d s) = None) = (select_menu_item j s = None)"
  by (simp add: change_available_select)

lemma change_available_available:
  "available (change_available i d s) j =
     (if j = i \<and> select_menu_item i s \<noteq> None then available s i + d else available s j)"
proof (cases "select_menu_item j s")
  case None
  then show ?thesis by (auto simp: available_def change_available_select)
next
  case (Some m)
  with select_menu_item_id [OF Some] show ?thesis
    by (auto simp: available_def change_available_select)
qed

lemma change_available_cart_quantity:
  "cart_quantity (change_available i d s) j = cart_quantity s j"
  by (simp add: cart_quantity_def change_available_tables)

lemma change_available_sold_quantity:
  "sold_quantity (change_available i d s) j = sold_quantity s j"
  by (simp add: sold_quantity_def cancelled_def change_available_tables)

lemma change_available_select_cart:
  "select_cart_item_of_user u i' (change_available i d s) = select_cart_item_of_user u i' s"
  by (simp add: select_cart_item_of_user_def change_available_tables)

lemma set_line_quantity_tables:
  "menu_items (set_line_quantity cid v s) = menu_items s"
  "orders (set_line_quantity cid v s) = orders s"
  "order_items (set_line_quantity cid v s) = order_items s"
  "map ci_id (cart_items (set_line_quantity cid v s)) = map ci_id (cart_items s)"
  "map (\<lambda>c. (ci_user_id c, ci_menu_item_id c)) (cart_items (set_line_quantity cid v s))
     = map (\<lambda>c. (ci_user_id c, ci_menu_item_id c)) (cart_items s)"
  by (auto simp: set_line_quantity_def comp_def)

lemma set_line_quantity_cart_quantity:
  assumes "distinct (map ci_id (cart_items s))" "c \<in> set (cart_items s)"
  shows "cart_quantity (set_line_quantity (ci_id c) v s) j =
           cart_quantity s j + (if ci_menu_item_id c = j then v - ci_quantity c else 0)"
  using sum_quantity_update [OF assms, of j "\<lambda>q. v"]
  by (simp add: cart_quantity_def set_line_quantity_def)

lemma delete_line_tables:
  "menu_items (delete_line cid s) = menu_items s"
  "orders (delete_line cid s) = orders s"
  "order_items (delete_line cid s) = order_items s"
  by (auto simp: delete_line_def)

lemma delete_line_cart_quantity:
  assumes "distinct (map ci_id (cart_items s))" "c \<in> set (cart_items s)"
  shows "cart_quantity (delete_line (ci_id c) s) j =
           cart_quantity s j - (if ci_menu_item_id c = j then ci_quantity c else 0)"
  using sum_quantity_delete [OF assms, of j]
  by (simp add: cart_quantity_def delete_line_def)

lemma add_line_tables:
  "menu_items (add_line c s) = menu_items s"
  "orders (add_line c s) = orders s"
  "order_items (add_line c s) = order_items s"
  by (auto simp: add_line_def)

lemma add_line_cart_quantity:
  "cart_quantity (add_line c s) j =
     cart_quantity s j + (if ci_menu_item_id c = j then ci_quantity c else 0)"
  by (simp add: cart_quantity_def add_line_def)

lemma cart_keys_tables:
  "cart_items s' = cart_items s \<Longrightarrow> cart_keys s' = cart_keys s"
  by (simp add: cart_keys_def)

lemma cart_keys_set_line_quantity: "cart_keys (set_line_quantity cid v s) = cart_keys s"
  by (simp add: cart_keys_def set_line_quantity_tables)

lemma cart_keys_delete_line: "cart_keys s \<Longrightarrow> cart_keys (delete_line cid s)"
  by (simp add: cart_keys_def delete_line_def distinct_map_filter)

lemma cart_keys_add_line:
  assumes "cart_keys s" "ci_id c \<notin> set (map ci_id (cart_items s))"
    "select_cart_item_of_user (ci_user_id c) (ci_menu_item_id c) s = None"
  shows "cart_keys (add_line c s)"
proof -
  from assms(3) have "(ci_user_id c, ci_menu_item_id c)
      \<notin> set (map (\<lambda>c. (ci_user_id c, ci_menu_item_id c)) (cart_items s))"
    by (auto simp: select_cart_item_of_user_def find_None_iff)
  with assms(1,2) show ?thesis
    by (simp add: cart_keys_def add_line_def)
qed

section \<open>The blocks as changes of the tables\<close>

lemma int4_Inr: "int4 x = Inr y \<Longrightarrow> y = x \<and> in_int4 x"
  by (auto simp: int4_def split: if_splits)

lemma add_to_cart_statements_steps:
  assumes "add_to_cart_statements n u i q va vc s = Inr (cid, vn, vr, s')"
  shows "insert_cart_items_on_conflict n u i (vc + q) q (change_available i (- q) s) = Inr (cid, s')"
    "vn = vc + q" "vr = va - q" "in_int4 (vc + q)" "in_int4 (va - q)"
proof -
  from assms obtain s1 where s1: "update_menu_items (\<lambda>q'. q' - q) i s = Inr s1"
    by (auto simp: add_to_cart_statements_def split: sum.splits)
  with assms obtain v where v: "int4 (vc + q) = Inr v"
    by (auto simp: add_to_cart_statements_def split: sum.splits)
  with assms s1 obtain cid' s2 where i: "insert_cart_items_on_conflict n u i v q s1 = Inr (cid', s2)"
    by (auto simp: add_to_cart_statements_def split: sum.splits)
  with assms s1 v obtain w where w: "int4 (va - q) = Inr w"
    by (auto simp: add_to_cart_statements_def split: sum.splits)
  from assms s1 v i w have r: "cid = cid'" "vn = v" "vr = w" "s' = s2"
    by (simp_all add: add_to_cart_statements_def)
  from v w have vw: "v = vc + q" "w = va - q" "in_int4 (vc + q)" "in_int4 (va - q)"
    by (auto dest: int4_Inr)
  from s1 have "s1 = change_available i (- q) s" by (rule update_menu_items_minus)
  with i r vw
  show "insert_cart_items_on_conflict n u i (vc + q) q (change_available i (- q) s) = Inr (cid, s')"
    by simp
  from r vw show "vn = vc + q" "vr = va - q" "in_int4 (vc + q)" "in_int4 (va - q)" by simp_all
qed

lemma add_to_cart_statements_new:
  assumes "add_to_cart_statements n u i q va vc s = Inr (cid, vn, vr, s')"
    "select_cart_item_of_user u i s = None"
  shows "s' = add_line \<lparr>ci_id = n, ci_user_id = u, ci_menu_item_id = i, ci_quantity = vc + q\<rparr>
                (change_available i (- q) s)"
    "n \<notin> set (map ci_id (cart_items s))"
  using insert_cart_items_on_conflict_new [OF add_to_cart_statements_steps(1) [OF assms(1)]] assms(2)
  by (simp_all add: change_available_select_cart change_available_tables)

lemma add_to_cart_statements_old:
  assumes "add_to_cart_statements n u i q va vc s = Inr (cid, vn, vr, s')"
    "select_cart_item_of_user u i s = Some c" "cart_keys s"
  shows "s' = set_line_quantity (ci_id c) (ci_quantity c + q) (change_available i (- q) s)"
    "cid = ci_id c"
proof -
  have k: "cart_keys (change_available i (- q) s)"
    using assms(3) by (simp add: cart_keys_def change_available_tables)
  have f: "select_cart_item_of_user u i (change_available i (- q) s) = Some c"
    using assms(2) by (simp add: change_available_select_cart)
  from insert_cart_items_on_conflict_old [OF add_to_cart_statements_steps(1) [OF assms(1)] f k]
  show "s' = set_line_quantity (ci_id c) (ci_quantity c + q) (change_available i (- q) s)"
    "cid = ci_id c"
    by simp_all
qed

lemma delete_then_restore_line:
  assumes "delete_then_restore u cid vq vi s = Inr s'"
    "distinct (map ci_id (cart_items s))" "c \<in> set (cart_items s)" "ci_id c = cid" "ci_user_id c = u"
  shows "s' = change_available vi vq (delete_line cid s)"
proof -
  from assms(1) have "update_menu_items (\<lambda>q. q + vq) vi (delete_line cid s) = Inr s'"
    by (simp add: delete_then_restore_def delete_cart_items_line [OF assms(2-5)])
  then show ?thesis by (rule update_menu_items_plus)
qed

lemma update_quantity_statements_line:
  assumes "update_quantity_statements u cid v d va vi s = Inr (vr, s')"
    "distinct (map ci_id (cart_items s))" "c \<in> set (cart_items s)" "ci_id c = cid" "ci_user_id c = u"
  shows "s' = change_available vi (- d) (set_line_quantity cid v s)" "vr = va - d"
    "in_int4 (va - d)"
proof -
  from assms(1) obtain s1 where s1:
    "update_cart_items (\<lambda>q. v) (\<lambda>x. ci_id x = cid \<and> ci_user_id x = u) s = Inr s1"
    by (auto simp: update_quantity_statements_def split: sum.splits)
  with assms(1) obtain s2 where s2: "update_menu_items (\<lambda>q. q - d) vi s1 = Inr s2"
    by (auto simp: update_quantity_statements_def split: sum.splits)
  with assms(1) s1 obtain w where w: "int4 (va - d) = Inr w"
    by (auto simp: update_quantity_statements_def split: sum.splits)
  from assms(1) s1 s2 w have r: "vr = w" "s' = s2"
    by (simp_all add: update_quantity_statements_def)
  from update_cart_items_set [OF s1 assms(2-5)] update_menu_items_minus [OF s2] r
  show "s' = change_available vi (- d) (set_line_quantity cid v s)" by simp
  from w r show "vr = va - d" "in_int4 (va - d)" by (auto dest: int4_Inr)
qed

lemma change_available_set_line_quantity:
  "change_available i d (set_line_quantity cid v s) = set_line_quantity cid v (change_available i d s)"
  by (simp add: change_available_def set_line_quantity_def)

lemma update_quantity_statements_jsonb_line:
  assumes "update_quantity_statements_jsonb u cid v d va vi s = Inr (vr, s')"
    "distinct (map ci_id (cart_items s))" "c \<in> set (cart_items s)" "ci_id c = cid" "ci_user_id c = u"
  shows "s' = change_available vi (- d) (set_line_quantity cid v s)"
    "vr = (case va of None \<Rightarrow> JNull | Some a \<Rightarrow> JInt (a - d))"
proof -
  from assms(1) obtain s1 where s1: "update_menu_items (\<lambda>q. q - d) vi s = Inr s1"
    by (auto simp: update_quantity_statements_jsonb_def split: sum.splits)
  with assms(1) obtain s2 where s2:
    "update_cart_items (\<lambda>q. v) (\<lambda>x. ci_id x = cid \<and> ci_user_id x = u) s1 = Inr s2"
    by (auto simp: update_quantity_statements_jsonb_def split: sum.splits)
  from assms(1) s1 s2 have "s' = s2 \<and> vr = (case va of None \<Rightarrow> JNull | Some a \<Rightarrow> JInt (a - d))"
    by (auto simp: update_quantity_statements_jsonb_def dest: int4_Inr
             split: sum.splits option.splits)
  with s2 have s2: "update_cart_items (\<lambda>q. v) (\<lambda>x. ci_id x = cid \<and> ci_user_id x = u) s1 = Inr s'"
    and vr: "vr = (case va of None \<Rightarrow> JNull | Some a \<Rightarrow> JInt (a - d))"
    by simp_all
  from s1 have e1: "s1 = change_available vi (- d) s" by (rule update_menu_items_minus)
  with assms(2,3) have "distinct (map ci_id (cart_items s1))" "c \<in> set (cart_items s1)"
    by (simp_all add: change_available_tables)
  from update_cart_items_set [OF s2 this assms(4,5)] e1
  show "s' = change_available vi (- d) (set_line_quantity cid v s)"
    by (simp add: change_available_set_line_quantity)
  show "vr = (case va of None \<Rightarrow> JNull | Some a \<Rightarrow> JInt (a - d))" by (rule vr)
qed

lemma insert_order_items_loop_rows:
  "insert_order_items_loop n rows s =
     s\<lparr>order_items := order_items s @
        map (\<lambda>(c, m). \<lparr>oi_order_id = n, oi_menu_item_id = ci_menu_item_id c,
                         oi_quantity = ci_quantity c, oi_price = mi_price m\<rparr>) rows\<rparr>"
proof (induction rows arbitrary: s)
  case Nil
  then show ?case by (simp add: insert_order_items_loop_def)
next
  case (Cons r rows)
  from Cons.IH [of "insert_order_items n (ci_menu_item_id (fst r)) (ci_quantity (fst r)) (mi_price (snd r)) s"]
  show ?case
    by (cases r) (simp add: insert_order_items_loop_def insert_order_items_def)
qed

lemma cart_join_lines:
  "map (\<lambda>(c, m). h c (mi_price m)) (cart_join u s)
   = map (\<lambda>c. h c (price_of s (ci_menu_item_id c))) (joined_lines u s)"
proof -
  have "map (\<lambda>(c, m). h c (mi_price m))
          (List.map_filter (\<lambda>c. case select_menu_item (ci_menu_item_id c) s of
                                  None \<Rightarrow> None | Some m \<Rightarrow> Some (c, m)) cs)
      = map (\<lambda>c. h c (price_of s (ci_menu_item_id c)))
          (filter (\<lambda>c. select_menu_item (ci_menu_item_id c) s \<noteq> None) cs)" for cs
    by (induction cs) (auto simp: List.map_filter_simps price_of_def split: option.splits)
  then show ?thesis
    by (simp add: cart_join_def joined_lines_def)
qed

lemma place_order_statements_ordered:
  assumes "place_order_statements n u (cart_total u s) s = Inr s'"
  shows "s' = ordered n u (joined_lines u s) s" "n \<notin> set (map o_id (orders s))"
proof -
  have j: "cart_join u (s\<lparr>orders := x\<rparr>) = cart_join u s" for x
    by (simp add: cart_join_def select_menu_item_def)
  have t: "cart_total u s = sum_list (map (line_total s) (joined_lines u s))"
    using cart_join_lines [of "\<lambda>c p. of_int (ci_quantity c) * p" u s]
    by (simp add: cart_total_def line_total_def [abs_def])
  have l: "map (\<lambda>(c, m). \<lparr>oi_order_id = n, oi_menu_item_id = ci_menu_item_id c,
                         oi_quantity = ci_quantity c, oi_price = mi_price m\<rparr>) (cart_join u s)
         = map (order_line s n) (joined_lines u s)"
    using cart_join_lines [of "\<lambda>c p. \<lparr>oi_order_id = n, oi_menu_item_id = ci_menu_item_id c,
                         oi_quantity = ci_quantity c, oi_price = p\<rparr>" u s]
    by (simp add: order_line_def [abs_def])
  from assms show "s' = ordered n u (joined_lines u s) s" "n \<notin> set (map o_id (orders s))"
    by (auto simp: place_order_statements_def insert_orders_def insert_order_items_loop_rows
                   delete_cart_items_def ordered_def j l t
             split: if_splits)
qed

section \<open>Every call is one of the changes\<close>

lemma available_select: "select_menu_item i s = Some m \<Longrightarrow> available s i = quantity_available m"
  by (simp add: available_def)

lemma add_to_cart_statements_changes:
  assumes "add_to_cart_statements n u i q (quantity_available m)
             (case select_cart_item_of_user u i s of None \<Rightarrow> 0 | Some c \<Rightarrow> ci_quantity c) s
           = Inr (cid, vn, vr, s')"
    "select_menu_item i s = Some m" "\<not> quantity_available m < q" "cart_keys s"
  shows "changes (AddItem n u i q) s s'"
proof (cases "select_cart_item_of_user u i s")
  case None
  with add_to_cart_statements_new [OF assms(1)] assms(2,3) show ?thesis
    by (auto simp: available_select intro!: changes.reserved_new)
next
  case (Some c)
  with add_to_cart_statements_old [OF assms(1) _ assms(4)] assms(2,3) show ?thesis
    by (auto simp: available_select intro!: changes.reserved_more)
qed

lemma add_json_changes:
  "cart_keys s \<Longrightarrow> changes (AddItem n u i q) s (snd (add_to_cart_with_quantity_check n u i q s))"
  by (auto simp: add_to_cart_with_quantity_check_def Let_def
           intro: changes.unchanged add_to_cart_statements_changes
           split: option.splits sum.splits prod.splits)

lemma add_jsonb_changes:
  "cart_keys s \<Longrightarrow>
   changes (AddItem n u i q) s (snd (add_to_cart_with_quantity_check_jsonb a n u i q s))"
  by (auto simp: add_to_cart_with_quantity_check_jsonb_def Let_def
           intro: changes.unchanged add_to_cart_statements_changes
           split: option.splits sum.splits prod.splits)

lemma select_cart_item_row:
  "select_cart_item cid u s = Some c \<Longrightarrow> c \<in> set (cart_items s) \<and> ci_id c = cid \<and> ci_user_id c = u"
  by (auto simp: select_cart_item_def dest: find_mem)

lemma select_cart_item_join_row:
  "select_cart_item_join cid u s = Some (c, m) \<Longrightarrow>
   c \<in> set (cart_items s) \<and> ci_id c = cid \<and> ci_user_id c = u
   \<and> select_menu_item (ci_menu_item_id c) s = Some m"
  by (auto simp: select_cart_item_join_def dest: find_mem split: option.splits)

lemma delete_then_restore_changes:
  assumes "delete_then_restore u cid (ci_quantity c) (ci_menu_item_id c) s = Inr s'"
    "c \<in> set (cart_items s)" "ci_id c = cid" "ci_user_id c = u" "cart_keys s"
    "r = RemoveItem u cid \<or> r = SetQuantity u cid q \<and> q \<le> 0"
  shows "changes r s s'"
proof -
  from assms(5) have d: "distinct (map ci_id (cart_items s))" by (simp add: cart_keys_def)
  from delete_then_restore_line [OF assms(1) d assms(2-4)] assms(2-4,6) show ?thesis
    by (auto intro: changes.removed)
qed

lemma remove_json_changes:
  "cart_keys s \<Longrightarrow>
   changes (RemoveItem u cid) s (snd (remove_from_cart_with_quantity_restore u cid s))"
  by (auto simp: remove_from_cart_with_quantity_restore_def Let_def
           intro: changes.unchanged delete_then_restore_changes
           dest!: select_cart_item_join_row
           split: option.splits sum.splits prod.splits)

lemma remove_jsonb_changes:
  "cart_keys s \<Longrightarrow> r = RemoveItem u cid \<or> r = SetQuantity u cid q \<and> q \<le> 0 \<Longrightarrow>
   changes r s (snd (remove_from_cart_with_quantity_restore_jsonb a u cid s))"
  by (auto simp: remove_from_cart_with_quantity_restore_jsonb_def Let_def restore_then_delete_eq
           intro: changes.unchanged delete_then_restore_changes
           dest!: select_cart_item_row
           split: option.splits sum.splits prod.splits)

lemma update_quantity_statements_changes:
  assumes "update_quantity_statements u cid q (q - ci_quantity c) va (ci_menu_item_id c) s = Inr (vr, s')"
    "c \<in> set (cart_items s)" "ci_id c = cid" "ci_user_id c = u" "cart_keys s" "0 < q"
    "select_menu_item (ci_menu_item_id c) s = None \<or> q - ci_quantity c \<le> 0
       \<or> q - ci_quantity c \<le> available s (ci_menu_item_id c)"
  shows "changes (SetQuantity u cid q) s s'"
proof -
  from assms(5) have d: "distinct (map ci_id (cart_items s))" by (simp add: cart_keys_def)
  from update_quantity_statements_line(1) [OF assms(1) d assms(2-4)]
    changes.updated [OF assms(2-4,6,7)]
  show ?thesis by simp
qed

lemma update_quantity_statements_jsonb_changes:
  assumes "update_quantity_statements_jsonb u cid q (q - ci_quantity c) va (ci_menu_item_id c) s
           = Inr (vr, s')"
    "c \<in> set (cart_items s)" "ci_id c = cid" "ci_user_id c = u" "cart_keys s" "0 < q"
    "select_menu_item (ci_menu_item_id c) s = None \<or> q - ci_quantity c \<le> 0
       \<or> q - ci_quantity c \<le> available s (ci_menu_item_id c)"
  shows "changes (SetQuantity u cid q) s s'"
proof -
  from assms(5) have d: "distinct (map ci_id (cart_items s))" by (simp add: cart_keys_def)
  from update_quantity_statements_jsonb_line(1) [OF assms(1) d assms(2-4)]
    changes.updated [OF assms(2-4,6,7)]
  show ?thesis by simp
qed

lemma update_json_changes:
  assumes "cart_keys s"
  shows "changes (SetQuantity u cid q) s (snd (update_cart_quantity_with_stock_check u cid q s))"
proof (cases "select_cart_item_join cid u s")
  case None
  then show ?thesis
    by (simp add: update_cart_quantity_with_stock_check_def changes.unchanged)
next
  case (Some cm)
  obtain c m where cm: "cm = (c, m)" by (cases cm)
  from Some cm have row: "c \<in> set (cart_items s)" "ci_id c = cid" "ci_user_id c = u"
    "select_menu_item (ci_menu_item_id c) s = Some m"
    by (auto dest: select_cart_item_join_row)
  show ?thesis
  proof (cases "in_int4 (q - ci_quantity c)")
    case False
    with Some cm show ?thesis
      by (simp add: update_cart_quantity_with_stock_check_def int4_def Let_def changes.unchanged)
  next
    case True
    show ?thesis
    proof (cases "q - ci_quantity c > 0 \<and> quantity_available m < q - ci_quantity c")
      case True
      with Some cm \<open>in_int4 (q - ci_quantity c)\<close> show ?thesis
        by (simp add: update_cart_quantity_with_stock_check_def int4_def Let_def changes.unchanged)
    next
      case False
      show ?thesis
      proof (cases "q \<le> 0")
        case True
        with Some cm \<open>in_int4 (q - ci_quantity c)\<close> False assms row show ?thesis
          by (auto simp: update_cart_quantity_with_stock_check_def int4_def Let_def
                   intro: changes.unchanged delete_then_restore_changes
                   split: sum.splits)
      next
        case q: False
        from False row(4) have g: "select_menu_item (ci_menu_item_id c) s = None
            \<or> q - ci_quantity c \<le> 0
            \<or> q - ci_quantity c \<le> available s (ci_menu_item_id c)"
          by (auto simp: available_select)
        from q have q': "0 < q" by simp
        show ?thesis
        proof (cases "update_quantity_statements u cid q (q - ci_quantity c)
                        (quantity_available m) (ci_menu_item_id c) s")
          case (Inl e)
          with Some cm \<open>in_int4 (q - ci_quantity c)\<close> False q show ?thesis
            by (simp add: update_cart_quantity_with_stock_check_def int4_def Let_def changes.unchanged)
        next
          case (Inr p)
          obtain vr s' where p: "p = (vr, s')" by (cases p)
          from update_quantity_statements_changes [OF Inr [unfolded p] row(1-3) assms q' g]
            Some cm \<open>in_int4 (q - ci_quantity c)\<close> False q Inr p
          show ?thesis
            by (auto simp: update_cart_quantity_with_stock_check_def int4_def Let_def)
        qed
      qed
    qed
  qed
qed

lemma update_jsonb_changes:
  assumes "cart_keys s"
  shows "changes (SetQuantity u cid q) s
           (snd (update_cart_quantity_with_stock_check_jsonb a u cid q s))"
proof (cases "auth_uid_differs a u")
  case True
  then show ?thesis
    by (simp add: update_cart_quantity_with_stock_check_jsonb_def changes.unchanged)
next
  case auth: False
  show ?thesis
  proof (cases "q \<le> 0")
    case True
    with auth remove_jsonb_changes [OF assms, of "SetQuantity u cid q" u cid q a] show ?thesis
      by (simp add: update_cart_quantity_with_stock_check_jsonb_def)
  next
    case q: False
    show ?thesis
    proof (cases "select_cart_item cid u s")
      case None
      with auth q show ?thesis
        by (simp add: update_cart_quantity_with_stock_check_jsonb_def changes.unchanged)
    next
      case (Some c)
      then have row: "c \<in> set (cart_items s)" "ci_id c = cid" "ci_user_id c = u"
        by (auto dest: select_cart_item_row)
      show ?thesis
      proof (cases "in_int4 (q - ci_quantity c)")
        case False
        with auth q Some show ?thesis
          by (simp add: update_cart_quantity_with_stock_check_jsonb_def int4_def Let_def
                changes.unchanged)
      next
        case True
        show ?thesis
        proof (cases "select_menu_item (ci_menu_item_id c) s")
          case None
          from q have q': "0 < q" by simp
          from None have g: "select_menu_item (ci_menu_item_id c) s = None
            \<or> q - ci_quantity c \<le> 0
            \<or> q - ci_quantity c \<le> available s (ci_menu_item_id c)" by simp
          show ?thesis
          proof (cases "update_quantity_statements_jsonb u cid q (q - ci_quantity c)
                          None (ci_menu_item_id c) s")
            case (Inl e)
            with auth q Some True None show ?thesis
              by (simp add: update_cart_quantity_with_stock_check_jsonb_def int4_def Let_def
                    changes.unchanged)
          next
            case (Inr p)
            obtain vr s' where p: "p = (vr, s')" by (cases p)
            from update_quantity_statements_jsonb_changes [OF Inr [unfolded p] row(1-3) assms q' g]
              auth q Some True None Inr p
            show ?thesis
              by (simp add: update_cart_quantity_with_stock_check_jsonb_def int4_def Let_def)
          qed
        next
          case m: (Some m)
          from q have q': "0 < q" by simp
          show ?thesis
          proof (cases "q - ci_quantity c > 0 \<and> quantity_available m < q - ci_quantity c")
            case True
            with auth q Some \<open>in_int4 (q - ci_quantity c)\<close> m show ?thesis
              by (simp add: update_cart_quantity_with_stock_check_jsonb_def int4_def Let_def
                    changes.unchanged)
          next
            case False
            with m have g: "select_menu_item (ci_menu_item_id c) s = None
              \<or> q - ci_quantity c \<le> 0
              \<or> q - ci_quantity c \<le> available s (ci_menu_item_id c)"
              by (auto simp: available_select)
            show ?thesis
            proof (cases "update_quantity_statements_jsonb u cid q (q - ci_quantity c)
                            (Some (quantity_available m)) (ci_menu_item_id c) s")
              case (Inl e)
              with auth q Some True m False show ?thesis
                by (simp add: update_cart_quantity_with_stock_check_jsonb_def int4_def Let_def
                      changes.unchanged)
            next
              case (Inr p)
              obtain vr s' where p: "p = (vr, s')" by (cases p)
              from update_quantity_statements_jsonb_changes [OF Inr [unfolded p] row(1-3) assms q' g]
                auth q Some True m False Inr p
              show ?thesis
                by (auto simp: update_cart_quantity_with_stock_check_jsonb_def int4_def Let_def)
            qed
          qed
        qed
      qed
    qed
  qed
qed

lemma place_order_statements_changes:
  "place_order_statements n u (cart_total u s) s = Inr s' \<Longrightarrow> changes (Checkout n u) s s'"
  using place_order_statements_ordered [of n u s s'] by (simp add: changes.checked_out)

lemma place_json_changes:
  "changes (Checkout n u) s (snd (place_order_with_cart_clear n u s))"
  by (auto simp: place_order_with_cart_clear_def Let_def
           intro: changes.unchanged place_order_statements_changes
           split: sum.splits)

lemma place_jsonb_changes:
  "changes (Checkout n u) s (snd (place_order_with_cart_clear_jsonb a n u s))"
  by (auto simp: place_order_with_cart_clear_jsonb_def Let_def
           intro: changes.unchanged place_order_statements_changes
           split: sum.splits)

lemma call_changes: "cart_keys s \<Longrightarrow> changes r s (snd (call rv a r s))"
  by (cases rv; cases r)
     (simp_all add: add_json_changes add_jsonb_changes update_json_changes update_jsonb_changes
        remove_json_changes remove_jsonb_changes place_json_changes place_jsonb_changes)

section \<open>The changes keep the keys and the stock\<close>

lemma cart_change_menu:
  "select_menu_item j (add_line c s) = select_menu_item j s"
  "select_menu_item j (set_line_quantity cid v s) = select_menu_item j s"
  "select_menu_item j (delete_line cid s) = select_menu_item j s"
  "available (add_line c s) j = available s j"
  "available (set_line_quantity cid v s) j = available s j"
  "available (delete_line cid s) j = available s j"
  by (simp_all add: select_menu_item_def available_def add_line_def set_line_quantity_def
        delete_line_def)

lemma cart_change_sold:
  "sold_quantity (add_line c s) j = sold_quantity s j"
  "sold_quantity (set_line_quantity cid v s) j = sold_quantity s j"
  "sold_quantity (delete_line cid s) j = sold_quantity s j"
  by (simp_all add: sold_quantity_def cancelled_def add_line_def set_line_quantity_def
        delete_line_def)

lemma select_cart_item_of_user_row:
  "select_cart_item_of_user u i s = Some c \<Longrightarrow>
   c \<in> set (cart_items s) \<and> ci_user_id c = u \<and> ci_menu_item_id c = i"
  by (auto simp: select_cart_item_of_user_def dest: find_mem)

lemma sum_list_filter_split:
  "sum_list (map f (filter P xs)) =
     sum_list (map f (filter (\<lambda>x. P x \<and> Q x) xs)) + sum_list (map f (filter (\<lambda>x. P x \<and> \<not> Q x) xs))"
  for f :: "'a \<Rightarrow> int"
  by (induction xs) auto

lemma ordered_tables:
  "menu_items (ordered n u L s) = menu_items s"
  "cart_items (ordered n u L s) = filter (\<lambda>c. ci_user_id c \<noteq> u) (cart_items s)"
  "orders (ordered n u L s) = orders s @
     [\<lparr>o_id = n, o_user_id = u, o_total_amount = sum_list (map (line_total s) L),
       o_status = ''pending'', o_payment_status = ''pending''\<rparr>]"
  "order_items (ordered n u L s) = order_items s @ map (order_line s n) L"
  by (simp_all add: ordered_def)

lemma ordered_cart_quantity:
  "cart_quantity (ordered n u L s) j =
     cart_quantity s j
       - sum_list (map ci_quantity (filter (\<lambda>c. ci_menu_item_id c = j \<and> ci_user_id c = u) (cart_items s)))"
  using sum_list_filter_split [of ci_quantity "\<lambda>c. ci_menu_item_id c = j" "cart_items s"
          "\<lambda>c. ci_user_id c = u"]
  by (simp add: cart_quantity_def ordered_tables conj_commute)

lemma ordered_cancelled:
  "cancelled (ordered n u L s) oid = cancelled s oid"
  by (simp add: cancelled_def ordered_tables)

lemma ordered_sold_quantity:
  assumes "n \<notin> set (map o_id (orders s))"
  shows "sold_quantity (ordered n u L s) j =
           sold_quantity s j + sum_list (map ci_quantity (filter (\<lambda>c. ci_menu_item_id c = j) L))"
proof -
  from assms have "\<not> cancelled s n"
    by (auto simp: cancelled_def list_ex_iff)
  then have "filter (\<lambda>l. oi_menu_item_id l = j \<and> \<not> cancelled s (oi_order_id l)) (map (order_line s n) L)
      = map (order_line s n) (filter (\<lambda>c. ci_menu_item_id c = j) L)"
    by (induction L) (auto simp: order_line_def)
  then show ?thesis
    by (simp add: sold_quantity_def ordered_cancelled ordered_tables order_line_def comp_def)
qed

lemma joined_lines_item:
  "select_menu_item j s \<noteq> None \<Longrightarrow>
   filter (\<lambda>c. ci_menu_item_id c = j) (joined_lines u s)
     = filter (\<lambda>c. ci_menu_item_id c = j \<and> ci_user_id c = u) (cart_items s)"
  by (auto simp: joined_lines_def intro: filter_cong)

lemma changes_menu_ids:
  "changes r s s' \<Longrightarrow> map mi_id (menu_items s') = map mi_id (menu_items s)"
  by (induction rule: changes.induct)
     (simp_all add: change_available_def add_line_def set_line_quantity_def delete_line_def
        ordered_def comp_def)

lemma changes_menu_exists:
  "changes r s s' \<Longrightarrow> (select_menu_item j s' = None) = (select_menu_item j s = None)"
  by (rule select_menu_item_ids) (rule changes_menu_ids)

lemma changes_cart_keys: "changes r s s' \<Longrightarrow> cart_keys s \<Longrightarrow> cart_keys s'"
proof (induction rule: changes.induct)
  case (reserved_new i s q u n)
  then show ?case
    by (auto intro!: cart_keys_add_line
             simp: change_available_tables change_available_select_cart
                   cart_keys_tables [of "change_available i (- q) s" s])
next
  case (checked_out n s u)
  then show ?case
    by (simp add: cart_keys_def ordered_tables distinct_map_filter)
qed (simp_all add: cart_keys_set_line_quantity cart_keys_delete_line
       cart_keys_tables [OF change_available_tables(1)])

lemma changes_stock:
  assumes "changes r s s'" "cart_keys s" "select_menu_item j s \<noteq> None"
  shows "available s' j + cart_quantity s' j + sold_quantity s' j
           = available s j + cart_quantity s j + sold_quantity s j"
  using assms
proof (induction rule: changes.induct)
  case (unchanged r s)
  then show ?case by simp
next
  case (reserved_new i s q u n)
  then show ?case
    by (simp add: cart_change_menu cart_change_sold add_line_cart_quantity
          change_available_available change_available_cart_quantity change_available_sold_quantity)
next
  case (reserved_more i s q u c n)
  then have c: "c \<in> set (cart_items (change_available i (- q) s))" "ci_menu_item_id c = i"
    and d: "distinct (map ci_id (cart_items (change_available i (- q) s)))"
    by (auto simp: change_available_tables cart_keys_def dest: select_cart_item_of_user_row)
  from reserved_more set_line_quantity_cart_quantity [OF d c(1), of "ci_quantity c + q" j] c(2)
  show ?case
    by (simp add: cart_change_menu cart_change_sold
          change_available_available change_available_cart_quantity change_available_sold_quantity)
next
  case (removed c s cid u r q)
  then have d: "distinct (map ci_id (cart_items s))" by (simp add: cart_keys_def)
  from removed delete_line_cart_quantity [OF d removed(1), of j]
  show ?case
    by (auto simp: cart_change_menu cart_change_sold
          change_available_available change_available_cart_quantity change_available_sold_quantity)
next
  case (updated c s cid u q)
  then have d: "distinct (map ci_id (cart_items s))" by (simp add: cart_keys_def)
  from updated set_line_quantity_cart_quantity [OF d updated(1), of q j]
  show ?case
    by (auto simp: cart_change_menu cart_change_sold
          change_available_available change_available_cart_quantity change_available_sold_quantity)
next
  case (checked_out n s u)
  then show ?case
    by (simp add: ordered_cart_quantity ordered_sold_quantity joined_lines_item
          available_tables [OF ordered_tables(1)])
qed

section \<open>The changes keep the data model's constraints\<close>

lemma select_menu_item_row:
  "distinct (map mi_id (menu_items s)) \<Longrightarrow> m \<in> set (menu_items s) \<Longrightarrow>
   select_menu_item (mi_id m) s = Some m"
proof -
  assume d: "distinct (map mi_id (menu_items s))" and m: "m \<in> set (menu_items s)"
  then obtain m' where f: "select_menu_item (mi_id m) s = Some m'"
    by (cases "select_menu_item (mi_id m) s") (auto simp: select_menu_item_def find_None_iff)
  then have "m' \<in> set (menu_items s)" "mi_id m' = mi_id m"
    by (auto simp: select_menu_item_def dest: find_mem)
  with key_eq_row [OF d _ m] f show ?thesis by auto
qed

lemma consistent_iff:
  "consistent s \<longleftrightarrow>
     distinct (map mi_id (menu_items s)) \<and> cart_keys s
     \<and> (\<forall>c\<in>set (cart_items s). 0 < ci_quantity c \<and> select_menu_item (ci_menu_item_id c) s \<noteq> None)
     \<and> (\<forall>j. select_menu_item j s \<noteq> None \<longrightarrow> 0 \<le> available s j)"
  (is "?L \<longleftrightarrow> ?R")
proof
  assume l: ?L
  have "0 \<le> available s j" if "select_menu_item j s \<noteq> None" for j
  proof -
    from that obtain m where m: "select_menu_item j s = Some m" by auto
    then have "m \<in> set (menu_items s)" "mi_id m = j"
      by (auto simp: select_menu_item_def dest: find_mem)
    with l m show ?thesis
      by (auto simp: consistent_def list_all_iff available_def)
  qed
  with l show ?R by (auto simp: consistent_def list_all_iff)
next
  assume r: ?R
  have "0 \<le> quantity_available m" if "m \<in> set (menu_items s)" for m
  proof -
    from r that have "select_menu_item (mi_id m) s = Some m"
      by (auto intro: select_menu_item_row)
    with r show ?thesis
      by (auto simp: available_def dest!: spec [of _ "mi_id m"])
  qed
  with r show ?L by (auto simp: consistent_def list_all_iff)
qed

lemma stock_fits_iff:
  assumes "distinct (map mi_id (menu_items s))"
  shows "stock_fits s \<longleftrightarrow>
     (\<forall>j. select_menu_item j s \<noteq> None \<longrightarrow> available s j + cart_quantity s j \<le> 2147483647)"
  (is "?L \<longleftrightarrow> ?R")
proof
  assume l: ?L
  have "available s j + cart_quantity s j \<le> 2147483647" if "select_menu_item j s \<noteq> None" for j
  proof -
    from that obtain m where m: "select_menu_item j s = Some m" by auto
    then have "m \<in> set (menu_items s)" "mi_id m = j"
      by (auto simp: select_menu_item_def dest: find_mem)
    with l m show ?thesis
      by (auto simp: stock_fits_def list_all_iff available_def)
  qed
  then show ?R by simp
next
  assume r: ?R
  have "quantity_available m + cart_quantity s (mi_id m) \<le> 2147483647"
    if "m \<in> set (menu_items s)" for m
  proof -
    from assms that have "select_menu_item (mi_id m) s = Some m"
      by (auto intro: select_menu_item_row)
    with r show ?thesis
      by (auto simp: available_def dest!: spec [of _ "mi_id m"])
  qed
  then show ?L by (auto simp: stock_fits_def list_all_iff)
qed

lemma cart_rows:
  "set (cart_items (change_available i d s)) = set (cart_items s)"
  "set (cart_items (add_line c s)) = insert c (set (cart_items s))"
  "set (cart_items (delete_line cid s)) \<subseteq> set (cart_items s)"
  "set (cart_items (ordered n u L s)) \<subseteq> set (cart_items s)"
  by (auto simp: change_available_tables add_line_def delete_line_def ordered_tables)

lemma set_line_quantity_rows:
  "x \<in> set (cart_items (set_line_quantity cid v s)) \<Longrightarrow>
   \<exists>c\<in>set (cart_items s). ci_menu_item_id x = ci_menu_item_id c
      \<and> (ci_quantity x = ci_quantity c \<or> ci_quantity x = v)"
  by (auto simp: set_line_quantity_def split: if_splits)

lemma changes_cart_rows:
  assumes "changes r s s'" "valid_request r"
    "\<forall>c\<in>set (cart_items s). 0 < ci_quantity c \<and> select_menu_item (ci_menu_item_id c) s \<noteq> None"
  shows "\<forall>c\<in>set (cart_items s'). 0 < ci_quantity c \<and> select_menu_item (ci_menu_item_id c) s \<noteq> None"
  using assms
proof (induction rule: changes.induct)
  case (unchanged r s)
  then show ?case by simp
next
  case (reserved_new i s q u n)
  then show ?case by (auto simp: cart_rows)
next
  case (reserved_more i s q u c n)
  then have "0 < ci_quantity c + q"
    by (auto dest!: select_cart_item_of_user_row)
  with reserved_more show ?case
    by (auto dest!: set_line_quantity_rows simp: cart_rows)
next
  case (removed c s cid u r q)
  with cart_rows(3) [of cid s] show ?case by (auto simp: cart_rows(1))
next
  case (updated c s cid u q)
  then show ?case
    by (auto dest!: set_line_quantity_rows simp: cart_rows)
next
  case (checked_out n s u)
  with cart_rows(4) [of n u "joined_lines u s" s] show ?case by auto
qed

lemma sum_list_quantities_nonneg:
  "\<forall>c\<in>set cs. 0 < ci_quantity c \<Longrightarrow> 0 \<le> sum_list (map ci_quantity (filter P cs))"
  by (induction cs) auto

lemma changes_stock_bounds:
  assumes "changes r s s'" "consistent s" "select_menu_item j s \<noteq> None"
  shows "0 \<le> available s' j
    \<and> available s' j + cart_quantity s' j \<le> available s j + cart_quantity s j"
proof -
  from assms(2) have k: "cart_keys s" and d: "distinct (map ci_id (cart_items s))"
    and rows: "\<forall>c\<in>set (cart_items s). 0 < ci_quantity c \<and> select_menu_item (ci_menu_item_id c) s \<noteq> None"
    and b: "\<And>j. select_menu_item j s \<noteq> None \<Longrightarrow> 0 \<le> available s j"
    by (auto simp: consistent_iff cart_keys_def)
  from assms(1,3) k d rows b show ?thesis
  proof (induction rule: changes.induct)
    case (unchanged r s)
    then show ?case by simp
  next
    case (reserved_new i s q u n)
    from reserved_new(9) [OF reserved_new(5)] reserved_new(9) [OF reserved_new(1)] reserved_new(1,2)
    show ?case
      by (simp add: cart_change_menu add_line_cart_quantity
            change_available_available change_available_cart_quantity)
  next
    case (reserved_more i s q u c n)
    then have c: "c \<in> set (cart_items (change_available i (- q) s))" "ci_menu_item_id c = i"
      and d: "distinct (map ci_id (cart_items (change_available i (- q) s)))"
      by (auto simp: change_available_tables dest: select_cart_item_of_user_row)
    from reserved_more(8) [OF reserved_more(4)] reserved_more(8) [OF reserved_more(1)]
      reserved_more(1,2) set_line_quantity_cart_quantity [OF d c(1), of "ci_quantity c + q" j] c(2)
    show ?case
      by (simp add: cart_change_menu
            change_available_available change_available_cart_quantity)
  next
    case (removed c s cid u r q)
    from removed(1,8) have "0 < ci_quantity c" "select_menu_item (ci_menu_item_id c) s \<noteq> None"
      by auto
    with removed(9) [OF removed(5)] removed(2)
      delete_line_cart_quantity [OF removed(7) removed(1), of j]
    show ?case
      by (auto simp: cart_change_menu change_available_available change_available_cart_quantity)
  next
    case (updated c s cid u q)
    from updated(1,9) have "0 < ci_quantity c" "select_menu_item (ci_menu_item_id c) s \<noteq> None"
      by auto
    with updated(10) [OF updated(6)] updated(2,4,5)
      set_line_quantity_cart_quantity [OF updated(8) updated(1), of q j]
    show ?case
      by (auto simp: cart_change_menu change_available_available change_available_cart_quantity)
  next
    case (checked_out n s u)
    from checked_out(5)
    have "0 \<le> sum_list (map ci_quantity
             (filter (\<lambda>c. ci_menu_item_id c = j \<and> ci_user_id c = u) (cart_items s)))"
      by (intro sum_list_quantities_nonneg) auto
    with checked_out(6) [OF checked_out(2)] show ?case
      by (simp add: ordered_cart_quantity available_tables [OF ordered_tables(1)])
  qed
qed

lemma changes_consistent:
  assumes "changes r s s'" "valid_request r" "consistent s"
  shows "consistent s'"
proof -
  from assms(3) have k: "cart_keys s" "distinct (map mi_id (menu_items s))"
    and rows: "\<forall>c\<in>set (cart_items s). 0 < ci_quantity c \<and> select_menu_item (ci_menu_item_id c) s \<noteq> None"
    by (auto simp: consistent_iff)
  from changes_cart_rows [OF assms(1,2) rows] changes_menu_exists [OF assms(1)]
  have "\<forall>c\<in>set (cart_items s'). 0 < ci_quantity c \<and> select_menu_item (ci_menu_item_id c) s' \<noteq> None"
    by simp
  moreover from changes_stock_bounds [OF assms(1,3)] changes_menu_exists [OF assms(1)]
  have "\<forall>j. select_menu_item j s' \<noteq> None \<longrightarrow> 0 \<le> available s' j"
    by simp
  ultimately show ?thesis
    using changes_cart_keys [OF assms(1) k(1)] changes_menu_ids [OF assms(1)] k(2)
    by (simp add: consistent_iff)
qed

lemma changes_stock_fits:
  assumes "changes r s s'" "consistent s" "stock_fits s"
  shows "stock_fits s'"
proof -
  from assms(2) have d: "distinct (map mi_id (menu_items s))" by (simp add: consistent_iff)
  with changes_menu_ids [OF assms(1)] have d': "distinct (map mi_id (menu_items s'))" by simp
  have "available s' j + cart_quantity s' j \<le> 2147483647" if "select_menu_item j s' \<noteq> None" for j
  proof -
    from that changes_menu_exists [OF assms(1)] have e: "select_menu_item j s \<noteq> None" by simp
    with assms(3) d have "available s j + cart_quantity s j \<le> 2147483647"
      by (simp add: stock_fits_iff)
    with changes_stock_bounds [OF assms(1,2) e] show ?thesis by simp
  qed
  with d' show ?thesis by (simp add: stock_fits_iff)
qed

section \<open>Runs\<close>

lemma run_cart_keys: "cart_keys s \<Longrightarrow> cart_keys (run rv reqs s)"
proof (induction reqs arbitrary: s)
  case Nil
  then show ?case by simp
next
  case (Cons ar reqs)
  obtain a r where ar: "ar = (a, r)" by (cases ar)
  from Cons.prems have "cart_keys (snd (call rv a r s))"
    by (intro changes_cart_keys [OF call_changes])
  with Cons.IH ar show ?case by simp
qed

lemma run_stock:
  "cart_keys s \<Longrightarrow> select_menu_item j s \<noteq> None \<Longrightarrow>
   select_menu_item j (run rv reqs s) \<noteq> None
   \<and> available (run rv reqs s) j + cart_quantity (run rv reqs s) j + sold_quantity (run rv reqs s) j
       = available s j + cart_quantity s j + sold_quantity s j"
proof (induction reqs arbitrary: s)
  case Nil
  then show ?case by simp
next
  case (Cons ar reqs)
  obtain a r where ar: "ar = (a, r)" by (cases ar)
  let ?s = "snd (call rv a r s)"
  from Cons.prems have c: "changes r s ?s" by (intro call_changes)
  from changes_cart_keys [OF c Cons.prems(1)] changes_menu_exists [OF c, of j] Cons.prems(2)
  have "cart_keys ?s" "select_menu_item j ?s \<noteq> None" by simp_all
  from Cons.IH [OF this] changes_stock [OF c Cons.prems] ar show ?case by simp
qed

lemma run_consistent:
  "consistent s \<Longrightarrow> list_all (\<lambda>(a, r). valid_request r) reqs \<Longrightarrow> consistent (run rv reqs s)"
proof (induction reqs arbitrary: s)
  case Nil
  then show ?case by simp
next
  case (Cons ar reqs)
  obtain a r where ar: "ar = (a, r)" by (cases ar)
  from Cons.prems have k: "cart_keys s" by (simp add: consistent_iff)
  from Cons.prems ar have "consistent (snd (call rv a r s))"
    by (intro changes_consistent [OF call_changes [OF k]]) simp_all
  with Cons.IH Cons.prems(2) ar show ?case by simp
qed

lemma run_stock_fits:
  "consistent s \<Longrightarrow> stock_fits s \<Longrightarrow> list_all (\<lambda>(a, r). valid_request r) reqs \<Longrightarrow>
   stock_fits (run rv reqs s)"
proof (induction reqs arbitrary: s)
  case Nil
  then show ?case by simp
next
  case (Cons ar reqs)
  obtain a r where ar: "ar = (a, r)" by (cases ar)
  from Cons.prems have k: "cart_keys s" by (simp add: consistent_iff)
  let ?s = "snd (call rv a r s)"
  from Cons.prems ar have "consistent ?s" "stock_fits ?s"
    by (auto intro: changes_consistent [OF call_changes [OF k]]
          changes_stock_fits [OF call_changes [OF k]])
  with Cons.IH Cons.prems(3) ar show ?case by simp
qed

lemma changes_positive:
  assumes "changes r s s'" "valid_request r" "\<forall>c\<in>set (cart_items s). 0 < ci_quantity c"
  shows "\<forall>c\<in>set (cart_items s'). 0 < ci_quantity c"
  using assms
proof (induction rule: changes.induct)
  case (unchanged r s)
  then show ?case by simp
next
  case (reserved_new i s q u n)
  then show ?case by (auto simp: cart_rows)
next
  case (reserved_more i s q u c n)
  then have "0 < ci_quantity c + q"
    by (auto dest!: select_cart_item_of_user_row)
  with reserved_more show ?case
    by (auto dest!: set_line_quantity_rows simp: cart_rows)
next
  case (removed c s cid u r q)
  with cart_rows(3) [of cid s] show ?case by (auto simp: cart_rows(1))
next
  case (updated c s cid u q)
  then show ?case
    by (auto dest!: set_line_quantity_rows simp: cart_rows)
next
  case (checked_out n s u)
  with cart_rows(4) [of n u "joined_lines u s" s] show ?case by auto
qed

lemma run_positive:
  "cart_keys s \<Longrightarrow> \<forall>c\<in>set (cart_items s). 0 < ci_quantity c \<Longrightarrow>
   list_all (\<lambda>(a, r). valid_request r) reqs \<Longrightarrow>
   \<forall>c\<in>set (cart_items (run rv reqs s)). 0 < ci_quantity c"
proof (induction reqs arbitrary: s)
  case Nil
  then show ?case by simp
next
  case (Cons ar reqs)
  obtain a r where ar: "ar = (a, r)" by (cases ar)
  let ?s = "snd (call rv a r s)"
  from Cons.prems(1) have c: "changes r s ?s" by (intro call_changes)
  from Cons.prems(3) ar have v: "valid_request r" by simp
  from Cons.IH [OF changes_cart_keys [OF c Cons.prems(1)] changes_positive [OF c v Cons.prems(2)]]
    Cons.prems(3) ar
  show ?case by simp
qed

text \<open>
  A cart row and what is still available of its item fit the integer column together, as long
  as the stock does: incrementing a row by a quantity that passed the stock check stays in
  range on the tables that a run reaches from a stocked shop.
\<close>

lemma quantity_le_sum:
  "\<forall>x\<in>set cs. 0 < ci_quantity x \<Longrightarrow> c \<in> set cs \<Longrightarrow> P c \<Longrightarrow>
   ci_quantity c \<le> sum_list (map ci_quantity (filter P cs))"
proof (induction cs)
  case Nil
  then show ?case by simp
next
  case (Cons a cs)
  from Cons.prems(1) have "0 \<le> sum_list (map ci_quantity (filter P cs))"
    by (intro sum_list_quantities_nonneg) simp
  with Cons show ?case by auto
qed

lemma stock_fits_line:
  assumes "consistent s" "stock_fits s" "select_menu_item i s = Some m"
    "select_cart_item_of_user u i s = Some c" "q \<le> quantity_available m"
  shows "ci_quantity c + q \<le> 2147483647"
proof -
  from assms(1) have d: "distinct (map mi_id (menu_items s))"
    and p: "\<forall>c\<in>set (cart_items s). 0 < ci_quantity c"
    by (simp_all add: consistent_iff)
  from assms(4) have "c \<in> set (cart_items s)" "ci_menu_item_id c = i"
    by (auto dest: select_cart_item_of_user_row)
  with quantity_le_sum [OF p, of c "\<lambda>c. ci_menu_item_id c = i"]
  have "ci_quantity c \<le> cart_quantity s i" by (simp add: cart_quantity_def)
  moreover from assms(2,3) d have "available s i + cart_quantity s i \<le> 2147483647"
    by (simp add: stock_fits_iff)
  ultimately show ?thesis using assms(3,5) by (simp add: available_select)
qed

section \<open>Failures\<close>

lemma add_json_failed:
  "add_to_cart_with_quantity_check n u i q s = (out, s') \<Longrightarrow> failed out \<Longrightarrow> s' = s"
  by (auto simp: add_to_cart_with_quantity_check_def Let_def
           split: option.splits sum.splits prod.splits if_splits)

lemma update_json_failed:
  "update_cart_quantity_with_stock_check u c q s = (out, s') \<Longrightarrow> failed out \<Longrightarrow> s' = s"
  by (auto simp: update_cart_quantity_with_stock_check_def Let_def
           split: option.splits sum.splits prod.splits if_splits)

lemma remove_json_failed:
  "remove_from_cart_with_quantity_restore u c s = (out, s') \<Longrightarrow> failed out \<Longrightarrow> s' = s"
  by (auto simp: remove_from_cart_with_quantity_restore_def Let_def
           split: option.splits sum.splits prod.splits if_splits)

lemma place_json_failed:
  "place_order_with_cart_clear n u s = (out, s') \<Longrightarrow> failed out \<Longrightarrow> s' = s"
  by (auto simp: place_order_with_cart_clear_def Let_def
           split: option.splits sum.splits prod.splits if_splits)

lemma add_jsonb_failed:
  "add_to_cart_with_quantity_check_jsonb a n u i q s = (out, s') \<Longrightarrow> failed out \<Longrightarrow> s' = s"
  by (auto simp: add_to_cart_with_quantity_check_jsonb_def Let_def
           split: option.splits sum.splits prod.splits if_splits)

lemma remove_jsonb_failed:
  "remove_from_cart_with_quantity_restore_jsonb a u c s = (out, s') \<Longrightarrow> failed out \<Longrightarrow> s' = s"
  by (auto simp: remove_from_cart_with_quantity_restore_jsonb_def Let_def
           split: option.splits sum.splits prod.splits if_splits)

lemma update_jsonb_failed:
  "update_cart_quantity_with_stock_check_jsonb a u c q s = (out, s') \<Longrightarrow> failed out \<Longrightarrow> s' = s"
  by (auto simp: update_cart_quantity_with_stock_check_jsonb_def Let_def
           dest: remove_jsonb_failed
           split: option.splits sum.splits prod.splits if_splits)

lemma place_jsonb_failed:
  "place_order_with_cart_clear_jsonb a n u s = (out, s') \<Longrightarrow> failed out \<Longrightarrow> s' = s"
  by (auto simp: place_order_with_cart_clear_jsonb_def Let_def
           split: option.splits sum.splits prod.splits if_splits)

lemma call_failed: "call rv a r s = (out, s') \<Longrightarrow> failed out \<Longrightarrow> s' = s"
  by (cases rv; cases r)
     (auto dest: add_json_failed update_json_failed remove_json_failed place_json_failed
        add_jsonb_failed update_jsonb_failed remove_jsonb_failed place_jsonb_failed)

section \<open>When the statements succeed\<close>

lemma select_menu_item_only:
  assumes "distinct (map mi_id (menu_items s))" "select_menu_item i s = Some m"
    "x \<in> set (menu_items s)" "mi_id x = i"
  shows "x = m"
proof -
  from assms(2) have "m \<in> set (menu_items s)" "mi_id m = i"
    by (auto simp: select_menu_item_def dest: find_mem)
  with key_eq_row [OF assms(1,3), of m] assms(4) show ?thesis by simp
qed

lemma update_menu_items_minus_ok:
  assumes "distinct (map mi_id (menu_items s))" "select_menu_item i s = Some m"
    "in_int4 (quantity_available m - d)"
  shows "update_menu_items (\<lambda>q. q - d) i s = Inr (change_available i (- d) s)"
proof -
  from select_menu_item_only [OF assms(1,2)] assms(3)
  have "\<not> list_ex (\<lambda>m. mi_id m = i \<and> \<not> in_int4 (quantity_available m - d)) (menu_items s)"
    by (auto simp: list_ex_iff)
  then show ?thesis
    by (simp add: update_menu_items_def change_available_def)
qed

lemma update_menu_items_plus_ok:
  assumes "distinct (map mi_id (menu_items s))" "select_menu_item i s = Some m"
    "in_int4 (quantity_available m + d)"
  shows "update_menu_items (\<lambda>q. q + d) i s = Inr (change_available i d s)"
proof -
  from select_menu_item_only [OF assms(1,2)] assms(3)
  have "\<not> list_ex (\<lambda>m. mi_id m = i \<and> \<not> in_int4 (quantity_available m + d)) (menu_items s)"
    by (auto simp: list_ex_iff)
  then show ?thesis
    by (simp add: update_menu_items_def change_available_def)
qed

lemma update_menu_items_minus_raises:
  assumes "select_menu_item i s = Some m" "\<not> in_int4 (quantity_available m - d)"
  shows "update_menu_items (\<lambda>q. q - d) i s = Inl Numeric_value_out_of_range"
proof -
  from assms(1) have "m \<in> set (menu_items s)" "mi_id m = i"
    by (auto simp: select_menu_item_def dest: find_mem)
  with assms(2) show ?thesis
    by (auto simp: update_menu_items_def list_ex_iff)
qed

lemma update_cart_items_set_ok:
  assumes "distinct (map ci_id (cart_items s))" "c \<in> set (cart_items s)" "ci_id c = cid"
    "ci_user_id c = u" "in_int4 v"
  shows "update_cart_items (\<lambda>q. v) (\<lambda>x. ci_id x = cid \<and> ci_user_id x = u) s
           = Inr (set_line_quantity cid v s)"
proof -
  from assms(5)
  have "update_cart_items (\<lambda>q. v) (\<lambda>x. ci_id x = cid \<and> ci_user_id x = u) s
      = Inr (s\<lparr>cart_items := map (\<lambda>c. if ci_id c = cid \<and> ci_user_id c = u
                                        then c\<lparr>ci_quantity := v\<rparr> else c) (cart_items s)\<rparr>)"
    by (simp add: update_cart_items_def list_ex_iff)
  with update_cart_items_set [OF _ assms(1-4)] show ?thesis by simp
qed

lemma insert_cart_items_on_conflict_new_ok:
  assumes "select_cart_item_of_user u i s = None" "n \<notin> set (map ci_id (cart_items s))"
  shows "insert_cart_items_on_conflict n u i v q s
           = Inr (n, add_line \<lparr>ci_id = n, ci_user_id = u, ci_menu_item_id = i, ci_quantity = v\<rparr> s)"
  using assms by (simp add: insert_cart_items_on_conflict_def add_line_def)

lemma insert_cart_items_on_conflict_old_ok:
  assumes "select_cart_item_of_user u i s = Some c" "cart_keys s" "in_int4 (ci_quantity c + q)"
  shows "insert_cart_items_on_conflict n u i v q s
           = Inr (ci_id c, set_line_quantity (ci_id c) (ci_quantity c + q) s)"
proof -
  from assms(1) have c: "c \<in> set (cart_items s)" "ci_user_id c = u" "ci_menu_item_id c = i"
    by (auto dest: select_cart_item_of_user_row)
  from assms(2) have d: "distinct (map ci_id (cart_items s))"
    "distinct (map (\<lambda>c. (ci_user_id c, ci_menu_item_id c)) (cart_items s))"
    by (auto simp: cart_keys_def)
  have "x = c" if "x \<in> set (cart_items s)" "ci_user_id x = u \<and> ci_menu_item_id x = i" for x
    using where_user_item [OF d c that(1)] that(2) key_eq_row [OF d(1) that(1) c(1)] by simp
  with assms(3)
  have "\<not> list_ex (\<lambda>x. (ci_user_id x = u \<and> ci_menu_item_id x = i)
                       \<and> \<not> in_int4 (ci_quantity x + q)) (cart_items s)"
    by (auto simp: list_ex_iff)
  then obtain s' where s': "insert_cart_items_on_conflict n u i v q s = Inr (ci_id c, s')"
    using assms(1) by (simp add: insert_cart_items_on_conflict_def update_cart_items_def)
  from insert_cart_items_on_conflict_old(1) [OF s' assms(1,2)] s' show ?thesis by simp
qed

lemma insert_cart_items_on_conflict_old_raises:
  assumes "select_cart_item_of_user u i s = Some c" "\<not> in_int4 (ci_quantity c + q)"
  shows "insert_cart_items_on_conflict n u i v q s = Inl Numeric_value_out_of_range"
proof -
  from assms(1) have c: "c \<in> set (cart_items s)" "ci_user_id c = u" "ci_menu_item_id c = i"
    by (auto dest: select_cart_item_of_user_row)
  with assms(2)
  have "list_ex (\<lambda>x. (ci_user_id x = u \<and> ci_menu_item_id x = i)
                       \<and> \<not> in_int4 (ci_quantity x + q)) (cart_items s)"
    by (auto simp: list_ex_iff)
  with assms(1) show ?thesis
    by (simp add: insert_cart_items_on_conflict_def update_cart_items_def)
qed

lemma add_to_cart_statements_new_ok:
  assumes "distinct (map mi_id (menu_items s))" "select_menu_item i s = Some m"
    "in_int4 (quantity_available m)" "0 < q" "q \<le> quantity_available m"
    "select_cart_item_of_user u i s = None" "n \<notin> set (map ci_id (cart_items s))"
  shows "add_to_cart_statements n u i q (quantity_available m) 0 s
           = Inr (n, q, quantity_available m - q,
                  add_line \<lparr>ci_id = n, ci_user_id = u, ci_menu_item_id = i, ci_quantity = q\<rparr>
                    (change_available i (- q) s))"
proof -
  from assms(3-5) have r: "in_int4 (quantity_available m - q)" "in_int4 q"
    by (auto simp: in_int4_def)
  from assms(6,7) have f: "select_cart_item_of_user u i (change_available i (- q) s) = None"
    "n \<notin> set (map ci_id (cart_items (change_available i (- q) s)))"
    by (simp_all add: change_available_select_cart change_available_tables)
  show ?thesis
    by (simp add: add_to_cart_statements_def update_menu_items_minus_ok [OF assms(1,2) r(1)]
          int4_def r insert_cart_items_on_conflict_new_ok [OF f])
qed

lemma add_to_cart_statements_old_ok:
  assumes "distinct (map mi_id (menu_items s))" "cart_keys s" "select_menu_item i s = Some m"
    "in_int4 (quantity_available m)" "0 < q" "q \<le> quantity_available m"
    "select_cart_item_of_user u i s = Some c" "in_int4 (ci_quantity c + q)"
  shows "add_to_cart_statements n u i q (quantity_available m) (ci_quantity c) s
           = Inr (ci_id c, ci_quantity c + q, quantity_available m - q,
                  set_line_quantity (ci_id c) (ci_quantity c + q) (change_available i (- q) s))"
proof -
  from assms(4-6) have r: "in_int4 (quantity_available m - q)"
    by (auto simp: in_int4_def)
  from assms(2,7) have f: "select_cart_item_of_user u i (change_available i (- q) s) = Some c"
    "cart_keys (change_available i (- q) s)"
    by (simp_all add: change_available_select_cart cart_keys_def change_available_tables)
  show ?thesis
    by (simp add: add_to_cart_statements_def update_menu_items_minus_ok [OF assms(1,3) r]
          int4_def r assms(8) insert_cart_items_on_conflict_old_ok [OF f assms(8)])
qed

lemma add_to_cart_statements_old_raises:
  assumes "select_cart_item_of_user u i s = Some c" "\<not> in_int4 (ci_quantity c + q)"
  shows "add_to_cart_statements n u i q va (ci_quantity c) s = Inl Numeric_value_out_of_range"
  using assms
  by (auto simp: add_to_cart_statements_def int4_def update_menu_items_def
           split: sum.splits)

lemma find_only:
  assumes "c \<in> set xs" "P c" "\<And>x. x \<in> set xs \<Longrightarrow> P x \<Longrightarrow> x = c"
  shows "find P xs = Some c"
proof -
  from assms(1,2) obtain y where y: "find P xs = Some y"
    by (cases "find P xs") (auto simp: find_None_iff)
  from find_mem [OF y] have "y \<in> set xs" "P y" by simp_all
  from assms(3) [OF this] y show ?thesis by simp
qed

lemma owned_row:
  assumes "cart_keys s" "c \<in> set (cart_items s)" "ci_id c = cid" "ci_user_id c = u"
  shows "select_cart_item cid u s = Some c"
    and "select_menu_item (ci_menu_item_id c) s = Some m \<Longrightarrow>
         select_cart_item_join cid u s = Some (c, m)"
proof -
  from assms(1) have d: "distinct (map ci_id (cart_items s))" by (simp add: cart_keys_def)
  have o: "x = c" if "x \<in> set (cart_items s)" "ci_id x = cid" for x
    using key_eq_row [OF d that(1) assms(2)] that(2) assms(3) by simp
  show "select_cart_item cid u s = Some c"
    unfolding select_cart_item_def
  proof (rule find_only)
    show "c \<in> set (cart_items s)" by (rule assms(2))
    show "ci_id c = cid \<and> ci_user_id c = u" using assms(3,4) by simp
    show "x = c" if "x \<in> set (cart_items s)" "ci_id x = cid \<and> ci_user_id x = u" for x
      using o that by simp
  qed
  assume m: "select_menu_item (ci_menu_item_id c) s = Some m"
  have "find (\<lambda>c. ci_id c = cid \<and> ci_user_id c = u
                 \<and> select_menu_item (ci_menu_item_id c) s \<noteq> None) (cart_items s) = Some c"
  proof (rule find_only)
    show "c \<in> set (cart_items s)" by (rule assms(2))
    show "ci_id c = cid \<and> ci_user_id c = u \<and> select_menu_item (ci_menu_item_id c) s \<noteq> None"
      using assms(3,4) m by simp
    show "x = c" if "x \<in> set (cart_items s)"
      "ci_id x = cid \<and> ci_user_id x = u \<and> select_menu_item (ci_menu_item_id x) s \<noteq> None" for x
      using o that by simp
  qed
  with m show "select_cart_item_join cid u s = Some (c, m)"
    by (simp add: select_cart_item_join_def)
qed

lemma update_quantity_statements_ok:
  assumes "distinct (map mi_id (menu_items s))" "distinct (map ci_id (cart_items s))"
    "c \<in> set (cart_items s)" "ci_id c = cid" "ci_user_id c = u"
    "select_menu_item vi s = Some m" "in_int4 v" "in_int4 (quantity_available m - d)"
  shows "update_quantity_statements u cid v d (quantity_available m) vi s
           = Inr (quantity_available m - d, change_available vi (- d) (set_line_quantity cid v s))"
proof -
  let ?s1 = "set_line_quantity cid v s"
  from assms(1,6) have "distinct (map mi_id (menu_items ?s1))" "select_menu_item vi ?s1 = Some m"
    by (simp_all add: set_line_quantity_tables cart_change_menu)
  from update_menu_items_minus_ok [OF this assms(8)] assms(8) show ?thesis
    by (simp add: update_quantity_statements_def update_cart_items_set_ok [OF assms(2-5,7)]
          int4_def)
qed

lemma update_cart_items_raises:
  "update_cart_items f P s = Inl e \<Longrightarrow> e = Numeric_value_out_of_range"
  by (simp add: update_cart_items_def split: if_splits)

lemma update_menu_items_raises:
  "update_menu_items f i s = Inl e \<Longrightarrow> e = Numeric_value_out_of_range"
  by (simp add: update_menu_items_def split: if_splits)

lemma update_quantity_statements_raises:
  assumes "\<not> in_int4 (va - d)"
  shows "update_quantity_statements u cid v d va vi s = Inl Numeric_value_out_of_range"
proof (cases "update_cart_items (\<lambda>q. v) (\<lambda>x. ci_id x = cid \<and> ci_user_id x = u) s")
  case (Inl e)
  with update_cart_items_raises [OF Inl] show ?thesis
    by (simp add: update_quantity_statements_def)
next
  case s1: (Inr s1)
  show ?thesis
  proof (cases "update_menu_items (\<lambda>q. q - d) vi s1")
    case (Inl e)
    with update_menu_items_raises [OF Inl] s1 show ?thesis
      by (simp add: update_quantity_statements_def)
  next
    case (Inr s2)
    with s1 assms show ?thesis
      by (simp add: update_quantity_statements_def int4_def)
  qed
qed

lemma update_quantity_statements_jsonb_ok:
  assumes "distinct (map mi_id (menu_items s))" "distinct (map ci_id (cart_items s))"
    "c \<in> set (cart_items s)" "ci_id c = cid" "ci_user_id c = u"
    "select_menu_item vi s = Some m" "in_int4 v" "in_int4 (quantity_available m - d)"
  shows "update_quantity_statements_jsonb u cid v d (Some (quantity_available m)) vi s
           = Inr (JInt (quantity_available m - d),
                  change_available vi (- d) (set_line_quantity cid v s))"
proof -
  let ?s1 = "change_available vi (- d) s"
  from assms(2,3) have "distinct (map ci_id (cart_items ?s1))" "c \<in> set (cart_items ?s1)"
    by (simp_all add: change_available_tables)
  from update_cart_items_set_ok [OF this assms(4,5,7)] assms(8) show ?thesis
    by (simp add: update_quantity_statements_jsonb_def
          update_menu_items_minus_ok [OF assms(1,6,8)] int4_def
          change_available_set_line_quantity)
qed

lemma update_quantity_statements_jsonb_raises:
  assumes "\<not> in_int4 (va - d)"
  shows "update_quantity_statements_jsonb u cid v d (Some va) vi s = Inl Numeric_value_out_of_range"
proof (cases "update_menu_items (\<lambda>q. q - d) vi s")
  case (Inl e)
  with update_menu_items_raises [OF Inl] show ?thesis
    by (simp add: update_quantity_statements_jsonb_def)
next
  case s1: (Inr s1)
  show ?thesis
  proof (cases "update_cart_items (\<lambda>q. v) (\<lambda>x. ci_id x = cid \<and> ci_user_id x = u) s1")
    case (Inl e)
    with update_cart_items_raises [OF Inl] s1 show ?thesis
      by (simp add: update_quantity_statements_jsonb_def)
  next
    case (Inr s2)
    with s1 assms show ?thesis
      by (simp add: update_quantity_statements_jsonb_def int4_def)
  qed
qed

text \<open>
  A target of zero or less: a call that does not fail has deleted the cart row, and on tables
  that meet the data model's constraints and whose stock fits \<open>integer\<close> the call on a row
  of the user's own does not fail, unless the difference the first revision computes is no
  \<open>integer\<close>.
\<close>

lemma delete_then_restore_gone:
  assumes "delete_then_restore u cid vq vi s = Inr s'" "cart_keys s"
    "c \<in> set (cart_items s)" "ci_id c = cid" "ci_user_id c = u"
  shows "cid \<notin> set (map ci_id (cart_items s'))"
proof -
  from assms(2) have d: "distinct (map ci_id (cart_items s))" by (simp add: cart_keys_def)
  from delete_then_restore_line [OF assms(1) d assms(3-5)]
  show ?thesis by (auto simp: change_available_tables delete_line_def)
qed

lemma update_json_deleted:
  assumes "update_cart_quantity_with_stock_check u cid q s = (out, s')" "\<not> failed out"
    "q \<le> 0" "cart_keys s"
  shows "cid \<notin> set (map ci_id (cart_items s'))"
proof (cases "select_cart_item_join cid u s")
  case None
  with assms(1,2) show ?thesis
    by (auto simp: update_cart_quantity_with_stock_check_def)
next
  case (Some cm)
  obtain c m where cm: "cm = (c, m)" by (cases cm)
  from Some cm have r: "c \<in> set (cart_items s)" "ci_id c = cid" "ci_user_id c = u"
    by (auto dest: select_cart_item_join_row)
  from assms(1,2,3) Some cm
  have "delete_then_restore u cid (ci_quantity c) (ci_menu_item_id c) s = Inr s'"
    by (auto simp: update_cart_quantity_with_stock_check_def Let_def
             split: sum.splits if_splits)
  from delete_then_restore_gone [OF this assms(4) r] show ?thesis .
qed

lemma remove_jsonb_deleted:
  assumes "remove_from_cart_with_quantity_restore_jsonb a u cid s = (out, s')" "\<not> failed out"
    "cart_keys s"
  shows "cid \<notin> set (map ci_id (cart_items s'))"
proof (cases "select_cart_item cid u s")
  case None
  with assms(1,2) show ?thesis
    by (auto simp: remove_from_cart_with_quantity_restore_jsonb_def split: if_splits)
next
  case (Some c)
  then have r: "c \<in> set (cart_items s)" "ci_id c = cid" "ci_user_id c = u"
    by (auto dest: select_cart_item_row)
  from assms(1,2) Some
  have "delete_then_restore u cid (ci_quantity c) (ci_menu_item_id c) s = Inr s'"
    by (auto simp: remove_from_cart_with_quantity_restore_jsonb_def Let_def
               restore_then_delete_eq split: sum.splits if_splits)
  from delete_then_restore_gone [OF this assms(3) r] show ?thesis .
qed

lemma set_quantity_deleted:
  assumes "call rv a (SetQuantity u cid q) s = (out, s')" "\<not> failed out" "q \<le> 0" "cart_keys s"
  shows "cid \<notin> set (map ci_id (cart_items s'))"
proof (cases rv)
  case Json
  with assms(1) have "update_cart_quantity_with_stock_check u cid q s = (out, s')" by simp
  from update_json_deleted [OF this assms(2-4)] show ?thesis .
next
  case Jsonb
  with assms(1,2,3)
  have "remove_from_cart_with_quantity_restore_jsonb a u cid s = (out, s')"
    by (auto simp: update_cart_quantity_with_stock_check_jsonb_def split: if_splits)
  from remove_jsonb_deleted [OF this assms(2,4)] show ?thesis .
qed

lemma restore_fits:
  assumes "consistent s" "stock_fits s" "c \<in> set (cart_items s)"
    "select_menu_item (ci_menu_item_id c) s = Some m"
  shows "in_int4 (quantity_available m + ci_quantity c)"
proof -
  from assms(1) have d: "distinct (map mi_id (menu_items s))"
    and p: "\<forall>c\<in>set (cart_items s). 0 < ci_quantity c"
    and n: "\<forall>j. select_menu_item j s \<noteq> None \<longrightarrow> 0 \<le> available s j"
    by (simp_all add: consistent_iff)
  from quantity_le_sum [OF p assms(3), of "\<lambda>x. ci_menu_item_id x = ci_menu_item_id c"]
  have "ci_quantity c \<le> cart_quantity s (ci_menu_item_id c)" by (simp add: cart_quantity_def)
  moreover from assms(2,4) d
  have "available s (ci_menu_item_id c) + cart_quantity s (ci_menu_item_id c) \<le> 2147483647"
    by (simp add: stock_fits_iff)
  moreover from n assms(4) have "0 \<le> available s (ci_menu_item_id c)" by simp
  moreover from p assms(3) have "0 < ci_quantity c" by simp
  ultimately show ?thesis using assms(4) by (simp add: available_select in_int4_def)
qed

lemma delete_then_restore_ok:
  assumes "consistent s" "stock_fits s" "c \<in> set (cart_items s)"
  shows "\<exists>s'. delete_then_restore u cid (ci_quantity c) (ci_menu_item_id c) s = Inr s'"
proof -
  let ?t = "delete_cart_items (\<lambda>x. ci_id x = cid \<and> ci_user_id x = u) s"
  from assms(1,3) obtain m where m: "select_menu_item (ci_menu_item_id c) s = Some m"
    by (auto simp: consistent_iff)
  from assms(1) have d: "distinct (map mi_id (menu_items ?t))"
    by (simp add: consistent_iff delete_cart_items_def)
  from m have m': "select_menu_item (ci_menu_item_id c) ?t = Some m"
    by (simp add: select_menu_item_def delete_cart_items_def)
  from update_menu_items_plus_ok [OF d m' restore_fits [OF assms m]]
  show ?thesis by (simp add: delete_then_restore_def)
qed

lemma set_quantity_nonpositive_succeeds:
  assumes "consistent s" "stock_fits s" "c \<in> set (cart_items s)" "ci_id c = cid"
    "ci_user_id c = u" "q \<le> 0" "\<not> auth_uid_differs a u"
    "rv = Json \<longrightarrow> - 2147483648 \<le> q - ci_quantity c"
  shows "\<not> failed (fst (call rv a (SetQuantity u cid q) s))"
proof -
  from assms(1) have k: "cart_keys s" by (simp add: consistent_iff)
  from assms(1,3) obtain m where m: "select_menu_item (ci_menu_item_id c) s = Some m"
    and p: "0 < ci_quantity c"
    by (auto simp: consistent_iff)
  from delete_then_restore_ok [OF assms(1-3), of u cid] obtain s'
    where s': "delete_then_restore u cid (ci_quantity c) (ci_menu_item_id c) s = Inr s'" ..
  show ?thesis
  proof (cases rv)
    case Json
    with assms(6,8) p have i: "int4 (q - ci_quantity c) = Inr (q - ci_quantity c)"
      by (simp add: int4_def in_int4_def)
    from p assms(6) have "\<not> 0 < q - ci_quantity c" by simp
    with Json owned_row(2) [OF k assms(3-5) m] i s' assms(6) show ?thesis
      by (simp add: update_cart_quantity_with_stock_check_def Let_def)
  next
    case Jsonb
    with owned_row(1) [OF k assms(3-5)] s' assms(6,7) show ?thesis
      by (simp add: update_cart_quantity_with_stock_check_jsonb_def
            remove_from_cart_with_quantity_restore_jsonb_def Let_def restore_then_delete_eq)
  qed
qed

section \<open>Evaluation\<close>

lemmas eval_defs =
  shop_def shop_with_cart_def shop_full_cart_def shop_full_stock_def scenario_def
  add_to_cart_with_quantity_check_def add_to_cart_with_quantity_check_jsonb_def
  update_cart_quantity_with_stock_check_def update_cart_quantity_with_stock_check_jsonb_def
  remove_from_cart_with_quantity_restore_def remove_from_cart_with_quantity_restore_jsonb_def
  place_order_with_cart_clear_def place_order_with_cart_clear_jsonb_def
  add_to_cart_statements_def delete_then_restore_def restore_then_delete_def
  update_quantity_statements_def update_quantity_statements_jsonb_def
  place_order_statements_def insert_order_items_loop_def cart_total_def cart_join_def
  select_menu_item_def select_cart_item_def select_cart_item_of_user_def select_cart_item_join_def
  update_menu_items_def update_cart_items_def delete_cart_items_def
  insert_cart_items_on_conflict_def insert_orders_def insert_order_items_def
  int4_def in_int4_def auth_uid_differs_def List.map_filter_simps Let_def
  available_def cart_quantity_def sold_quantity_def cancelled_def price_of_def
  consistent_def stock_fits_def integers_def cart_keys_def

lemma show_int_2: "show_int 2 = ''2''"
  by (simp add: show_int_def show_nat.simps)

section \<open>The claims\<close>

text \<open>
  Claim C1, the conservation invariant. From tables with no cart rows and no order rows,
  after every sequence of calls of the four operations, in either revision, each menu item is
  still there, and its \<open>quantity_available\<close> plus the quantities of its cart rows across all
  users plus the quantities of its order rows in orders that are not cancelled is the
  quantity it was stocked with.
\<close>

theorem conservation:
  assumes "cart_items s0 = []" and "order_items s0 = []" and "select_menu_item i s0 = Some m0"
  shows "select_menu_item i (run rv reqs s0) \<noteq> None
    \<and> available (run rv reqs s0) i + cart_quantity (run rv reqs s0) i
         + sold_quantity (run rv reqs s0) i = quantity_available m0"
proof -
  from assms(1) have k: "cart_keys s0" by (simp add: cart_keys_def)
  from assms(3) have e: "select_menu_item i s0 \<noteq> None" by simp
  from assms have "available s0 i + cart_quantity s0 i + sold_quantity s0 i = quantity_available m0"
    by (simp add: available_def cart_quantity_def sold_quantity_def)
  with run_stock [OF k e, of rv reqs] show ?thesis by simp
qed

theorem conservation_witness:
  "cart_items shop = [] \<and> order_items shop = []
   \<and> select_menu_item 1 shop
       = Some \<lparr>mi_id = 1, mi_name = ''X'', mi_price = 5 / 2, quantity_available = 5\<rparr>
   \<and> available (run Json scenario shop) 1 = 0
   \<and> cart_quantity (run Json scenario shop) 1 = 0
   \<and> sold_quantity (run Json scenario shop) 1 = 5
   \<and> available (run Json scenario shop) 1 + cart_quantity (run Json scenario shop) 1
        + sold_quantity (run Json scenario shop) 1 = 5"
proof -
  have h: "cart_items shop = []" "order_items shop = []"
    "select_menu_item 1 shop
       = Some \<lparr>mi_id = 1, mi_name = ''X'', mi_price = 5 / 2, quantity_available = 5\<rparr>"
    by (simp_all add: shop_def select_menu_item_def)
  have "available (run Json scenario shop) 1 = 0" "cart_quantity (run Json scenario shop) 1 = 0"
    by (simp_all add: eval_defs)
  with h conservation [OF h, of Json scenario] show ?thesis by simp
qed

lemma add_json_insufficient:
  "select_menu_item i s = Some m \<Longrightarrow> quantity_available m < q \<Longrightarrow>
   add_to_cart_with_quantity_check n u i q s =
     (Returned [(''success'', JBool False),
                (''error'', JStr (''Not enough stock available. Only ''
                   @ show_int (quantity_available m) @ '' items left.''))], s)"
  by (simp add: add_to_cart_with_quantity_check_def)

lemma add_jsonb_insufficient:
  "select_menu_item i s = Some m \<Longrightarrow> quantity_available m < q \<Longrightarrow> \<not> auth_uid_differs a u \<Longrightarrow>
   add_to_cart_with_quantity_check_jsonb a n u i q s =
     (Returned [(''success'', JBool False),
                (''error'', JStr (''Only '' @ show_int (quantity_available m)
                   @ '' items available''))], s)"
  by (simp add: add_to_cart_with_quantity_check_jsonb_def)

text \<open>
  Claim C2, no oversell. The procedures compare \<open>quantity_available\<close> with \<open>p_quantity\<close>
  and nothing else, so a quantity of zero or less passes: a negative one adds to
  \<open>quantity_available\<close> and is stored in the cart row, and removing that row subtracts it
  again (in the evaluation below, from a shop with five of an item, eight end in a cart
  and \<open>quantity_available\<close> at minus three, in either revision). With the
  interface's constraint on the input the claim holds. From tables that meet the data model's
  constraints (so every \<open>quantity_available\<close> is at least zero), after every sequence of
  calls in which every \<open>addItem\<close> asks for a quantity above zero, in either revision: every
  \<open>quantity_available\<close> is at least zero; for each menu item, what the calls together moved
  into carts and orders is at most what was available; and an \<open>addItem\<close> that asks for more
  than is available returns the stock shortfall with the amount available and leaves the
  tables as they were.
\<close>

theorem no_oversell:
  assumes "consistent s" and "list_all (\<lambda>(a, r). valid_request r) reqs"
  shows "list_all (\<lambda>m. 0 \<le> quantity_available m) (menu_items (run rv reqs s))
    \<and> (\<forall>i. select_menu_item i s \<noteq> None \<longrightarrow>
          cart_quantity (run rv reqs s) i + sold_quantity (run rv reqs s) i
            - (cart_quantity s i + sold_quantity s i) \<le> available s i)
    \<and> (\<forall>a n u i q m.
          select_menu_item i s = Some m \<and> quantity_available m < q \<and> \<not> auth_uid_differs a u \<longrightarrow>
          call rv a (AddItem n u i q) s =
            (Returned [(''success'', JBool False),
                       (''error'', JStr (case rv of
                           Json \<Rightarrow> ''Not enough stock available. Only ''
                             @ show_int (quantity_available m) @ '' items left.''
                         | Jsonb \<Rightarrow> ''Only '' @ show_int (quantity_available m)
                             @ '' items available''))], s))"
proof (intro conjI allI impI)
  from run_consistent [OF assms, of rv]
  show "list_all (\<lambda>m. 0 \<le> quantity_available m) (menu_items (run rv reqs s))"
    by (simp add: consistent_def list_all_iff)
next
  fix i assume e: "select_menu_item i s \<noteq> None"
  from assms(1) have k: "cart_keys s" by (simp add: consistent_iff)
  from run_consistent [OF assms, of rv] run_stock [OF k e, of rv reqs]
  have "0 \<le> available (run rv reqs s) i" by (simp add: consistent_iff)
  with run_stock [OF k e, of rv reqs]
  show "cart_quantity (run rv reqs s) i + sold_quantity (run rv reqs s) i
          - (cart_quantity s i + sold_quantity s i) \<le> available s i"
    by simp
next
  fix a n u i q m
  assume "select_menu_item i s = Some m \<and> quantity_available m < q \<and> \<not> auth_uid_differs a u"
  then show "call rv a (AddItem n u i q) s =
            (Returned [(''success'', JBool False),
                       (''error'', JStr (case rv of
                           Json \<Rightarrow> ''Not enough stock available. Only ''
                             @ show_int (quantity_available m) @ '' items left.''
                         | Jsonb \<Rightarrow> ''Only '' @ show_int (quantity_available m)
                             @ '' items available''))], s)"
    by (cases rv) (simp_all add: add_json_insufficient add_jsonb_insufficient)
qed

theorem no_oversell_counterexample:
  "consistent shop \<and> available shop 1 = 5
   \<and> \<not> failed (fst (call Json (Some 10) (AddItem 100 10 1 (- 3)) shop))
   \<and> \<not> failed (fst (call Jsonb (Some 10) (AddItem 100 10 1 (- 3)) shop))
   \<and> available (snd (call Json (Some 10) (AddItem 100 10 1 (- 3)) shop)) 1 = 8
   \<and> available (snd (call Jsonb (Some 10) (AddItem 100 10 1 (- 3)) shop)) 1 = 8
   \<and> run Json negative_quantity shop =
        \<lparr>menu_items =
           [\<lparr>mi_id = 1, mi_name = ''X'', mi_price = 5 / 2, quantity_available = - 3\<rparr>,
            \<lparr>mi_id = 2, mi_name = ''Y'', mi_price = 4, quantity_available = 3\<rparr>],
         cart_items = [\<lparr>ci_id = 101, ci_user_id = 11, ci_menu_item_id = 1, ci_quantity = 8\<rparr>],
         orders = [], order_items = []\<rparr>
   \<and> run Jsonb negative_quantity shop = run Json negative_quantity shop
   \<and> \<not> list_all (\<lambda>m. 0 \<le> quantity_available m) (menu_items (run Json negative_quantity shop))
   \<and> \<not> list_all (\<lambda>m. 0 \<le> quantity_available m) (menu_items (run Jsonb negative_quantity shop))
   \<and> \<not> cart_quantity (run Json negative_quantity shop) 1
          + sold_quantity (run Json negative_quantity shop) 1
          - (cart_quantity shop 1 + sold_quantity shop 1) \<le> available shop 1
   \<and> \<not> cart_quantity (run Jsonb negative_quantity shop) 1
          + sold_quantity (run Jsonb negative_quantity shop) 1
          - (cart_quantity shop 1 + sold_quantity shop 1) \<le> available shop 1"
  by (simp add: eval_defs negative_quantity_def)

theorem no_oversell_witness:
  "consistent shop_with_cart \<and> list_all (\<lambda>(a, r). valid_request r) scenario
   \<and> list_all (\<lambda>m. 0 \<le> quantity_available m) (menu_items (run Jsonb scenario shop_with_cart))
   \<and> select_menu_item 1 shop_with_cart \<noteq> None
   \<and> cart_quantity (run Jsonb scenario shop_with_cart) 1
        + sold_quantity (run Jsonb scenario shop_with_cart) 1
        - (cart_quantity shop_with_cart 1 + sold_quantity shop_with_cart 1)
      \<le> available shop_with_cart 1
   \<and> available shop_with_cart 1 = 2
   \<and> select_menu_item 1 shop_with_cart
       = Some \<lparr>mi_id = 1, mi_name = ''X'', mi_price = 5 / 2, quantity_available = 2\<rparr>
   \<and> (2 :: int) < 3 \<and> \<not> auth_uid_differs (Some 11) 11
   \<and> call Jsonb (Some 11) (AddItem 101 11 1 3) shop_with_cart =
        (Returned [(''success'', JBool False), (''error'', JStr ''Only 2 items available'')],
         shop_with_cart)"
proof -
  have h: "consistent shop_with_cart" "list_all (\<lambda>(a, r). valid_request r) scenario"
    by (simp_all add: consistent_def cart_keys_def cart_quantity_def shop_with_cart_def
          select_menu_item_def scenario_def)
  have m: "select_menu_item 1 shop_with_cart
       = Some \<lparr>mi_id = 1, mi_name = ''X'', mi_price = 5 / 2, quantity_available = 2\<rparr>"
    by (simp add: shop_with_cart_def select_menu_item_def)
  have a: "\<not> auth_uid_differs (Some 11) 11" "available shop_with_cart 1 = 2"
    by (simp_all add: auth_uid_differs_def available_def shop_with_cart_def select_menu_item_def)
  note t = no_oversell [OF h, of Jsonb]
  from t have c1: "list_all (\<lambda>m. 0 \<le> quantity_available m)
      (menu_items (run Jsonb scenario shop_with_cart))"
    by (rule conjunct1)
  from t [THEN conjunct2, THEN conjunct1, rule_format, of 1] m
  have c2: "cart_quantity (run Jsonb scenario shop_with_cart) 1
        + sold_quantity (run Jsonb scenario shop_with_cart) 1
        - (cart_quantity shop_with_cart 1 + sold_quantity shop_with_cart 1)
      \<le> available shop_with_cart 1"
    by simp
  from t [THEN conjunct2, THEN conjunct2, rule_format,
      where a = "Some 11" and n = 101 and u = 11 and i = 1 and q = 3
        and m = "\<lparr>mi_id = 1, mi_name = ''X'', mi_price = 5 / 2, quantity_available = 2\<rparr>"] m a
  have c3: "call Jsonb (Some 11) (AddItem 101 11 1 3) shop_with_cart =
        (Returned [(''success'', JBool False), (''error'', JStr ''Only 2 items available'')],
         shop_with_cart)"
    by (simp add: show_int_2)
  from h c1 c2 c3 m a show ?thesis by simp
qed

lemma place_json_menu:
  "menu_items (snd (place_order_with_cart_clear n u s)) = menu_items s"
  by (auto simp: place_order_with_cart_clear_def Let_def ordered_tables
           dest!: place_order_statements_ordered(1) split: sum.splits)

lemma place_jsonb_menu:
  "menu_items (snd (place_order_with_cart_clear_jsonb a n u s)) = menu_items s"
  by (auto simp: place_order_with_cart_clear_jsonb_def Let_def ordered_tables
           dest!: place_order_statements_ordered(1) split: sum.splits)

text \<open>
  Claim C7, the frame of checkout. A call of checkout, in either revision, whether it
  succeeds or fails, leaves the table \<open>menu_items\<close> as it was, so every item's
  \<open>quantity_available\<close> is what it was before the call.
\<close>

theorem checkout_frame:
  "menu_items (snd (call rv a (Checkout n u) s)) = menu_items s"
  by (cases rv) (simp_all add: place_json_menu place_jsonb_menu)

text \<open>
  Claim C8, failure atomicity. Whenever a call of one of the four operations fails, in
  either revision, with a result that says \<open>success: false\<close> or with an exception that
  escapes, all four tables are what they were before the call.
\<close>

theorem failure_atomicity:
  "failed (fst (call rv a r s)) \<Longrightarrow> snd (call rv a r s) = s"
  using call_failed [of rv a r s "fst (call rv a r s)" "snd (call rv a r s)"] by simp

theorem failure_atomicity_witness:
  "failed (fst (call Json None (AddItem 101 11 1 3) shop_with_cart))
   \<and> snd (call Json None (AddItem 101 11 1 3) shop_with_cart) = shop_with_cart
   \<and> failed (fst (call Json None (SetQuantity 10 100 (- 2147483648)) shop_with_cart))
   \<and> snd (call Json None (SetQuantity 10 100 (- 2147483648)) shop_with_cart) = shop_with_cart
   \<and> failed (fst (call Jsonb (Some 10) (RemoveItem 11 100) shop_with_cart))
   \<and> snd (call Jsonb (Some 10) (RemoveItem 11 100) shop_with_cart) = shop_with_cart
   \<and> failed (fst (call Jsonb (Some 11) (Checkout 500 11) shop_with_cart))
   \<and> snd (call Jsonb (Some 11) (Checkout 500 11) shop_with_cart) = shop_with_cart"
proof -
  have f: "failed (fst (call Json None (AddItem 101 11 1 3) shop_with_cart))"
    "failed (fst (call Json None (SetQuantity 10 100 (- 2147483648)) shop_with_cart))"
    "failed (fst (call Jsonb (Some 10) (RemoveItem 11 100) shop_with_cart))"
    "failed (fst (call Jsonb (Some 11) (Checkout 500 11) shop_with_cart))"
    by (simp_all add: eval_defs)
  from f f [THEN failure_atomicity] show ?thesis by simp
qed

lemma not_owned:
  assumes "cart_keys s" "c \<in> set (cart_items s)" "ci_id c = cid" "ci_user_id c \<noteq> u"
  shows "select_cart_item cid u s = None" "select_cart_item_join cid u s = None"
proof -
  from assms(1) have d: "distinct (map ci_id (cart_items s))" by (simp add: cart_keys_def)
  have "\<not> (ci_id x = cid \<and> ci_user_id x = u)" if "x \<in> set (cart_items s)" for x
    using key_eq_row [OF d that assms(2)] assms(3,4) by auto
  then have n: "find (\<lambda>c. ci_id c = cid \<and> ci_user_id c = u \<and> P c) (cart_items s) = None" for P
    by (auto simp: find_None_iff)
  from n [of "\<lambda>c. True"] show "select_cart_item cid u s = None"
    by (simp add: select_cart_item_def)
  from n show "select_cart_item_join cid u s = None"
    by (simp add: select_cart_item_join_def)
qed

text \<open>
  Claim C9, ownership isolation. When the cart row with the given \<open>id\<close> belongs to another
  user than the given one, \<open>setQuantity\<close>, with any quantity, and \<open>removeItem\<close> return
  ``Cart item not found'' (in the revision that checks \<open>auth.uid()\<close>, ``Unauthorized access''
  when the session's user is yet another one) and leave all four tables as they were.
\<close>

theorem ownership_isolation:
  assumes "cart_keys s" and "c \<in> set (cart_items s)" and "ci_id c = cid" and "ci_user_id c \<noteq> u"
  shows "call rv a (SetQuantity u cid q) s =
           (Returned [(''success'', JBool False),
                      (''error'', JStr (if rv = Jsonb \<and> auth_uid_differs a u
                                        then ''Unauthorized access'' else ''Cart item not found''))], s)
    \<and> call rv a (RemoveItem u cid) s =
           (Returned [(''success'', JBool False),
                      (''error'', JStr (if rv = Jsonb \<and> auth_uid_differs a u
                                        then ''Unauthorized access'' else ''Cart item not found''))], s)"
  using not_owned [OF assms]
  by (cases rv)
     (simp_all add: update_cart_quantity_with_stock_check_def
        remove_from_cart_with_quantity_restore_def
        update_cart_quantity_with_stock_check_jsonb_def
        remove_from_cart_with_quantity_restore_jsonb_def)

theorem ownership_isolation_witness:
  "cart_keys shop_with_cart
   \<and> \<lparr>ci_id = 100, ci_user_id = 10, ci_menu_item_id = 1, ci_quantity = 3\<rparr>
        \<in> set (cart_items shop_with_cart)
   \<and> (10 :: uuid) \<noteq> 11
   \<and> call Json (Some 11) (SetQuantity 11 100 1) shop_with_cart =
        (Returned [(''success'', JBool False), (''error'', JStr ''Cart item not found'')],
         shop_with_cart)
   \<and> call Json (Some 11) (RemoveItem 11 100) shop_with_cart =
        (Returned [(''success'', JBool False), (''error'', JStr ''Cart item not found'')],
         shop_with_cart)"
proof -
  have h: "cart_keys shop_with_cart"
    "\<lparr>ci_id = 100, ci_user_id = 10, ci_menu_item_id = 1, ci_quantity = 3\<rparr>
        \<in> set (cart_items shop_with_cart)"
    "ci_id \<lparr>ci_id = 100, ci_user_id = 10, ci_menu_item_id = 1, ci_quantity = 3\<rparr> = 100"
    "ci_user_id \<lparr>ci_id = 100, ci_user_id = 10, ci_menu_item_id = 1, ci_quantity = 3\<rparr> \<noteq> 11"
    by (simp_all add: cart_keys_def shop_with_cart_def)
  from ownership_isolation [OF h, of Json "Some 11" 1] h(1,2) show ?thesis by simp
qed

text \<open>
  Claim C10, cart rows stay above zero. From tables whose cart rows have their keys and all
  have a quantity above zero (none at the start, say), after every sequence of calls of the
  interface (\<open>addItem\<close> with a quantity above zero, \<open>setQuantity\<close> with any quantity,
  \<open>removeItem\<close>, checkout), in either revision, every cart row has a quantity above zero;
  and a \<open>setQuantity\<close> with a target of zero or less that then completes without failure
  leaves no cart row with the given \<open>id\<close>: the row is deleted. When the tables at the start
  also meet the data model's constraints and their stock fits \<open>integer\<close>, such a call on a
  row of the user's own does complete without failure, unless, in the revision that returns
  \<open>json\<close>, the difference between the target and the row's quantity is no \<open>integer\<close>.
\<close>

theorem cart_lines_positive:
  assumes "cart_keys s" and "list_all (\<lambda>c. 0 < ci_quantity c) (cart_items s)"
    and "list_all (\<lambda>(a, r). valid_request r) reqs"
  shows "list_all (\<lambda>c. 0 < ci_quantity c) (cart_items (run rv reqs s))
    \<and> (\<forall>a u cid q.
          q \<le> 0 \<and> \<not> failed (fst (call rv a (SetQuantity u cid q) (run rv reqs s))) \<longrightarrow>
          cid \<notin> set (map ci_id
                   (cart_items (snd (call rv a (SetQuantity u cid q) (run rv reqs s))))))
    \<and> (consistent s \<and> stock_fits s \<longrightarrow>
        (\<forall>a u cid q c.
          q \<le> 0 \<and> c \<in> set (cart_items (run rv reqs s)) \<and> ci_id c = cid \<and> ci_user_id c = u
          \<and> \<not> auth_uid_differs a u \<and> (rv = Json \<longrightarrow> - 2147483648 \<le> q - ci_quantity c) \<longrightarrow>
          \<not> failed (fst (call rv a (SetQuantity u cid q) (run rv reqs s)))))"
proof (intro conjI allI impI)
  from run_positive [OF assms(1) _ assms(3), of rv] assms(2)
  show "list_all (\<lambda>c. 0 < ci_quantity c) (cart_items (run rv reqs s))"
    by (simp add: list_all_iff)
next
  fix a u cid q
  assume h: "q \<le> 0 \<and> \<not> failed (fst (call rv a (SetQuantity u cid q) (run rv reqs s)))"
  from set_quantity_deleted [OF surjective_pairing _ _ run_cart_keys [OF assms(1)]] h
  show "cid \<notin> set (map ci_id
                   (cart_items (snd (call rv a (SetQuantity u cid q) (run rv reqs s)))))"
    by blast
next
  fix a u cid q c
  assume w: "consistent s \<and> stock_fits s"
    and h: "q \<le> 0 \<and> c \<in> set (cart_items (run rv reqs s)) \<and> ci_id c = cid \<and> ci_user_id c = u
          \<and> \<not> auth_uid_differs a u \<and> (rv = Json \<longrightarrow> - 2147483648 \<le> q - ci_quantity c)"
  from w assms(3) have "consistent (run rv reqs s)" "stock_fits (run rv reqs s)"
    by (simp_all add: run_consistent run_stock_fits)
  from set_quantity_nonpositive_succeeds [OF this, of c cid u q a rv] h
  show "\<not> failed (fst (call rv a (SetQuantity u cid q) (run rv reqs s)))"
    by blast
qed

theorem cart_lines_positive_witness:
  "cart_keys shop_with_cart \<and> list_all (\<lambda>c. 0 < ci_quantity c) (cart_items shop_with_cart)
   \<and> list_all (\<lambda>(a, r). valid_request r) [(Some 11, AddItem 101 11 2 2)]
   \<and> consistent shop_with_cart \<and> stock_fits shop_with_cart
   \<and> cart_items (run Json [(Some 11, AddItem 101 11 2 2)] shop_with_cart)
      = [\<lparr>ci_id = 100, ci_user_id = 10, ci_menu_item_id = 1, ci_quantity = 3\<rparr>,
         \<lparr>ci_id = 101, ci_user_id = 11, ci_menu_item_id = 2, ci_quantity = 2\<rparr>]
   \<and> cart_items (run Jsonb [(Some 11, AddItem 101 11 2 2)] shop_with_cart)
      = [\<lparr>ci_id = 100, ci_user_id = 10, ci_menu_item_id = 1, ci_quantity = 3\<rparr>,
         \<lparr>ci_id = 101, ci_user_id = 11, ci_menu_item_id = 2, ci_quantity = 2\<rparr>]
   \<and> list_all (\<lambda>c. 0 < ci_quantity c)
        (cart_items (run Json [(Some 11, AddItem 101 11 2 2)] shop_with_cart))
   \<and> list_all (\<lambda>c. 0 < ci_quantity c)
        (cart_items (run Jsonb [(Some 11, AddItem 101 11 2 2)] shop_with_cart))
   \<and> \<not> failed (fst (call Json (Some 11) (SetQuantity 11 101 0)
                      (run Json [(Some 11, AddItem 101 11 2 2)] shop_with_cart)))
   \<and> 101 \<notin> set (map ci_id (cart_items (snd (call Json (Some 11) (SetQuantity 11 101 0)
                      (run Json [(Some 11, AddItem 101 11 2 2)] shop_with_cart)))))
   \<and> \<not> failed (fst (call Jsonb (Some 11) (SetQuantity 11 101 (- 1))
                      (run Jsonb [(Some 11, AddItem 101 11 2 2)] shop_with_cart)))
   \<and> 101 \<notin> set (map ci_id (cart_items (snd (call Jsonb (Some 11) (SetQuantity 11 101 (- 1))
                      (run Jsonb [(Some 11, AddItem 101 11 2 2)] shop_with_cart)))))
   \<and> snd (call Json (Some 11) (SetQuantity 11 101 0)
             (run Json [(Some 11, AddItem 101 11 2 2)] shop_with_cart)) = shop_with_cart
   \<and> snd (call Jsonb (Some 11) (SetQuantity 11 101 (- 1))
             (run Jsonb [(Some 11, AddItem 101 11 2 2)] shop_with_cart)) = shop_with_cart"
proof -
  let ?reqs = "[(Some 11, AddItem 101 11 2 2)] :: (uuid option \<times> request) list"
  let ?c = "\<lparr>ci_id = 101, ci_user_id = 11, ci_menu_item_id = 2, ci_quantity = 2\<rparr>"
  have h: "cart_keys shop_with_cart"
    "list_all (\<lambda>c. 0 < ci_quantity c) (cart_items shop_with_cart)"
    "list_all (\<lambda>(a, r). valid_request r) ?reqs"
    by (simp_all add: cart_keys_def shop_with_cart_def)
  have w: "consistent shop_with_cart \<and> stock_fits shop_with_cart"
    by (simp add: consistent_def stock_fits_def cart_keys_def cart_quantity_def
          shop_with_cart_def select_menu_item_def)
  have e: "cart_items (run Json ?reqs shop_with_cart)
      = [\<lparr>ci_id = 100, ci_user_id = 10, ci_menu_item_id = 1, ci_quantity = 3\<rparr>, ?c]"
    "cart_items (run Jsonb ?reqs shop_with_cart)
      = [\<lparr>ci_id = 100, ci_user_id = 10, ci_menu_item_id = 1, ci_quantity = 3\<rparr>, ?c]"
    by (simp_all add: eval_defs)
  have a: "\<not> auth_uid_differs (Some 11) 11" by (simp add: auth_uid_differs_def)
  note j = cart_lines_positive [OF h, of Json]
  note b = cart_lines_positive [OF h, of Jsonb]
  from j b have p: "list_all (\<lambda>c. 0 < ci_quantity c) (cart_items (run Json ?reqs shop_with_cart))"
    "list_all (\<lambda>c. 0 < ci_quantity c) (cart_items (run Jsonb ?reqs shop_with_cart))"
    by simp_all
  from j [THEN conjunct2, THEN conjunct2, rule_format, OF w,
      where c = ?c and cid = 101 and u = 11 and q = 0 and a = "Some 11"] e(1) a
  have fj: "\<not> failed (fst (call Json (Some 11) (SetQuantity 11 101 0)
                      (run Json ?reqs shop_with_cart)))"
    by simp
  from b [THEN conjunct2, THEN conjunct2, rule_format, OF w,
      where c = ?c and cid = 101 and u = 11 and q = "- 1" and a = "Some 11"] e(2) a
  have fb: "\<not> failed (fst (call Jsonb (Some 11) (SetQuantity 11 101 (- 1))
                      (run Jsonb ?reqs shop_with_cart)))"
    by simp
  from j [THEN conjunct2, THEN conjunct1, rule_format,
      where cid = 101 and u = 11 and q = 0 and a = "Some 11"] fj
  have gj: "101 \<notin> set (map ci_id (cart_items (snd (call Json (Some 11) (SetQuantity 11 101 0)
                      (run Json ?reqs shop_with_cart)))))"
    by simp
  from b [THEN conjunct2, THEN conjunct1, rule_format,
      where cid = 101 and u = 11 and q = "- 1" and a = "Some 11"] fb
  have gb: "101 \<notin> set (map ci_id (cart_items (snd (call Jsonb (Some 11) (SetQuantity 11 101 (- 1))
                      (run Jsonb ?reqs shop_with_cart)))))"
    by simp
  have s: "snd (call Json (Some 11) (SetQuantity 11 101 0)
             (run Json ?reqs shop_with_cart)) = shop_with_cart"
    "snd (call Jsonb (Some 11) (SetQuantity 11 101 (- 1))
             (run Jsonb ?reqs shop_with_cart)) = shop_with_cart"
    by (simp_all add: eval_defs)
  from h w e p fj fb gj gb s show ?thesis by simp
qed

lemma integers_menu:
  "integers s \<Longrightarrow> select_menu_item i s = Some m \<Longrightarrow> in_int4 (quantity_available m)"
  by (auto simp: integers_def list_all_iff select_menu_item_def dest: find_mem)

lemma add_json_not_found:
  "select_menu_item i s = None \<Longrightarrow>
   add_to_cart_with_quantity_check n u i q s =
     (Returned [(''success'', JBool False), (''error'', JStr ''Menu item not found'')], s)"
  by (simp add: add_to_cart_with_quantity_check_def)

lemma add_jsonb_not_found:
  "select_menu_item i s = None \<Longrightarrow> \<not> auth_uid_differs a u \<Longrightarrow>
   add_to_cart_with_quantity_check_jsonb a n u i q s =
     (Returned [(''success'', JBool False), (''error'', JStr ''Menu item not found'')], s)"
  by (simp add: add_to_cart_with_quantity_check_jsonb_def)

text \<open>
  Claim C3, the contract of \<open>addItem\<close>, as amended. On tables that meet the data model's
  constraints and hold \<open>integer\<close> quantities, a call with a quantity above zero (in the
  revision that checks \<open>auth.uid()\<close>, by a session the check lets pass): returns ``Menu item
  not found'' when there is no such menu row; returns the stock shortfall with the amount
  available when less is available than asked for; both leave the tables as they were.
  Otherwise it takes the quantity off the item's \<open>quantity_available\<close> and, when the user has
  no cart row for the item, adds one with that quantity (the generated \<open>id\<close> being new), or,
  when there is one and its quantity plus the quantity asked for is an \<open>integer\<close>, adds the
  quantity to it; the result reports the cart row's new quantity and the item's remaining
  stock. When the sum is no \<open>integer\<close>, the call reports ``integer out of range'' as an
  unexpected error and leaves the tables as they were.
\<close>

theorem add_item_contract:
  assumes "consistent s" and "integers s" and "0 < q" and "\<not> auth_uid_differs a u"
  shows "(select_menu_item i s = None \<longrightarrow>
            call rv a (AddItem n u i q) s =
              (Returned [(''success'', JBool False), (''error'', JStr ''Menu item not found'')], s))
    \<and> (\<forall>m. select_menu_item i s = Some m \<and> quantity_available m < q \<longrightarrow>
            call rv a (AddItem n u i q) s =
              (Returned [(''success'', JBool False),
                         (''error'', JStr (case rv of
                             Json \<Rightarrow> ''Not enough stock available. Only ''
                               @ show_int (quantity_available m) @ '' items left.''
                           | Jsonb \<Rightarrow> ''Only '' @ show_int (quantity_available m)
                               @ '' items available''))], s))
    \<and> (\<forall>m. select_menu_item i s = Some m \<and> q \<le> quantity_available m
             \<and> select_cart_item_of_user u i s = None \<and> n \<notin> set (map ci_id (cart_items s)) \<longrightarrow>
            snd (call rv a (AddItem n u i q) s) =
              add_line \<lparr>ci_id = n, ci_user_id = u, ci_menu_item_id = i, ci_quantity = q\<rparr>
                (change_available i (- q) s)
            \<and> reports (fst (call rv a (AddItem n u i q) s)) ''success'' = Some (JBool True)
            \<and> reports (fst (call rv a (AddItem n u i q) s)) ''new_quantity'' = Some (JInt q)
            \<and> reports (fst (call rv a (AddItem n u i q) s)) ''remaining_stock''
                = Some (JInt (quantity_available m - q)))
    \<and> (\<forall>m c. select_menu_item i s = Some m \<and> q \<le> quantity_available m
             \<and> select_cart_item_of_user u i s = Some c \<and> ci_quantity c + q \<le> 2147483647 \<longrightarrow>
            snd (call rv a (AddItem n u i q) s) =
              set_line_quantity (ci_id c) (ci_quantity c + q) (change_available i (- q) s)
            \<and> reports (fst (call rv a (AddItem n u i q) s)) ''success'' = Some (JBool True)
            \<and> reports (fst (call rv a (AddItem n u i q) s)) ''new_quantity''
                = Some (JInt (ci_quantity c + q))
            \<and> reports (fst (call rv a (AddItem n u i q) s)) ''remaining_stock''
                = Some (JInt (quantity_available m - q)))
    \<and> (\<forall>m c. select_menu_item i s = Some m \<and> q \<le> quantity_available m
             \<and> select_cart_item_of_user u i s = Some c \<and> 2147483647 < ci_quantity c + q \<longrightarrow>
            call rv a (AddItem n u i q) s =
              (Returned [(''success'', JBool False),
                         (''error'', JStr (case rv of
                             Json \<Rightarrow> ''Failed to add item to cart: integer out of range''
                           | Jsonb \<Rightarrow> ''Database error: integer out of range''))], s))"
proof (intro conjI allI impI)
  assume "select_menu_item i s = None"
  with assms(4) show "call rv a (AddItem n u i q) s =
      (Returned [(''success'', JBool False), (''error'', JStr ''Menu item not found'')], s)"
    by (cases rv) (simp_all add: add_json_not_found add_jsonb_not_found)
next
  fix m assume "select_menu_item i s = Some m \<and> quantity_available m < q"
  with assms(4) show "call rv a (AddItem n u i q) s =
              (Returned [(''success'', JBool False),
                         (''error'', JStr (case rv of
                             Json \<Rightarrow> ''Not enough stock available. Only ''
                               @ show_int (quantity_available m) @ '' items left.''
                           | Jsonb \<Rightarrow> ''Only '' @ show_int (quantity_available m)
                               @ '' items available''))], s)"
    by (cases rv) (simp_all add: add_json_insufficient add_jsonb_insufficient)
next
  fix m
  assume h: "select_menu_item i s = Some m \<and> q \<le> quantity_available m
             \<and> select_cart_item_of_user u i s = None \<and> n \<notin> set (map ci_id (cart_items s))"
  then have sel: "select_menu_item i s = Some m" and le: "q \<le> quantity_available m"
    and none: "select_cart_item_of_user u i s = None"
    and fresh: "n \<notin> set (map ci_id (cart_items s))"
    by simp_all
  from assms(1) have d: "distinct (map mi_id (menu_items s))" by (simp add: consistent_iff)
  note b = add_to_cart_statements_new_ok
    [OF d sel integers_menu [OF assms(2) sel] assms(3) le none fresh]
  from sel le none have j: "add_to_cart_with_quantity_check n u i q s =
      (Returned [(''success'', JBool True),
                 (''message'', JStr (mi_name m @ '' added to cart successfully!'')),
                 (''new_quantity'', JInt q),
                 (''remaining_stock'', JInt (quantity_available m - q))],
       add_line \<lparr>ci_id = n, ci_user_id = u, ci_menu_item_id = i, ci_quantity = q\<rparr>
                (change_available i (- q) s))"
    by (simp add: add_to_cart_with_quantity_check_def b)
  from sel le none assms(4) have jb: "add_to_cart_with_quantity_check_jsonb a n u i q s =
      (Returned [(''success'', JBool True),
                 (''message'', JStr ''Item added to cart successfully''),
                 (''cart_item_id'', JUuid n),
                 (''new_quantity'', JInt q),
                 (''remaining_stock'', JInt (quantity_available m - q))],
       add_line \<lparr>ci_id = n, ci_user_id = u, ci_menu_item_id = i, ci_quantity = q\<rparr>
                (change_available i (- q) s))"
    by (simp add: add_to_cart_with_quantity_check_jsonb_def b)
  show "snd (call rv a (AddItem n u i q) s) =
              add_line \<lparr>ci_id = n, ci_user_id = u, ci_menu_item_id = i, ci_quantity = q\<rparr>
                (change_available i (- q) s)"
    by (cases rv) (simp_all add: j jb)
  show "reports (fst (call rv a (AddItem n u i q) s)) ''success'' = Some (JBool True)"
    by (cases rv) (simp_all add: j jb)
  show "reports (fst (call rv a (AddItem n u i q) s)) ''new_quantity'' = Some (JInt q)"
    by (cases rv) (simp_all add: j jb)
  show "reports (fst (call rv a (AddItem n u i q) s)) ''remaining_stock''
                = Some (JInt (quantity_available m - q))"
    by (cases rv) (simp_all add: j jb)
next
  fix m c
  assume h: "select_menu_item i s = Some m \<and> q \<le> quantity_available m
             \<and> select_cart_item_of_user u i s = Some c \<and> ci_quantity c + q \<le> 2147483647"
  then have sel: "select_menu_item i s = Some m" and le: "q \<le> quantity_available m"
    and some: "select_cart_item_of_user u i s = Some c"
    and fit: "ci_quantity c + q \<le> 2147483647"
    by simp_all
  from assms(1) have d: "distinct (map mi_id (menu_items s))" and k: "cart_keys s"
    and p: "\<forall>c\<in>set (cart_items s). 0 < ci_quantity c"
    by (simp_all add: consistent_iff)
  from some p have "0 < ci_quantity c" by (auto dest!: select_cart_item_of_user_row)
  with fit assms(3) have f: "in_int4 (ci_quantity c + q)" by (simp add: in_int4_def)
  note b = add_to_cart_statements_old_ok
    [OF d k sel integers_menu [OF assms(2) sel] assms(3) le some f]
  from sel le some have j: "add_to_cart_with_quantity_check n u i q s =
      (Returned [(''success'', JBool True),
                 (''message'', JStr (mi_name m @ '' added to cart successfully!'')),
                 (''new_quantity'', JInt (ci_quantity c + q)),
                 (''remaining_stock'', JInt (quantity_available m - q))],
       set_line_quantity (ci_id c) (ci_quantity c + q) (change_available i (- q) s))"
    by (simp add: add_to_cart_with_quantity_check_def b)
  from sel le some assms(4) have jb: "add_to_cart_with_quantity_check_jsonb a n u i q s =
      (Returned [(''success'', JBool True),
                 (''message'', JStr ''Item added to cart successfully''),
                 (''cart_item_id'', JUuid (ci_id c)),
                 (''new_quantity'', JInt (ci_quantity c + q)),
                 (''remaining_stock'', JInt (quantity_available m - q))],
       set_line_quantity (ci_id c) (ci_quantity c + q) (change_available i (- q) s))"
    by (simp add: add_to_cart_with_quantity_check_jsonb_def b)
  show "snd (call rv a (AddItem n u i q) s) =
              set_line_quantity (ci_id c) (ci_quantity c + q) (change_available i (- q) s)"
    by (cases rv) (simp_all add: j jb)
  show "reports (fst (call rv a (AddItem n u i q) s)) ''success'' = Some (JBool True)"
    by (cases rv) (simp_all add: j jb)
  show "reports (fst (call rv a (AddItem n u i q) s)) ''new_quantity''
                = Some (JInt (ci_quantity c + q))"
    by (cases rv) (simp_all add: j jb)
  show "reports (fst (call rv a (AddItem n u i q) s)) ''remaining_stock''
                = Some (JInt (quantity_available m - q))"
    by (cases rv) (simp_all add: j jb)
next
  fix m c
  assume h: "select_menu_item i s = Some m \<and> q \<le> quantity_available m
             \<and> select_cart_item_of_user u i s = Some c \<and> 2147483647 < ci_quantity c + q"
  then have sel: "select_menu_item i s = Some m" and le: "q \<le> quantity_available m"
    and some: "select_cart_item_of_user u i s = Some c"
    and "\<not> in_int4 (ci_quantity c + q)"
    by (simp_all add: in_int4_def)
  note b = add_to_cart_statements_old_raises [OF some this(4), of n "quantity_available m"]
  from sel le some assms(4)
  show "call rv a (AddItem n u i q) s =
              (Returned [(''success'', JBool False),
                         (''error'', JStr (case rv of
                             Json \<Rightarrow> ''Failed to add item to cart: integer out of range''
                           | Jsonb \<Rightarrow> ''Database error: integer out of range''))], s)"
    by (cases rv)
       (simp_all add: add_to_cart_with_quantity_check_def add_to_cart_with_quantity_check_jsonb_def b)
qed

lemma show_int_digits: "show_int 0 = ''0''" "show_int 1 = ''1''" "show_int 3 = ''3''"
  by (simp_all add: show_int_def show_nat.simps)

theorem add_item_contract_counterexample:
  "consistent shop_full_cart \<and> integers shop_full_cart
   \<and> select_menu_item 1 shop_full_cart
       = Some \<lparr>mi_id = 1, mi_name = ''X'', mi_price = 5 / 2, quantity_available = 1\<rparr>
   \<and> select_cart_item_of_user 10 1 shop_full_cart
       = Some \<lparr>ci_id = 100, ci_user_id = 10, ci_menu_item_id = 1, ci_quantity = 2147483647\<rparr>
   \<and> call Json (Some 10) (AddItem 101 10 1 1) shop_full_cart =
        (Returned [(''success'', JBool False),
                   (''error'', JStr ''Failed to add item to cart: integer out of range'')],
         shop_full_cart)
   \<and> call Jsonb (Some 10) (AddItem 101 10 1 1) shop_full_cart =
        (Returned [(''success'', JBool False),
                   (''error'', JStr ''Database error: integer out of range'')],
         shop_full_cart)"
  by (simp add: eval_defs)

theorem add_item_contract_witness:
  "consistent shop_with_cart \<and> integers shop_with_cart \<and> \<not> auth_uid_differs (Some 11) 11
   \<and> select_menu_item 9 shop_with_cart = None
   \<and> call Jsonb (Some 11) (AddItem 101 11 9 1) shop_with_cart =
        (Returned [(''success'', JBool False), (''error'', JStr ''Menu item not found'')],
         shop_with_cart)
   \<and> select_menu_item 1 shop_with_cart
        = Some \<lparr>mi_id = 1, mi_name = ''X'', mi_price = 5 / 2, quantity_available = 2\<rparr>
   \<and> call Json (Some 11) (AddItem 101 11 1 3) shop_with_cart =
        (Returned [(''success'', JBool False),
                   (''error'', JStr ''Not enough stock available. Only 2 items left.'')],
         shop_with_cart)
   \<and> select_cart_item_of_user 11 1 shop_with_cart = None
   \<and> 101 \<notin> set (map ci_id (cart_items shop_with_cart))
   \<and> snd (call Json (Some 11) (AddItem 101 11 1 2) shop_with_cart) =
        add_line \<lparr>ci_id = 101, ci_user_id = 11, ci_menu_item_id = 1, ci_quantity = 2\<rparr>
          (change_available 1 (- 2) shop_with_cart)
   \<and> reports (fst (call Json (Some 11) (AddItem 101 11 1 2) shop_with_cart)) ''new_quantity''
        = Some (JInt 2)
   \<and> reports (fst (call Json (Some 11) (AddItem 101 11 1 2) shop_with_cart)) ''remaining_stock''
        = Some (JInt 0)
   \<and> select_cart_item_of_user 10 1 shop_with_cart
        = Some \<lparr>ci_id = 100, ci_user_id = 10, ci_menu_item_id = 1, ci_quantity = 3\<rparr>
   \<and> snd (call Jsonb (Some 10) (AddItem 101 10 1 2) shop_with_cart) =
        set_line_quantity 100 5 (change_available 1 (- 2) shop_with_cart)
   \<and> reports (fst (call Jsonb (Some 10) (AddItem 101 10 1 2) shop_with_cart)) ''new_quantity''
        = Some (JInt 5)
   \<and> reports (fst (call Jsonb (Some 10) (AddItem 101 10 1 2) shop_with_cart)) ''remaining_stock''
        = Some (JInt 0)
   \<and> consistent shop_full_cart \<and> integers shop_full_cart
   \<and> call Json None (AddItem 101 10 1 1) shop_full_cart =
        (Returned [(''success'', JBool False),
                   (''error'', JStr ''Failed to add item to cart: integer out of range'')],
         shop_full_cart)"
proof -
  have h: "consistent shop_with_cart" "integers shop_with_cart"
    by (simp_all add: consistent_def integers_def cart_keys_def in_int4_def shop_with_cart_def
          select_menu_item_def)
  have g: "consistent shop_full_cart" "integers shop_full_cart"
    by (simp_all add: consistent_def integers_def cart_keys_def in_int4_def shop_full_cart_def
          select_menu_item_def)
  have a: "\<not> auth_uid_differs (Some 11) 11" "\<not> auth_uid_differs (Some 10) 10"
    "\<not> auth_uid_differs None 10"
    by (simp_all add: auth_uid_differs_def)
  have m9: "select_menu_item 9 shop_with_cart = None"
    and m1: "select_menu_item 1 shop_with_cart
        = Some \<lparr>mi_id = 1, mi_name = ''X'', mi_price = 5 / 2, quantity_available = 2\<rparr>"
    and c11: "select_cart_item_of_user 11 1 shop_with_cart = None"
    and c10: "select_cart_item_of_user 10 1 shop_with_cart
        = Some \<lparr>ci_id = 100, ci_user_id = 10, ci_menu_item_id = 1, ci_quantity = 3\<rparr>"
    and f: "101 \<notin> set (map ci_id (cart_items shop_with_cart))"
    and mf: "select_menu_item 1 shop_full_cart
        = Some \<lparr>mi_id = 1, mi_name = ''X'', mi_price = 5 / 2, quantity_available = 1\<rparr>"
    and cf: "select_cart_item_of_user 10 1 shop_full_cart
        = Some \<lparr>ci_id = 100, ci_user_id = 10, ci_menu_item_id = 1, ci_quantity = 2147483647\<rparr>"
    by (simp_all add: shop_with_cart_def shop_full_cart_def select_menu_item_def
          select_cart_item_of_user_def)
  have p: "(0 :: int) < 1" "(0 :: int) < 2" "(0 :: int) < 3" by simp_all
  from add_item_contract [OF h p(1) a(1), where rv = Jsonb and i = 9 and n = 101, THEN conjunct1] m9
  have w1: "call Jsonb (Some 11) (AddItem 101 11 9 1) shop_with_cart =
        (Returned [(''success'', JBool False), (''error'', JStr ''Menu item not found'')],
         shop_with_cart)"
    by simp
  from add_item_contract [OF h p(3) a(1), where rv = Json and i = 1 and n = 101, THEN conjunct2, THEN conjunct1,
      rule_format, OF conjI, OF m1]
  have w2: "call Json (Some 11) (AddItem 101 11 1 3) shop_with_cart =
        (Returned [(''success'', JBool False),
                   (''error'', JStr ''Not enough stock available. Only 2 items left.'')],
         shop_with_cart)"
    by (simp add: show_int_2)
  from add_item_contract [OF h p(2) a(1), where rv = Json and i = 1 and n = 101, THEN conjunct2, THEN conjunct2,
      THEN conjunct1, rule_format, OF conjI, OF m1 conjI, OF _ conjI, OF _ c11 f]
  have w3: "snd (call Json (Some 11) (AddItem 101 11 1 2) shop_with_cart) =
        add_line \<lparr>ci_id = 101, ci_user_id = 11, ci_menu_item_id = 1, ci_quantity = 2\<rparr>
          (change_available 1 (- 2) shop_with_cart)"
    "reports (fst (call Json (Some 11) (AddItem 101 11 1 2) shop_with_cart)) ''new_quantity''
        = Some (JInt 2)"
    "reports (fst (call Json (Some 11) (AddItem 101 11 1 2) shop_with_cart)) ''remaining_stock''
        = Some (JInt 0)"
    by simp_all
  from add_item_contract [OF h p(2) a(2), where rv = Jsonb and i = 1 and n = 101, THEN conjunct2, THEN conjunct2,
      THEN conjunct2, THEN conjunct1, rule_format, OF conjI, OF m1 conjI, OF _ conjI, OF _ c10]
  have w4: "snd (call Jsonb (Some 10) (AddItem 101 10 1 2) shop_with_cart) =
        set_line_quantity 100 5 (change_available 1 (- 2) shop_with_cart)"
    "reports (fst (call Jsonb (Some 10) (AddItem 101 10 1 2) shop_with_cart)) ''new_quantity''
        = Some (JInt 5)"
    "reports (fst (call Jsonb (Some 10) (AddItem 101 10 1 2) shop_with_cart)) ''remaining_stock''
        = Some (JInt 0)"
    by simp_all
  from add_item_contract [OF g p(1) a(3), where rv = Json and i = 1 and n = 101, THEN conjunct2, THEN conjunct2,
      THEN conjunct2, THEN conjunct2, rule_format, OF conjI, OF mf conjI, OF _ conjI, OF _ cf]
  have w5: "call Json None (AddItem 101 10 1 1) shop_full_cart =
        (Returned [(''success'', JBool False),
                   (''error'', JStr ''Failed to add item to cart: integer out of range'')],
         shop_full_cart)"
    by simp
  from h g a m9 m1 c11 c10 f w1 w2 w3 w4 w5 show ?thesis by simp
qed

lemma integers_cart: "integers s \<Longrightarrow> c \<in> set (cart_items s) \<Longrightarrow> in_int4 (ci_quantity c)"
  by (auto simp: integers_def list_all_iff)

text \<open>
  Claim C4, the contract of \<open>setQuantity\<close> with a target above zero, as amended. On tables
  that meet the data model's constraints and hold \<open>integer\<close> quantities, for a cart row of
  the user and an \<open>integer\<close> target above zero (in the revision that checks \<open>auth.uid()\<close>, by
  a session the check lets pass), with the difference of the target and the row's quantity:
  when the difference is above zero and less is available, the call returns the stock
  shortfall with the amount available and leaves the tables as they were. Otherwise, when
  the item's \<open>quantity_available\<close> less the difference is an \<open>integer\<close>, it sets the row's
  quantity to the target and takes the difference off \<open>quantity_available\<close>, and the result
  reports the new quantity and the remaining stock; the revision that returns \<open>jsonb\<close> also
  reports the old quantity, the revision that returns \<open>json\<close> does not. When it is no
  \<open>integer\<close>, the call reports ``integer out of range'' as an unexpected error and leaves the
  tables as they were.
\<close>

theorem set_quantity_contract:
  assumes "consistent s" and "integers s"
    and "c \<in> set (cart_items s)" and "ci_id c = cid" and "ci_user_id c = u"
    and "0 < q" and "q \<le> 2147483647" and "\<not> auth_uid_differs a u"
  shows "(0 < q - ci_quantity c \<and> available s (ci_menu_item_id c) < q - ci_quantity c \<longrightarrow>
            call rv a (SetQuantity u cid q) s =
              (Returned [(''success'', JBool False),
                         (''error'', JStr (case rv of
                             Json \<Rightarrow> ''Not enough stock available. Only ''
                               @ show_int (available s (ci_menu_item_id c)) @ '' items left.''
                           | Jsonb \<Rightarrow> ''Only '' @ show_int (available s (ci_menu_item_id c))
                               @ '' additional items available''))], s))
    \<and> (\<not> (0 < q - ci_quantity c \<and> available s (ci_menu_item_id c) < q - ci_quantity c)
          \<and> available s (ci_menu_item_id c) - (q - ci_quantity c) \<le> 2147483647 \<longrightarrow>
            snd (call rv a (SetQuantity u cid q) s) =
              change_available (ci_menu_item_id c) (- (q - ci_quantity c))
                (set_line_quantity cid q s)
            \<and> reports (fst (call rv a (SetQuantity u cid q) s)) ''success'' = Some (JBool True)
            \<and> reports (fst (call rv a (SetQuantity u cid q) s)) ''new_quantity'' = Some (JInt q)
            \<and> reports (fst (call rv a (SetQuantity u cid q) s)) ''remaining_stock''
                = Some (JInt (available s (ci_menu_item_id c) - (q - ci_quantity c)))
            \<and> reports (fst (call rv a (SetQuantity u cid q) s)) ''old_quantity''
                = (case rv of Json \<Rightarrow> None | Jsonb \<Rightarrow> Some (JInt (ci_quantity c))))
    \<and> (\<not> (0 < q - ci_quantity c \<and> available s (ci_menu_item_id c) < q - ci_quantity c)
          \<and> 2147483647 < available s (ci_menu_item_id c) - (q - ci_quantity c) \<longrightarrow>
            call rv a (SetQuantity u cid q) s =
              (Returned [(''success'', JBool False),
                         (''error'', JStr (case rv of
                             Json \<Rightarrow> ''Failed to update quantity: integer out of range''
                           | Jsonb \<Rightarrow> ''Database error: integer out of range''))], s))"
proof -
  from assms(1) have d: "distinct (map mi_id (menu_items s))" and k: "cart_keys s"
    and rows: "\<forall>c\<in>set (cart_items s). 0 < ci_quantity c \<and> select_menu_item (ci_menu_item_id c) s \<noteq> None"
    and nn: "\<forall>j. select_menu_item j s \<noteq> None \<longrightarrow> 0 \<le> available s j"
    by (simp_all add: consistent_iff)
  from k have dc: "distinct (map ci_id (cart_items s))" by (simp add: cart_keys_def)
  from rows assms(3) obtain m where m: "select_menu_item (ci_menu_item_id c) s = Some m"
    and pos: "0 < ci_quantity c"
    by auto
  from m have av: "available s (ci_menu_item_id c) = quantity_available m"
    by (rule available_select)
  from nn m av have a0: "0 \<le> quantity_available m" by auto
  note sc = owned_row(1) [OF k assms(3-5)]
  note sj = owned_row(2) [OF k assms(3-5) m]
  from integers_cart [OF assms(2,3)] pos assms(6,7)
  have rd: "in_int4 (q - ci_quantity c)" and rq: "in_int4 q" "\<not> q \<le> 0"
    by (simp_all add: in_int4_def)
  let ?d = "q - ci_quantity c"
  show ?thesis
  proof (intro conjI impI)
    assume g: "0 < ?d \<and> available s (ci_menu_item_id c) < ?d"
    with sj rd av
    have j: "update_cart_quantity_with_stock_check u cid q s =
        (Returned [(''success'', JBool False),
                   (''error'', JStr (''Not enough stock available. Only ''
                      @ show_int (quantity_available m) @ '' items left.''))], s)"
      by (simp add: update_cart_quantity_with_stock_check_def int4_def Let_def)
    from g sc m rd rq av assms(8)
    have jb: "update_cart_quantity_with_stock_check_jsonb a u cid q s =
        (Returned [(''success'', JBool False),
                   (''error'', JStr (''Only '' @ show_int (quantity_available m)
                      @ '' additional items available''))], s)"
      by (simp add: update_cart_quantity_with_stock_check_jsonb_def int4_def Let_def)
    show "call rv a (SetQuantity u cid q) s =
              (Returned [(''success'', JBool False),
                         (''error'', JStr (case rv of
                             Json \<Rightarrow> ''Not enough stock available. Only ''
                               @ show_int (available s (ci_menu_item_id c)) @ '' items left.''
                           | Jsonb \<Rightarrow> ''Only '' @ show_int (available s (ci_menu_item_id c))
                               @ '' additional items available''))], s)"
      by (cases rv) (simp_all add: j jb av)
  next
    assume "\<not> (0 < ?d \<and> available s (ci_menu_item_id c) < ?d)
          \<and> available s (ci_menu_item_id c) - ?d \<le> 2147483647"
    then have g: "\<not> (0 < ?d \<and> quantity_available m < ?d)"
      and fit: "quantity_available m - ?d \<le> 2147483647"
      by (simp_all add: av)
    from g a0 fit have r: "in_int4 (quantity_available m - ?d)"
      by (auto simp: in_int4_def)
    note b = update_quantity_statements_ok [OF d dc assms(3-5) m rq(1) r]
    note bb = update_quantity_statements_jsonb_ok [OF d dc assms(3-5) m rq(1) r]
    from g sj rd rq
    have j: "update_cart_quantity_with_stock_check u cid q s =
        (Returned [(''success'', JBool True),
                   (''message'', JStr (mi_name m @ '' quantity updated successfully!'')),
                   (''new_quantity'', JInt q),
                   (''remaining_stock'', JInt (quantity_available m - ?d))],
         change_available (ci_menu_item_id c) (- ?d) (set_line_quantity cid q s))"
      by (simp add: update_cart_quantity_with_stock_check_def int4_def Let_def b)
    from g sc m rd rq assms(8)
    have jb: "update_cart_quantity_with_stock_check_jsonb a u cid q s =
        (Returned [(''success'', JBool True),
                   (''message'', JStr ''Cart quantity updated successfully''),
                   (''old_quantity'', JInt (ci_quantity c)),
                   (''new_quantity'', JInt q),
                   (''remaining_stock'', JInt (quantity_available m - ?d))],
         change_available (ci_menu_item_id c) (- ?d) (set_line_quantity cid q s))"
      by (simp add: update_cart_quantity_with_stock_check_jsonb_def int4_def Let_def bb)
    show "snd (call rv a (SetQuantity u cid q) s) =
              change_available (ci_menu_item_id c) (- ?d) (set_line_quantity cid q s)"
      by (cases rv) (simp_all add: j jb)
    show "reports (fst (call rv a (SetQuantity u cid q) s)) ''success'' = Some (JBool True)"
      by (cases rv) (simp_all add: j jb)
    show "reports (fst (call rv a (SetQuantity u cid q) s)) ''new_quantity'' = Some (JInt q)"
      by (cases rv) (simp_all add: j jb)
    show "reports (fst (call rv a (SetQuantity u cid q) s)) ''remaining_stock''
                = Some (JInt (available s (ci_menu_item_id c) - ?d))"
      by (cases rv) (simp_all add: j jb av)
    show "reports (fst (call rv a (SetQuantity u cid q) s)) ''old_quantity''
                = (case rv of Json \<Rightarrow> None | Jsonb \<Rightarrow> Some (JInt (ci_quantity c)))"
      by (cases rv) (simp_all add: j jb)
  next
    assume "\<not> (0 < ?d \<and> available s (ci_menu_item_id c) < ?d)
          \<and> 2147483647 < available s (ci_menu_item_id c) - ?d"
    then have g: "\<not> (0 < ?d \<and> quantity_available m < ?d)"
      and r: "\<not> in_int4 (quantity_available m - ?d)"
      by (simp_all add: av in_int4_def)
    note b = update_quantity_statements_raises [OF r, of u cid q "ci_menu_item_id c" s]
    note bb = update_quantity_statements_jsonb_raises [OF r, of u cid q "ci_menu_item_id c" s]
    from g sj rd rq
    have j: "update_cart_quantity_with_stock_check u cid q s =
        (Returned [(''success'', JBool False),
                   (''error'', JStr ''Failed to update quantity: integer out of range'')], s)"
      by (simp add: update_cart_quantity_with_stock_check_def int4_def Let_def b)
    from g sc m rd rq assms(8)
    have jb: "update_cart_quantity_with_stock_check_jsonb a u cid q s =
        (Returned [(''success'', JBool False),
                   (''error'', JStr ''Database error: integer out of range'')], s)"
      by (simp add: update_cart_quantity_with_stock_check_jsonb_def int4_def Let_def bb)
    show "call rv a (SetQuantity u cid q) s =
              (Returned [(''success'', JBool False),
                         (''error'', JStr (case rv of
                             Json \<Rightarrow> ''Failed to update quantity: integer out of range''
                           | Jsonb \<Rightarrow> ''Database error: integer out of range''))], s)"
      by (cases rv) (simp_all add: j jb)
  qed
qed

theorem set_quantity_contract_counterexample:
  "consistent shop_with_cart \<and> integers shop_with_cart
   \<and> fst (call Json (Some 10) (SetQuantity 10 100 5) shop_with_cart) =
        Returned [(''success'', JBool True),
                  (''message'', JStr ''X quantity updated successfully!''),
                  (''new_quantity'', JInt 5),
                  (''remaining_stock'', JInt 0)]
   \<and> reports (fst (call Json (Some 10) (SetQuantity 10 100 5) shop_with_cart)) ''old_quantity''
        = None
   \<and> consistent shop_full_stock \<and> integers shop_full_stock
   \<and> call Json (Some 10) (SetQuantity 10 100 1) shop_full_stock =
        (Returned [(''success'', JBool False),
                   (''error'', JStr ''Failed to update quantity: integer out of range'')],
         shop_full_stock)
   \<and> call Jsonb (Some 10) (SetQuantity 10 100 1) shop_full_stock =
        (Returned [(''success'', JBool False),
                   (''error'', JStr ''Database error: integer out of range'')],
         shop_full_stock)"
  by (simp add: eval_defs)

theorem set_quantity_contract_witness:
  "consistent shop_with_cart \<and> integers shop_with_cart
   \<and> \<lparr>ci_id = 100, ci_user_id = 10, ci_menu_item_id = 1, ci_quantity = 3\<rparr>
        \<in> set (cart_items shop_with_cart)
   \<and> \<not> auth_uid_differs (Some 10) 10
   \<and> available shop_with_cart 1 = 2
   \<and> call Json (Some 10) (SetQuantity 10 100 6) shop_with_cart =
        (Returned [(''success'', JBool False),
                   (''error'', JStr ''Not enough stock available. Only 2 items left.'')],
         shop_with_cart)
   \<and> snd (call Jsonb (Some 10) (SetQuantity 10 100 5) shop_with_cart) =
        change_available 1 (- 2) (set_line_quantity 100 5 shop_with_cart)
   \<and> reports (fst (call Jsonb (Some 10) (SetQuantity 10 100 5) shop_with_cart)) ''new_quantity''
        = Some (JInt 5)
   \<and> reports (fst (call Jsonb (Some 10) (SetQuantity 10 100 5) shop_with_cart)) ''remaining_stock''
        = Some (JInt 0)
   \<and> reports (fst (call Jsonb (Some 10) (SetQuantity 10 100 5) shop_with_cart)) ''old_quantity''
        = Some (JInt 3)
   \<and> snd (call Json (Some 10) (SetQuantity 10 100 1) shop_with_cart) =
        change_available 1 2 (set_line_quantity 100 1 shop_with_cart)
   \<and> reports (fst (call Json (Some 10) (SetQuantity 10 100 1) shop_with_cart)) ''remaining_stock''
        = Some (JInt 4)
   \<and> reports (fst (call Json (Some 10) (SetQuantity 10 100 1) shop_with_cart)) ''old_quantity''
        = None
   \<and> consistent shop_full_stock \<and> integers shop_full_stock
   \<and> \<lparr>ci_id = 100, ci_user_id = 10, ci_menu_item_id = 1, ci_quantity = 5\<rparr>
        \<in> set (cart_items shop_full_stock)
   \<and> available shop_full_stock 1 = 2147483647
   \<and> call Jsonb (Some 10) (SetQuantity 10 100 1) shop_full_stock =
        (Returned [(''success'', JBool False),
                   (''error'', JStr ''Database error: integer out of range'')],
         shop_full_stock)"
proof -
  let ?c = "\<lparr>ci_id = 100, ci_user_id = 10, ci_menu_item_id = 1, ci_quantity = 3\<rparr>"
  let ?f = "\<lparr>ci_id = 100, ci_user_id = 10, ci_menu_item_id = 1, ci_quantity = 5\<rparr>"
  have h: "consistent shop_with_cart" "integers shop_with_cart"
    and g: "consistent shop_full_stock" "integers shop_full_stock"
    by (simp_all add: consistent_def integers_def cart_keys_def in_int4_def shop_with_cart_def
          shop_full_stock_def select_menu_item_def)
  have c: "?c \<in> set (cart_items shop_with_cart)" "ci_id ?c = 100" "ci_user_id ?c = 10"
    and f: "?f \<in> set (cart_items shop_full_stock)" "ci_id ?f = 100" "ci_user_id ?f = 10"
    by (simp_all add: shop_with_cart_def shop_full_stock_def)
  have a: "\<not> auth_uid_differs (Some 10) 10" by (simp add: auth_uid_differs_def)
  have av: "available shop_with_cart 1 = 2" "available shop_full_stock 1 = 2147483647"
    by (simp_all add: available_def select_menu_item_def shop_with_cart_def shop_full_stock_def)
  have q: "(0 :: int) < 6" "(6 :: int) \<le> 2147483647" "(0 :: int) < 5" "(5 :: int) \<le> 2147483647"
    "(0 :: int) < 1" "(1 :: int) \<le> 2147483647"
    by simp_all
  from set_quantity_contract [OF h c q(1,2) a, where rv = Json, THEN conjunct1] av
  have w1: "call Json (Some 10) (SetQuantity 10 100 6) shop_with_cart =
        (Returned [(''success'', JBool False),
                   (''error'', JStr ''Not enough stock available. Only 2 items left.'')],
         shop_with_cart)"
    by (simp add: show_int_2)
  from set_quantity_contract [OF h c q(3,4) a, where rv = Jsonb, THEN conjunct2, THEN conjunct1] av
  have w2: "snd (call Jsonb (Some 10) (SetQuantity 10 100 5) shop_with_cart) =
        change_available 1 (- 2) (set_line_quantity 100 5 shop_with_cart)"
    "reports (fst (call Jsonb (Some 10) (SetQuantity 10 100 5) shop_with_cart)) ''new_quantity''
        = Some (JInt 5)"
    "reports (fst (call Jsonb (Some 10) (SetQuantity 10 100 5) shop_with_cart)) ''remaining_stock''
        = Some (JInt 0)"
    "reports (fst (call Jsonb (Some 10) (SetQuantity 10 100 5) shop_with_cart)) ''old_quantity''
        = Some (JInt 3)"
    by simp_all
  from set_quantity_contract [OF h c q(5,6) a, where rv = Json, THEN conjunct2, THEN conjunct1] av
  have w3: "snd (call Json (Some 10) (SetQuantity 10 100 1) shop_with_cart) =
        change_available 1 2 (set_line_quantity 100 1 shop_with_cart)"
    "reports (fst (call Json (Some 10) (SetQuantity 10 100 1) shop_with_cart)) ''remaining_stock''
        = Some (JInt 4)"
    "reports (fst (call Json (Some 10) (SetQuantity 10 100 1) shop_with_cart)) ''old_quantity''
        = None"
    by simp_all
  from set_quantity_contract [OF g f q(5,6) a, where rv = Jsonb, THEN conjunct2, THEN conjunct2] av
  have w4: "call Jsonb (Some 10) (SetQuantity 10 100 1) shop_full_stock =
        (Returned [(''success'', JBool False),
                   (''error'', JStr ''Database error: integer out of range'')],
         shop_full_stock)"
    by simp
  from h g c(1) f(1) a av w1 w2 w3 w4 show ?thesis by simp
qed

section \<open>Checkout\<close>

lemma place_order_statements_ok:
  assumes "n \<notin> set (map o_id (orders s))"
  shows "place_order_statements n u (cart_total u s) s = Inr (ordered n u (joined_lines u s) s)"
proof -
  from assms obtain s' where s': "place_order_statements n u (cart_total u s) s = Inr s'"
    by (simp add: place_order_statements_def insert_orders_def)
  from place_order_statements_ordered(1) [OF s'] s' show ?thesis by simp
qed

lemma joined_lines_consistent:
  "consistent s \<Longrightarrow> joined_lines u s = filter (\<lambda>c. ci_user_id c = u) (cart_items s)"
  by (auto simp: consistent_iff joined_lines_def intro: filter_cong)

text \<open>
  Claim C6, the contract of checkout. On tables that meet the data model's constraints (in
  the revision that checks \<open>auth.uid()\<close>, for a session the check lets pass): when the user
  has no cart rows the call returns ``Cart is empty'' and leaves the tables as they were;
  otherwise, the generated order \<open>id\<close> being new, the tables afterwards are the tables before
  with one more order, pending and with payment pending, whose total is the sum over the
  user's cart rows of quantity times the menu's price, one more order line for each of these
  rows with the row's quantity and that price, and none of the user's cart rows; the result
  reports the order's \<open>id\<close> and the total.
\<close>

theorem checkout_contract:
  assumes "consistent s" and "\<not> auth_uid_differs a u"
  shows "(filter (\<lambda>c. ci_user_id c = u) (cart_items s) = [] \<longrightarrow>
            call rv a (Checkout n u) s =
              (Returned [(''success'', JBool False), (''error'', JStr ''Cart is empty'')], s))
    \<and> (filter (\<lambda>c. ci_user_id c = u) (cart_items s) \<noteq> [] \<and> n \<notin> set (map o_id (orders s)) \<longrightarrow>
            snd (call rv a (Checkout n u) s) =
              ordered n u (filter (\<lambda>c. ci_user_id c = u) (cart_items s)) s
            \<and> reports (fst (call rv a (Checkout n u) s)) ''success'' = Some (JBool True)
            \<and> reports (fst (call rv a (Checkout n u) s)) ''order_id'' = Some (JUuid n)
            \<and> reports (fst (call rv a (Checkout n u) s)) ''total_amount''
                = Some (JNum (sum_list (map (line_total s)
                     (filter (\<lambda>c. ci_user_id c = u) (cart_items s))))))"
proof (intro conjI impI)
  assume e: "filter (\<lambda>c. ci_user_id c = u) (cart_items s) = []"
  then have "\<not> list_ex (\<lambda>c. ci_user_id c = u) (cart_items s)"
    by (auto simp: list_ex_iff filter_empty_conv)
  with e assms(2) show "call rv a (Checkout n u) s =
      (Returned [(''success'', JBool False), (''error'', JStr ''Cart is empty'')], s)"
    by (cases rv)
       (simp_all add: place_order_with_cart_clear_def place_order_with_cart_clear_jsonb_def)
next
  assume "filter (\<lambda>c. ci_user_id c = u) (cart_items s) \<noteq> [] \<and> n \<notin> set (map o_id (orders s))"
  then have e: "filter (\<lambda>c. ci_user_id c = u) (cart_items s) \<noteq> []"
    and f: "n \<notin> set (map o_id (orders s))"
    by simp_all
  from e have x: "list_ex (\<lambda>c. ci_user_id c = u) (cart_items s)"
    by (auto simp: list_ex_iff filter_empty_conv)
  let ?lines = "filter (\<lambda>c. ci_user_id c = u) (cart_items s)"
  have t: "cart_total u s = sum_list (map (line_total s) ?lines)"
    using cart_join_lines [of "\<lambda>c p. of_int (ci_quantity c) * p" u s]
      joined_lines_consistent [OF assms(1), of u]
    by (simp add: cart_total_def line_total_def [abs_def])
  note b = place_order_statements_ok [OF f, of u, unfolded joined_lines_consistent [OF assms(1)]]
  from e have j: "place_order_with_cart_clear n u s =
      (Returned [(''success'', JBool True),
                 (''message'', JStr ''Order placed successfully!''),
                 (''order_id'', JUuid n),
                 (''total_amount'', JNum (sum_list (map (line_total s) ?lines))),
                 (''item_count'', JInt (int (length ?lines)))],
       ordered n u ?lines s)"
    by (simp add: place_order_with_cart_clear_def Let_def b t [symmetric])
  from x assms(2) have jb: "place_order_with_cart_clear_jsonb a n u s =
      (Returned [(''success'', JBool True),
                 (''message'', JStr ''Order placed successfully''),
                 (''order_id'', JUuid n),
                 (''total_amount'', JNum (sum_list (map (line_total s) ?lines)))],
       ordered n u ?lines s)"
    by (simp add: place_order_with_cart_clear_jsonb_def Let_def b t [symmetric])
  show "snd (call rv a (Checkout n u) s) = ordered n u ?lines s"
    by (cases rv) (simp_all add: j jb)
  show "reports (fst (call rv a (Checkout n u) s)) ''success'' = Some (JBool True)"
    by (cases rv) (simp_all add: j jb)
  show "reports (fst (call rv a (Checkout n u) s)) ''order_id'' = Some (JUuid n)"
    by (cases rv) (simp_all add: j jb)
  show "reports (fst (call rv a (Checkout n u) s)) ''total_amount''
                = Some (JNum (sum_list (map (line_total s) ?lines)))"
    by (cases rv) (simp_all add: j jb)
qed

theorem checkout_contract_witness:
  "consistent shop_with_cart \<and> \<not> auth_uid_differs (Some 11) 11 \<and> \<not> auth_uid_differs None 10
   \<and> filter (\<lambda>c. ci_user_id c = 11) (cart_items shop_with_cart) = []
   \<and> call Jsonb (Some 11) (Checkout 500 11) shop_with_cart =
        (Returned [(''success'', JBool False), (''error'', JStr ''Cart is empty'')],
         shop_with_cart)
   \<and> filter (\<lambda>c. ci_user_id c = 10) (cart_items shop_with_cart)
        = [\<lparr>ci_id = 100, ci_user_id = 10, ci_menu_item_id = 1, ci_quantity = 3\<rparr>]
   \<and> 500 \<notin> set (map o_id (orders shop_with_cart))
   \<and> snd (call Json None (Checkout 500 10) shop_with_cart) =
        \<lparr>menu_items =
           [\<lparr>mi_id = 1, mi_name = ''X'', mi_price = 5 / 2, quantity_available = 2\<rparr>,
            \<lparr>mi_id = 2, mi_name = ''Y'', mi_price = 4, quantity_available = 3\<rparr>],
         cart_items = [],
         orders = [\<lparr>o_id = 500, o_user_id = 10, o_total_amount = 15 / 2,
                    o_status = ''pending'', o_payment_status = ''pending''\<rparr>],
         order_items = [\<lparr>oi_order_id = 500, oi_menu_item_id = 1, oi_quantity = 3,
                         oi_price = 5 / 2\<rparr>]\<rparr>
   \<and> reports (fst (call Json None (Checkout 500 10) shop_with_cart)) ''order_id''
        = Some (JUuid 500)
   \<and> reports (fst (call Json None (Checkout 500 10) shop_with_cart)) ''total_amount''
        = Some (JNum (15 / 2))"
proof -
  have h: "consistent shop_with_cart"
    by (simp add: consistent_def cart_keys_def shop_with_cart_def select_menu_item_def)
  have a: "\<not> auth_uid_differs (Some 11) 11" "\<not> auth_uid_differs None 10"
    by (simp_all add: auth_uid_differs_def)
  have e: "filter (\<lambda>c. ci_user_id c = 11) (cart_items shop_with_cart) = []"
    and l: "filter (\<lambda>c. ci_user_id c = 10) (cart_items shop_with_cart)
        = [\<lparr>ci_id = 100, ci_user_id = 10, ci_menu_item_id = 1, ci_quantity = 3\<rparr>]"
    and f: "500 \<notin> set (map o_id (orders shop_with_cart))"
    by (simp_all add: shop_with_cart_def)
  from checkout_contract [OF h a(1), where rv = Jsonb and n = 500, THEN conjunct1] e
  have w1: "call Jsonb (Some 11) (Checkout 500 11) shop_with_cart =
        (Returned [(''success'', JBool False), (''error'', JStr ''Cart is empty'')],
         shop_with_cart)"
    by simp
  have o: "ordered 500 10 [\<lparr>ci_id = 100, ci_user_id = 10, ci_menu_item_id = 1, ci_quantity = 3\<rparr>]
             shop_with_cart =
        \<lparr>menu_items =
           [\<lparr>mi_id = 1, mi_name = ''X'', mi_price = 5 / 2, quantity_available = 2\<rparr>,
            \<lparr>mi_id = 2, mi_name = ''Y'', mi_price = 4, quantity_available = 3\<rparr>],
         cart_items = [],
         orders = [\<lparr>o_id = 500, o_user_id = 10, o_total_amount = 15 / 2,
                    o_status = ''pending'', o_payment_status = ''pending''\<rparr>],
         order_items = [\<lparr>oi_order_id = 500, oi_menu_item_id = 1, oi_quantity = 3,
                         oi_price = 5 / 2\<rparr>]\<rparr>"
    and t: "line_total shop_with_cart
              \<lparr>ci_id = 100, ci_user_id = 10, ci_menu_item_id = 1, ci_quantity = 3\<rparr> = 15 / 2"
    by (simp_all add: ordered_def order_line_def line_total_def price_of_def select_menu_item_def
          shop_with_cart_def)
  from checkout_contract [OF h a(2), where rv = Json and n = 500, THEN conjunct2] l f
  have w2: "snd (call Json None (Checkout 500 10) shop_with_cart) =
        ordered 500 10 [\<lparr>ci_id = 100, ci_user_id = 10, ci_menu_item_id = 1, ci_quantity = 3\<rparr>]
          shop_with_cart"
    "reports (fst (call Json None (Checkout 500 10) shop_with_cart)) ''order_id''
        = Some (JUuid 500)"
    "reports (fst (call Json None (Checkout 500 10) shop_with_cart)) ''total_amount''
        = Some (JNum (line_total shop_with_cart
              \<lparr>ci_id = 100, ci_user_id = 10, ci_menu_item_id = 1, ci_quantity = 3\<rparr>))"
    by simp_all
  from h a e l f w1 w2 o t show ?thesis by simp
qed

section \<open>A target of zero or less\<close>

lemma set_quantity_nonpositive_jsonb:
  "q \<le> 0 \<Longrightarrow> call Jsonb a (SetQuantity u cid q) s = call Jsonb a (RemoveItem u cid) s"
  by (simp add: update_cart_quantity_with_stock_check_jsonb_def
        remove_from_cart_with_quantity_restore_jsonb_def)

lemma set_quantity_nonpositive_json:
  assumes "\<forall>c\<in>set (cart_items s). 0 < ci_quantity c" and "q \<le> 0"
    and "\<forall>c\<in>set (cart_items s). ci_id c = cid \<longrightarrow> - 2147483648 \<le> q - ci_quantity c"
  shows "snd (call Json a (SetQuantity u cid q) s) = snd (call Json a (RemoveItem u cid) s)"
proof (cases "select_cart_item_join cid u s")
  case None
  then show ?thesis
    by (simp add: update_cart_quantity_with_stock_check_def
          remove_from_cart_with_quantity_restore_def)
next
  case (Some cm)
  obtain c m where cm: "cm = (c, m)" by (cases cm)
  from Some cm have "c \<in> set (cart_items s)" "ci_id c = cid"
    by (auto dest: select_cart_item_join_row)
  with assms have "in_int4 (q - ci_quantity c)" "\<not> 0 < q - ci_quantity c"
    by (auto simp: in_int4_def)
  with Some cm assms(2) show ?thesis
    by (simp add: update_cart_quantity_with_stock_check_def
          remove_from_cart_with_quantity_restore_def int4_def Let_def split: sum.splits)
qed

text \<open>
  Claim C5, \<open>setQuantity\<close> with a target of zero or less is removal. The revision that
  returns \<open>json\<close> computes \<open>p_new_quantity - v_current_quantity\<close> before it looks at the
  target, outside every block: for the target \<open>-2147483648\<close> and a cart row of quantity 3 the
  difference is no \<open>integer\<close>, the exception escapes, and the cart row and the stock stay as
  they were, while \<open>removeItem\<close> on the same tables deletes the row and gives its three back.
  The revision that returns \<open>jsonb\<close> hands every target of zero or less to the removal
  procedure before anything else (\<open>set_quantity_nonpositive_jsonb\<close>), and the revision that
  returns \<open>json\<close> agrees with \<open>removeItem\<close> whenever the difference is an \<open>integer\<close>
  (\<open>set_quantity_nonpositive_json\<close>).
\<close>

theorem set_quantity_underflow:
  "consistent shop_with_cart \<and> integers shop_with_cart
   \<and> call Json (Some 10) (SetQuantity 10 100 (- 2147483648)) shop_with_cart
        = (Raised Numeric_value_out_of_range, shop_with_cart)
   \<and> snd (call Json (Some 10) (RemoveItem 10 100) shop_with_cart) =
        \<lparr>menu_items =
           [\<lparr>mi_id = 1, mi_name = ''X'', mi_price = 5 / 2, quantity_available = 5\<rparr>,
            \<lparr>mi_id = 2, mi_name = ''Y'', mi_price = 4, quantity_available = 3\<rparr>],
         cart_items = [], orders = [], order_items = []\<rparr>
   \<and> snd (call Json (Some 10) (SetQuantity 10 100 (- 2147483648)) shop_with_cart)
        \<noteq> snd (call Json (Some 10) (RemoveItem 10 100) shop_with_cart)
   \<and> snd (call Jsonb (Some 10) (SetQuantity 10 100 (- 2147483648)) shop_with_cart)
        = snd (call Jsonb (Some 10) (RemoveItem 10 100) shop_with_cart)"
  by (simp add: eval_defs)

end
